theory Spec2Isabelle
  imports Main "HOL-Library.Word"
begin

unbundle bit_operations_syntax

section \<open>The output stream of the UniPhier audio HAL (src/audio_hw.c)\<close>

text \<open>
  The theory embeds the output path of \<^verbatim>\<open>audio_hw.c\<close>: the lazy start of the PCM
  (\<^verbatim>\<open>start_output_stream\<close>), the standby transition (\<^verbatim>\<open>do_out_standby\<close>,
  \<^verbatim>\<open>out_standby\<close>), the routing request (\<^verbatim>\<open>out_set_parameters\<close>), the write path
  with its buffer-fill controller (\<^verbatim>\<open>out_write\<close>) and the presentation position.

  Conventions of the embedding.
  \<^item> C integers are machine words. \<^verbatim>\<open>int\<close>, \<^verbatim>\<open>unsigned int\<close> and \<^verbatim>\<open>uint32_t\<close> are
    \<open>32 word\<close>; \<^verbatim>\<open>size_t\<close>, \<^verbatim>\<open>ssize_t\<close>, \<^verbatim>\<open>long\<close>, \<^verbatim>\<open>int64_t\<close> and \<^verbatim>\<open>uint64_t\<close> are
    \<open>64 word\<close> (the LP64 data model of the AArch64 board the HAL is written for).
    A signed value is read with \<open>sint\<close> and compared with \<open><s\<close>; \<open>ucast\<close> is a
    zero-extending or truncating conversion, \<open>scast\<close> a sign-extending one.
  \<^item> A function whose C execution can be undefined returns an \<open>option\<close>, and \<open>None\<close>
    stands for undefined behaviour: a null pointer dereferenced, a division by zero,
    a signed overflow, a read past the end of the caller's buffer.
  \<^item> The calls into tinyalsa, the resampler, the mixer router and libc are not part of
    the repository. What they answer is an input of the model (the records
    \<open>start_env\<close> and \<open>write_env\<close>), and every call is recorded as an \<open>event\<close> in the
    order in which the C code makes it.
  \<^item> The two mutexes are not modelled: every operation runs from its first lock to its
    last unlock without interleaving.
\<close>

type_synonym u32 = "32 word"
type_synonym s32 = "32 word"
type_synonym u64 = "64 word"
type_synonym size_t = "64 word"
type_synonym sample = "32 word"
type_synonym timespec = "int \<times> int"

text \<open>Handles returned by the libraries; \<open>None\<close> is the null pointer.\<close>

type_synonym pcm = nat
type_synonym resampler_itfe = nat
type_synonym heap_buffer = nat

subsection \<open>Build-time constants\<close>

text \<open>
  The macros \<^verbatim>\<open>PCM_CARD\<close>, \<^verbatim>\<open>PCM_DEVICE\<close>, \<^verbatim>\<open>NUM_OF_CHANNELS\<close>, \<^verbatim>\<open>OUT_SAMPLING_RATE\<close>,
  \<^verbatim>\<open>OUT_PERIOD_SIZE\<close>, \<^verbatim>\<open>OUT_SHORT_PERIOD_COUNT\<close> and \<^verbatim>\<open>OUT_LONG_PERIOD_COUNT\<close> come
  from the build, the \<^verbatim>\<open>AUDIO_DEVICE_\<close> masks and the frame size of a stream from the
  Android headers; \<^verbatim>\<open>ALWAYS_ALSA_OPEN\<close> selects one of the two variants the
  preprocessor can produce. None of them is defined in the two source files, so they
  are parameters of every definition below.
\<close>

record platform =
  PCM_CARD :: nat
  PCM_DEVICE :: nat
  NUM_OF_CHANNELS :: nat
  OUT_SAMPLING_RATE :: nat
  OUT_PERIOD_SIZE :: nat
  OUT_SHORT_PERIOD_COUNT :: nat
  OUT_LONG_PERIOD_COUNT :: nat
  ALWAYS_ALSA_OPEN :: bool
  AUDIO_DEVICE_OUT_SPEAKER :: u32
  AUDIO_DEVICE_OUT_WIRED_HEADSET :: u32
  AUDIO_DEVICE_OUT_WIRED_HEADPHONE :: u32
  AUDIO_DEVICE_OUT_ANLG_DOCK_HEADSET :: u32
  AUDIO_DEVICE_OUT_ALL_SCO :: u32
  AUDIO_DEVICE_IN_BUILTIN_MIC :: u32
  AUDIO_DEVICE_BIT_IN :: u32
  audio_stream_out_frame_size :: size_t

text \<open>The errno values of Linux that the code tests or returns.\<close>

definition ENOMEM :: s32 where
  "ENOMEM = 12"

definition EPIPE :: s32 where
  "EPIPE = 32"

definition MIN_WRITE_SLEEP_US :: s32 where
  "MIN_WRITE_SLEEP_US = 1000"

definition OUT_MAX_PREOD_SAMPLE :: "platform \<Rightarrow> int" where
  "OUT_MAX_PREOD_SAMPLE P =
     int (OUT_PERIOD_SIZE P * OUT_LONG_PERIOD_COUNT P) div int (NUM_OF_CHANNELS P * 4)"

definition MAX_WRITE_SLEEP_US :: "platform \<Rightarrow> int" where
  "MAX_WRITE_SLEEP_US P = (OUT_MAX_PREOD_SAMPLE P * 1000000) div int (OUT_SAMPLING_RATE P)"

definition OUT_BUFFER_TYPE_UNKNOWN :: s32 where
  "OUT_BUFFER_TYPE_UNKNOWN = 0"

definition OUT_BUFFER_TYPE_SHORT :: s32 where
  "OUT_BUFFER_TYPE_SHORT = 1"

definition OUT_BUFFER_TYPE_LONG :: s32 where
  "OUT_BUFFER_TYPE_LONG = 2"

definition ORIENTATION_LANDSCAPE :: s32 where
  "ORIENTATION_LANDSCAPE = 0"

definition ORIENTATION_PORTRAIT :: s32 where
  "ORIENTATION_PORTRAIT = 1"

definition ORIENTATION_SQUARE :: s32 where
  "ORIENTATION_SQUARE = 2"

definition ORIENTATION_UNDEFINED :: s32 where
  "ORIENTATION_UNDEFINED = 3"

subsection \<open>Data\<close>

datatype pcm_format = PCM_FORMAT_S16_LE | PCM_FORMAT_S32_LE

record pcm_config =
  channels :: u32
  rate :: u32
  period_size :: u32
  period_count :: u32
  format :: pcm_format
  start_threshold :: u32

text \<open>
  \<^verbatim>\<open>out->pcm_config\<close> is a pointer that is null or the address of the one global
  \<^verbatim>\<open>pcm_config_out\<close>; \<^verbatim>\<open>adev->active_out\<close> is null or the address of the stream.
\<close>

datatype config_ptr = Addr_pcm_config_out

datatype stream_ptr = Addr_out

record audio_device =
  out_device :: u32
  in_device :: u32
  adev_standby :: bool
  mic_mute :: bool
  orientation :: s32
  screen_off :: bool
  active_out :: "stream_ptr option"

record stream_out =
  pcm :: "pcm option"
  pcm_config :: "config_ptr option"
  standby :: bool
  written :: u64
  resampler :: "resampler_itfe option"
  buffer :: "heap_buffer option"
  buffer_frames :: size_t
  write_threshold :: s32
  cur_write_threshold :: s32
  buffer_type :: s32

record world =
  pcm_config_out :: pcm_config
  adev :: audio_device
  out :: stream_out

datatype event =
    Pcm_open nat nat
  | Pcm_close "pcm option"
  | Create_resampler u32 u32 u32
  | Release_resampler resampler_itfe
  | Malloc
  | Free heap_buffer
  | Resample_from_input resampler_itfe
  | Pcm_get_htimestamp
  | Usleep u32
  | Pcm_write "pcm option" "sample list" u32
  | Audio_route_reset
  | Audio_route_apply_path string
  | Audio_route_update_mixer

subsection \<open>Signed arithmetic of C\<close>

text \<open>An \<^verbatim>\<open>int\<close> addition or subtraction that leaves the range of \<^verbatim>\<open>int\<close> is undefined.\<close>

definition int_add :: "s32 \<Rightarrow> s32 \<Rightarrow> s32 option" where
  "int_add a b =
     (if - (2 ^ 31) \<le> sint a + sint b \<and> sint a + sint b < 2 ^ 31 then Some (a + b) else None)"

definition int_sub :: "s32 \<Rightarrow> s32 \<Rightarrow> s32 option" where
  "int_sub a b =
     (if - (2 ^ 31) \<le> sint a - sint b \<and> sint a - sint b < 2 ^ 31 then Some (a - b) else None)"

subsection \<open>Helper functions\<close>

text \<open>\<^verbatim>\<open>select_devices\<close>: only the calls into the mixer router, in their order.\<close>

definition select_devices :: "platform \<Rightarrow> audio_device \<Rightarrow> event list" where
  "select_devices P a =
     (let headphone_on = out_device a AND
            (AUDIO_DEVICE_OUT_WIRED_HEADSET P OR AUDIO_DEVICE_OUT_WIRED_HEADPHONE P);
          speaker_on = out_device a AND AUDIO_DEVICE_OUT_SPEAKER P;
          docked = out_device a AND AUDIO_DEVICE_OUT_ANLG_DOCK_HEADSET P;
          main_mic_on = in_device a AND AUDIO_DEVICE_IN_BUILTIN_MIC P
      in [Audio_route_reset]
         @ (if speaker_on \<noteq> 0 then [Audio_route_apply_path ''speaker''] else [])
         @ (if headphone_on \<noteq> 0 then [Audio_route_apply_path ''headphone''] else [])
         @ (if docked \<noteq> 0 then [Audio_route_apply_path ''dock''] else [])
         @ (if main_mic_on \<noteq> 0
            then (if orientation a = ORIENTATION_LANDSCAPE
                  then [Audio_route_apply_path ''main-mic-left'']
                  else [Audio_route_apply_path ''main-mic-top''])
            else [])
         @ [Audio_route_update_mixer])"

text \<open>
  \<^verbatim>\<open>do_out_standby\<close>. The three releases are made only when the stream is not yet in
  standby; with \<^verbatim>\<open>ALWAYS_ALSA_OPEN\<close> the PCM stays open.
\<close>

definition do_out_standby :: "platform \<Rightarrow> world \<Rightarrow> world \<times> event list" where
  "do_out_standby P w =
     (if \<not> standby (out w) then
        let (o1, t1) = (if ALWAYS_ALSA_OPEN P then (out w, [])
                        else ((out w)\<lparr>pcm := None\<rparr>, [Pcm_close (pcm (out w))]));
            a1 = (adev w)\<lparr>active_out := None\<rparr>;
            (o2, t2) = (case resampler o1 of
                          Some r \<Rightarrow> (o1\<lparr>resampler := None\<rparr>, [Release_resampler r])
                        | None \<Rightarrow> (o1, []));
            (o3, t3) = (case buffer o2 of
                          Some b \<Rightarrow> (o2\<lparr>buffer := None\<rparr>, [Free b])
                        | None \<Rightarrow> (o2, []))
        in (w\<lparr>adev := a1, out := o3\<lparr>standby := True\<rparr>\<rparr>, t1 @ t2 @ t3)
      else (w, []))"

text \<open>\<^verbatim>\<open>out_get_sample_rate\<close> ignores its argument and reads the global configuration.\<close>

definition out_get_sample_rate :: "world \<Rightarrow> u32" where
  "out_get_sample_rate w = rate (pcm_config_out w)"

definition deref_config :: "world \<Rightarrow> config_ptr \<Rightarrow> pcm_config" where
  "deref_config w p = (case p of Addr_pcm_config_out \<Rightarrow> pcm_config_out w)"

text \<open>What the libraries answer when a stream is started.\<close>

record start_env =
  pcm_open_ret :: "pcm option"
  pcm_is_ready_ret :: bool
  create_resampler_ret :: "resampler_itfe option"
  malloc_ret :: "heap_buffer option"

text \<open>
  \<^verbatim>\<open>start_output_stream\<close>, returning the C return value. When the PCM is not ready the
  function closes it (unless \<^verbatim>\<open>ALWAYS_ALSA_OPEN\<close>) and returns \<^verbatim>\<open>-ENOMEM\<close>; the field
  \<^verbatim>\<open>out->pcm\<close> keeps the handle.
\<close>

definition start_output_stream ::
  "platform \<Rightarrow> start_env \<Rightarrow> world \<Rightarrow> (s32 \<times> world \<times> event list) option" where
  "start_output_stream P e w =
     (let o1 = (if out_device (adev w) AND AUDIO_DEVICE_OUT_SPEAKER P \<noteq> 0
                then (out w)\<lparr>pcm_config := Some Addr_pcm_config_out,
                              buffer_type := OUT_BUFFER_TYPE_UNKNOWN\<rparr>
                else out w);
          (o2, t1) = (if pcm o1 = None
                      then (o1\<lparr>pcm := pcm_open_ret e\<rparr>, [Pcm_open (PCM_CARD P) (PCM_DEVICE P)])
                      else (o1, []))
      in if pcm o2 \<noteq> None \<and> \<not> pcm_is_ready_ret e
         then Some (- ENOMEM, w\<lparr>out := o2\<rparr>,
                    t1 @ (if ALWAYS_ALSA_OPEN P then [] else [Pcm_close (pcm o2)]))
         else
           (case pcm_config o2 of
              None \<Rightarrow> None
            | Some p \<Rightarrow>
                if out_get_sample_rate w \<noteq> rate (deref_config w p)
                then
                  (if out_get_sample_rate w = 0 then None
                   else
                     let o3 = o2\<lparr>resampler := create_resampler_ret e,
                                 buffer_frames :=
                                   ucast (period_size (pcm_config_out w) * rate (deref_config w p)
                                            div out_get_sample_rate w + 1),
                                 buffer := malloc_ret e\<rparr>
                     in Some (0, w\<lparr>adev := (adev w)\<lparr>active_out := Some Addr_out\<rparr>, out := o3\<rparr>,
                              t1 @ [Create_resampler (out_get_sample_rate w)
                                      (rate (deref_config w p)) (channels (deref_config w p)),
                                    Malloc]))
                else Some (0, w\<lparr>adev := (adev w)\<lparr>active_out := Some Addr_out\<rparr>, out := o2\<rparr>, t1)))"

subsection \<open>API functions\<close>

definition out_standby :: "platform \<Rightarrow> world \<Rightarrow> s32 \<times> world \<times> event list" where
  "out_standby P w = (let (w', t) = do_out_standby P w in (0, w', t))"

text \<open>
  \<^verbatim>\<open>out_set_parameters\<close>. The parsing of the key-value string is the library's:
  \<open>ret\<close> is what \<^verbatim>\<open>str_parms_get_str\<close> returns for the routing key and \<open>val\<close> the
  \<^verbatim>\<open>atoi\<close> of its value, converted to \<^verbatim>\<open>unsigned int\<close>.
\<close>

definition out_set_parameters :: "platform \<Rightarrow> s32 \<Rightarrow> u32 \<Rightarrow> world \<Rightarrow> s32 \<times> world \<times> event list" where
  "out_set_parameters P ret val w =
     (if 0 \<le>s ret \<and> out_device (adev w) \<noteq> val \<and> val \<noteq> 0
      then
        let (w1, t1) = do_out_standby P w;
            w2 = w1\<lparr>adev := (adev w1)\<lparr>out_device := val\<rparr>\<rparr>
        in (ret, w2, t1 @ select_devices P (adev w2))
      else (ret, w, []))"

text \<open>
  \<^verbatim>\<open>adev_set_parameters\<close>, with the two look-ups of the parser as inputs: \<open>ret1\<close> and
  \<open>value1\<close> for the key \<^verbatim>\<open>orientation\<close>, \<open>ret2\<close> and \<open>value2\<close> for \<^verbatim>\<open>screen_state\<close>.
\<close>

definition adev_set_parameters ::
  "platform \<Rightarrow> s32 \<Rightarrow> string \<Rightarrow> s32 \<Rightarrow> string \<Rightarrow> world \<Rightarrow> s32 \<times> world \<times> event list" where
  "adev_set_parameters P ret1 value1 ret2 value2 w =
     (let (w1, t1) =
            (if 0 \<le>s ret1 then
               let orientation' =
                     (if value1 = ''landscape'' then ORIENTATION_LANDSCAPE
                      else if value1 = ''portrait'' then ORIENTATION_PORTRAIT
                      else if value1 = ''square'' then ORIENTATION_SQUARE
                      else ORIENTATION_UNDEFINED)
               in if orientation' \<noteq> orientation (adev w)
                  then (w\<lparr>adev := (adev w)\<lparr>orientation := orientation'\<rparr>\<rparr>,
                        select_devices P ((adev w)\<lparr>orientation := orientation'\<rparr>))
                  else (w, [])
             else (w, []));
          w2 = (if 0 \<le>s ret2
                then w1\<lparr>adev := (adev w1)\<lparr>screen_off := (value2 \<noteq> ''on'')\<rparr>\<rparr>
                else w1)
      in (ret2, w2, t1))"

subsection \<open>The write path\<close>

text \<open>
  What the libraries answer during one \<^verbatim>\<open>out_write\<close>. \<open>htimestamp i\<close> is the answer of
  the \<open>i\<close>-th call of \<^verbatim>\<open>pcm_get_htimestamp\<close>: \<open>None\<close> when it returns a negative
  value and stores nothing, \<open>Some (avail, ts)\<close> when it returns 0 and stores both.
  \<open>resample_ret\<close> is what \<^verbatim>\<open>resample_from_input\<close> leaves in \<^verbatim>\<open>in_frames\<close>,
  \<^verbatim>\<open>out_frames\<close> and the scratch buffer.
\<close>

record write_env =
  start :: start_env
  htimestamp :: "nat \<Rightarrow> (u32 \<times> timespec) option"
  pcm_get_buffer_size_ret :: u32
  resample_ret :: "size_t \<times> size_t \<times> sample list"
  pcm_write_ret :: s32

record write_result =
  wr_ret :: "64 word"
  wr_world :: world
  wr_trace :: "event list"
  wr_buffer :: "sample list"

text \<open>
  Lines 366 to 379: the buffer type of a call is always \<^verbatim>\<open>OUT_BUFFER_TYPE_SHORT\<close>;
  the target threshold is recomputed when the stored type differs, and the current
  threshold is reset when the stored type is \<^verbatim>\<open>OUT_BUFFER_TYPE_UNKNOWN\<close>.
\<close>

definition adapt_buffer_type :: "platform \<Rightarrow> pcm_config \<Rightarrow> bool \<Rightarrow> stream_out \<Rightarrow> stream_out" where
  "adapt_buffer_type P cfg sco_on s =
     (let buffer_type' = OUT_BUFFER_TYPE_SHORT
      in if \<not> sco_on \<and> buffer_type' \<noteq> buffer_type s then
           let period_count' =
                 (if buffer_type' = OUT_BUFFER_TYPE_LONG
                  then (of_nat (OUT_LONG_PERIOD_COUNT P) :: size_t)
                  else of_nat (OUT_SHORT_PERIOD_COUNT P));
               s1 = s\<lparr>write_threshold := ucast (ucast (period_size cfg) * period_count')\<rparr>;
               s2 = (if buffer_type s1 = OUT_BUFFER_TYPE_UNKNOWN
                     then s1\<lparr>cur_write_threshold := write_threshold s1\<rparr>
                     else s1)
           in s2\<lparr>buffer_type := buffer_type'\<rparr>
         else s)"

text \<open>
  Lines 387 and 388, the loop \<^verbatim>\<open>for (i = 1; i < in_frames; i++) in_buffer[i] =
  in_buffer[i * 2]\<close> on the caller's buffer of 32-bit samples. A read at or past the
  length of the buffer is undefined.
\<close>

function discard_right :: "nat \<Rightarrow> nat \<Rightarrow> sample list \<Rightarrow> sample list option" where
  "discard_right i in_frames in_buffer =
     (if i < in_frames
      then (if i * 2 < length in_buffer
            then discard_right (Suc i) in_frames (in_buffer[i := in_buffer ! (i * 2)])
            else None)
      else Some in_buffer)"
  by pat_completeness auto
termination
  by (relation "measure (\<lambda>(i, in_frames, in_buffer). in_frames - i)") auto

declare discard_right.simps [simp del]

definition AUDIO_CHANNEL_OUT_STEREO :: u32 where
  "AUDIO_CHANNEL_OUT_STEREO = 3"

definition out_get_channels :: u32 where
  "out_get_channels = AUDIO_CHANNEL_OUT_STEREO"

text \<open>src/audio\_hw.h: the channel count of an output mask is the constant 2.\<close>

definition audio_channel_count_from_out_mask :: "u32 \<Rightarrow> u32" where
  "audio_channel_count_from_out_mask channel = 2"

text \<open>
  Lines 382 to 392. The index \<^verbatim>\<open>i\<close> is an \<^verbatim>\<open>unsigned int\<close>; it does not wrap for fewer
  than \<open>2 ^ 31\<close> frames, and a larger buffer is outside the model.
\<close>

definition reduce_channels ::
  "pcm_config \<Rightarrow> sample list \<Rightarrow> size_t \<Rightarrow> size_t \<Rightarrow> (sample list \<times> size_t) option" where
  "reduce_channels cfg in_buffer in_frames frame_size =
     (if channels cfg < audio_channel_count_from_out_mask out_get_channels
      then (if 2 ^ 31 \<le> unat in_frames then None
            else (case discard_right 1 (unat in_frames) in_buffer of
                    None \<Rightarrow> None
                  | Some b \<Rightarrow> Some (b, frame_size div 2)))
      else Some (in_buffer, frame_size))"

text \<open>Lines 395 to 403: the buffer handed to the hardware and its number of frames.\<close>

definition change_sample_rate ::
  "world \<Rightarrow> pcm_config \<Rightarrow> write_env \<Rightarrow> sample list \<Rightarrow> size_t
     \<Rightarrow> (sample list \<times> size_t \<times> event list) option" where
  "change_sample_rate w cfg e in_buffer in_frames =
     (if out_get_sample_rate w \<noteq> rate cfg
      then (case resampler (out w) of
              None \<Rightarrow> None
            | Some r \<Rightarrow>
                (case resample_ret e of
                   (in_frames', out_frames, data) \<Rightarrow> Some (data, out_frames, [Resample_from_input r])))
      else Some (in_buffer, in_frames, []))"

text \<open>
  Lines 420 to 422, the sleep computed from the excess of the fill level over the
  current threshold. The \<^verbatim>\<open>int\<close> difference is widened to \<^verbatim>\<open>long\<close> by the factor
  \<^verbatim>\<open>1000000L\<close>; the code takes it only when the difference is positive, so the 64-bit
  signed division of the C code is the unsigned division of words. The quotient is
  truncated to \<^verbatim>\<open>int\<close>.
\<close>

definition write_sleep_time_us :: "pcm_config \<Rightarrow> s32 \<Rightarrow> s32 \<Rightarrow> s32 option" where
  "write_sleep_time_us cfg kernel_frames cur =
     (case int_sub kernel_frames cur of
        None \<Rightarrow> None
      | Some d \<Rightarrow>
          if channels cfg * 4 = 0 \<or> rate cfg = 0 then None
          else Some (ucast ((scast d * 1000000 :: 64 word)
                              div ucast (channels cfg * 4) div ucast (rate cfg))))"

text \<open>
  Lines 411 to 434, the do-while loop. The state of the loop is the number \<open>i\<close> of
  telemetry calls made so far, \<^verbatim>\<open>kernel_frames\<close>, \<^verbatim>\<open>total_sleep_time_us\<close> and the events
  so far; the result is the last \<^verbatim>\<open>kernel_frames\<close>.
\<close>

function throttle_loop ::
  "platform \<Rightarrow> (nat \<Rightarrow> (u32 \<times> timespec) option) \<Rightarrow> u32 \<Rightarrow> pcm_config \<Rightarrow> s32
     \<Rightarrow> nat \<Rightarrow> s32 \<Rightarrow> s32 \<Rightarrow> event list \<Rightarrow> (s32 \<times> event list) option" where
  "throttle_loop P hts buffer_size cfg cur i kernel_frames total_sleep_time_us t =
     (case hts i of
        None \<Rightarrow> Some (kernel_frames, t @ [Pcm_get_htimestamp])
      | Some (avail, ts) \<Rightarrow>
          let kernel_frames' = buffer_size - avail;
              t1 = t @ [Pcm_get_htimestamp]
          in if cur <s kernel_frames' then
               (case write_sleep_time_us cfg kernel_frames' cur of
                  None \<Rightarrow> None
                | Some sleep_time_us \<Rightarrow>
                    if sleep_time_us <s MIN_WRITE_SLEEP_US then Some (kernel_frames', t1)
                    else
                      (case int_add total_sleep_time_us sleep_time_us of
                         None \<Rightarrow> None
                       | Some total' \<Rightarrow>
                           if sint total' \<le> MAX_WRITE_SLEEP_US P
                           then throttle_loop P hts buffer_size cfg cur (Suc i)
                                  kernel_frames' total' (t1 @ [Usleep sleep_time_us])
                           else Some (kernel_frames', t1 @ [Usleep sleep_time_us])))
             else Some (kernel_frames', t1))"
  by pat_completeness auto
termination
proof (relation "measure (\<lambda>(P, hts, buffer_size, cfg, cur, i, kernel_frames, tot, t).
                            nat (2 ^ 31 - sint tot))", goal_cases)
  case 1
  show ?case by simp
next
  case (2 P hts buffer_size cfg cur i kernel_frames tot t x2 avail ts kf' t1 sl tot')
  from 2 have ge: "1000 \<le> sint sl"
    by (simp add: word_sless_alt MIN_WRITE_SLEEP_US_def)
  from 2 have "int_add tot sl = Some tot'"
    by simp
  then have "sint tot' = sint tot + sint sl" and "sint tot + sint sl < 2 ^ 31"
    by (auto simp: int_add_def signed_take_bit_int_eq_self sint_word_ariths split: if_splits)
  with ge show ?case
    by simp
qed

declare throttle_loop.simps [simp del]

text \<open>
  Lines 443 to 458: the current threshold moves toward the target by a quarter of a
  period, or is reset just above the fill level. \<open>period_size\<close> is a \<^verbatim>\<open>size_t\<close>, so
  the arithmetic on it is unsigned and 64 bits wide, and its result is truncated to
  the \<^verbatim>\<open>int\<close> field.
\<close>

definition ramp_threshold :: "platform \<Rightarrow> size_t \<Rightarrow> s32 \<Rightarrow> stream_out \<Rightarrow> stream_out option" where
  "ramp_threshold P period_size' kernel_frames s =
     (if write_threshold s <s cur_write_threshold s then
        let s1 = s\<lparr>cur_write_threshold := ucast (scast (cur_write_threshold s) - period_size' div 4)\<rparr>
        in Some (if cur_write_threshold s1 <s write_threshold s1
                 then s1\<lparr>cur_write_threshold := write_threshold s1\<rparr>
                 else s1)
      else if cur_write_threshold s <s write_threshold s then
        let s1 = s\<lparr>cur_write_threshold := ucast (scast (cur_write_threshold s) + period_size' div 4)\<rparr>
        in Some (if write_threshold s1 <s cur_write_threshold s1
                 then s1\<lparr>cur_write_threshold := write_threshold s1\<rparr>
                 else s1)
      else if kernel_frames <s write_threshold s then
        (case int_sub (write_threshold s) kernel_frames of
           None \<Rightarrow> None
         | Some d \<Rightarrow>
             if (ucast (period_size' * of_nat (OUT_SHORT_PERIOD_COUNT P)) :: s32) <s d then
               (if period_size' = 0 then None
                else
                  let s1 = s\<lparr>cur_write_threshold :=
                              ucast ((scast kernel_frames div period_size' + 1) * period_size')\<rparr>
                  in Some (s1\<lparr>cur_write_threshold :=
                              ucast (scast (cur_write_threshold s1) + period_size' div 4)\<rparr>))
             else Some s)
      else Some s)"

text \<open>Lines 405 to 459, entered only when the route is not an SCO route.\<close>

definition throttle ::
  "platform \<Rightarrow> write_env \<Rightarrow> pcm_config \<Rightarrow> stream_out \<Rightarrow> (stream_out \<times> event list) option" where
  "throttle P e cfg s =
     (let period_size' = (ucast (period_size cfg) :: size_t)
      in (case throttle_loop P (htimestamp e) (pcm_get_buffer_size_ret e) cfg
                 (cur_write_threshold s) 0 0 0 [] of
            None \<Rightarrow> None
          | Some (kernel_frames, t) \<Rightarrow>
              (case ramp_threshold P period_size' kernel_frames s of
                 None \<Rightarrow> None
               | Some s' \<Rightarrow> Some (s', t))))"

text \<open>
  Lines 471 to 479, the label \<^verbatim>\<open>exit\<close>: the fallback sleep when \<open>ret\<close> is not 0, and the
  return of the byte count.
\<close>

definition out_write_exit ::
  "platform \<Rightarrow> s32 \<Rightarrow> size_t \<Rightarrow> world \<Rightarrow> event list \<Rightarrow> sample list \<Rightarrow> write_result option" where
  "out_write_exit P ret bytes w t buf =
     (if ret \<noteq> 0 then
        (if audio_stream_out_frame_size P = 0 \<or> out_get_sample_rate w = 0 then None
         else Some \<lparr>wr_ret = bytes, wr_world = w,
                    wr_trace = t @ [Usleep (ucast (bytes * 1000000 div audio_stream_out_frame_size P
                                                     div ucast (out_get_sample_rate w)))],
                    wr_buffer = buf\<rparr>)
      else Some \<lparr>wr_ret = bytes, wr_world = w, wr_trace = t, wr_buffer = buf\<rparr>)"

text \<open>Lines 360 to 469, reached when the stream is started.\<close>

definition out_write_body ::
  "platform \<Rightarrow> write_env \<Rightarrow> sample list \<Rightarrow> size_t \<Rightarrow> size_t \<Rightarrow> size_t \<Rightarrow> world \<Rightarrow> event list
     \<Rightarrow> write_result option" where
  "out_write_body P e buf bytes in_frames frame_size w t1 =
     (case pcm_config (out w) of
        None \<Rightarrow> None
      | Some p \<Rightarrow>
          let cfg = deref_config w p;
              sco_on = (out_device (adev w) AND AUDIO_DEVICE_OUT_ALL_SCO P \<noteq> 0);
              s1 = adapt_buffer_type P cfg sco_on (out w)
          in (case reduce_channels cfg buf in_frames frame_size of
               None \<Rightarrow> None
             | Some (buf1, frame_size1) \<Rightarrow>
                 (case change_sample_rate w cfg e buf1 in_frames of
                    None \<Rightarrow> None
                  | Some (in_buffer, out_frames, t2) \<Rightarrow>
                      (case (if \<not> sco_on then throttle P e cfg s1 else Some (s1, [])) of
                         None \<Rightarrow> None
                       | Some (s2, t3) \<Rightarrow>
                           let ret = pcm_write_ret e;
                               t4 = t1 @ t2 @ t3
                                      @ [Pcm_write (pcm s2) in_buffer (ucast (out_frames * frame_size1))]
                           in if ret = - EPIPE
                              then Some \<lparr>wr_ret = scast ret, wr_world = w\<lparr>out := s2\<rparr>,
                                         wr_trace = t4, wr_buffer = buf1\<rparr>
                              else
                                let s3 = (if ret = 0 then s2\<lparr>written := written s2 + out_frames\<rparr>
                                          else s2)
                                in out_write_exit P ret bytes (w\<lparr>out := s3\<rparr>) t4 buf1))))"

text \<open>\<^verbatim>\<open>out_write\<close> on the caller's buffer \<open>buf\<close> of \<open>bytes\<close> bytes.\<close>

definition out_write ::
  "platform \<Rightarrow> write_env \<Rightarrow> sample list \<Rightarrow> size_t \<Rightarrow> world \<Rightarrow> write_result option" where
  "out_write P e buf bytes w =
     (let frame_size = audio_stream_out_frame_size P
      in if frame_size = 0 then None
         else
           let in_frames = bytes div frame_size
           in if standby (out w) then
                (case start_output_stream P (start e) w of
                   None \<Rightarrow> None
                 | Some (ret, w1, t1) \<Rightarrow>
                     if ret \<noteq> 0 then out_write_exit P ret bytes w1 t1 buf
                     else out_write_body P e buf bytes in_frames frame_size
                            (w1\<lparr>out := (out w1)\<lparr>standby := False\<rparr>\<rparr>) t1)
              else out_write_body P e buf bytes in_frames frame_size w [])"

text \<open>
  \<^verbatim>\<open>out_get_presentation_position\<close>. \<open>h\<close> is the answer of \<^verbatim>\<open>pcm_get_htimestamp\<close>,
  \<open>frames\<close> and \<open>timestamp\<close> are the caller's variables before the call; the result
  is the return value and the two variables after it.
\<close>

definition out_get_presentation_position ::
  "(u32 \<times> timespec) option \<Rightarrow> world \<Rightarrow> u64 \<Rightarrow> timespec \<Rightarrow> (s32 \<times> u64 \<times> timespec) option" where
  "out_get_presentation_position h w frames timestamp =
     (case h of
        None \<Rightarrow> Some (- 1, frames, timestamp)
      | Some (avail, ts) \<Rightarrow>
          (case pcm_config (out w) of
             None \<Rightarrow> None
           | Some p \<Rightarrow>
               let kernel_buffer_size =
                     (ucast (period_size (deref_config w p) * period_count (deref_config w p)) :: size_t);
                   signed_frames = written (out w) - kernel_buffer_size + ucast avail
               in if 0 \<le>s signed_frames then Some (0, signed_frames, ts)
                  else Some (- 1, frames, ts)))"

subsection \<open>Opening and closing\<close>

definition EINVAL :: s32 where
  "EINVAL = 22"

text \<open>
  \<^verbatim>\<open>adev_open\<close>: the device and the global configuration it initialises.
  \<open>name_ok\<close> says that the name is the audio hardware interface, \<open>calloc_ok\<close> that
  the allocation succeeded.
\<close>

definition adev_open :: "platform \<Rightarrow> bool \<Rightarrow> bool \<Rightarrow> s32 \<times> (audio_device \<times> pcm_config) option" where
  "adev_open P name_ok calloc_ok =
     (if \<not> name_ok then (- EINVAL, None)
      else if \<not> calloc_ok then (- ENOMEM, None)
      else
        (0, Some (\<lparr>out_device = AUDIO_DEVICE_OUT_SPEAKER P,
                    in_device = AUDIO_DEVICE_IN_BUILTIN_MIC P AND NOT (AUDIO_DEVICE_BIT_IN P),
                    adev_standby = False, mic_mute = False,
                    orientation = ORIENTATION_UNDEFINED, screen_off = False,
                    active_out = None\<rparr>,
                  \<lparr>channels = of_nat (NUM_OF_CHANNELS P),
                    rate = of_nat (OUT_SAMPLING_RATE P),
                    period_size = of_nat (OUT_PERIOD_SIZE P),
                    period_count = of_nat (OUT_LONG_PERIOD_COUNT P),
                    format = PCM_FORMAT_S32_LE,
                    start_threshold = of_nat (OUT_PERIOD_SIZE P * OUT_SHORT_PERIOD_COUNT P)\<rparr>)))"

text \<open>
  \<^verbatim>\<open>adev_open_output_stream\<close>: a zeroed stream in standby; with \<^verbatim>\<open>ALWAYS_ALSA_OPEN\<close>
  the PCM is opened at once.
\<close>

definition adev_open_output_stream ::
  "platform \<Rightarrow> pcm option \<Rightarrow> bool \<Rightarrow> audio_device \<Rightarrow> pcm_config \<Rightarrow> s32 \<times> world option \<times> event list" where
  "adev_open_output_stream P open_ret calloc_ok a g =
     (if \<not> calloc_ok then (- ENOMEM, None, [])
      else
        let s = \<lparr>pcm = None, pcm_config = None, standby = True, written = 0,
                 resampler = None, buffer = None, buffer_frames = 0,
                 write_threshold = 0, cur_write_threshold = 0,
                 buffer_type = OUT_BUFFER_TYPE_UNKNOWN\<rparr>
        in if ALWAYS_ALSA_OPEN P
           then (0, Some \<lparr>pcm_config_out = g, adev = a,
                           out = s\<lparr>pcm_config := Some Addr_pcm_config_out, pcm := open_ret\<rparr>\<rparr>,
                 [Pcm_open (PCM_CARD P) (PCM_DEVICE P)])
           else (0, Some \<lparr>pcm_config_out = g, adev = a, out = s\<rparr>, []))"

text \<open>\<^verbatim>\<open>adev_close_output_stream\<close>: the stream as it is when it is freed.\<close>

definition adev_close_output_stream :: "platform \<Rightarrow> world \<Rightarrow> world \<times> event list" where
  "adev_close_output_stream P w = (let (r, w', t) = out_standby P w in (w', t))"

subsection \<open>Sequences of calls\<close>

text \<open>
  The calls a client makes on an open stream and its device. Closing the stream is
  \<^verbatim>\<open>out_standby\<close> followed by the release of the stream itself, so it ends a sequence
  and leaves the stream as \<open>Standby\<close> does. \<open>run\<close> is \<open>None\<close> as soon as one call
  is undefined.
\<close>

datatype op =
    Write write_env "sample list" size_t
  | Standby
  | Set_parameters s32 u32
  | Adev_set_parameters s32 string s32 string

fun step :: "platform \<Rightarrow> op \<Rightarrow> world \<Rightarrow> world option" where
  "step P (Write e buf bytes) w = map_option wr_world (out_write P e buf bytes w)"
| "step P Standby w = Some (fst (snd (out_standby P w)))"
| "step P (Set_parameters ret val) w = Some (fst (snd (out_set_parameters P ret val w)))"
| "step P (Adev_set_parameters ret1 value1 ret2 value2) w =
     Some (fst (snd (adev_set_parameters P ret1 value1 ret2 value2 w)))"

fun run :: "platform \<Rightarrow> op list \<Rightarrow> world \<Rightarrow> world option" where
  "run P [] w = Some w"
| "run P (x # xs) w = (case step P x w of None \<Rightarrow> None | Some w' \<Rightarrow> run P xs w')"

text \<open>The world after \<^verbatim>\<open>adev_open\<close> and \<^verbatim>\<open>adev_open_output_stream\<close> have succeeded.\<close>

definition opened :: "platform \<Rightarrow> pcm option \<Rightarrow> world option" where
  "opened P open_ret =
     (case snd (adev_open P True True) of
        None \<Rightarrow> None
      | Some (a, g) \<Rightarrow> fst (snd (adev_open_output_stream P open_ret True a g)))"

subsection \<open>A concrete configuration\<close>

text \<open>
  Values for the constants: a stereo 48 kHz output with periods of 240 frames, the
  device masks of Android's \<^verbatim>\<open>system/audio.h\<close> and frames of 8 bytes (two channels of
  32-bit samples). \<open>mono_platform\<close> is the same with one hardware channel.
\<close>

definition example_platform :: platform where
  "example_platform =
     \<lparr>PCM_CARD = 0, PCM_DEVICE = 0, NUM_OF_CHANNELS = 2, OUT_SAMPLING_RATE = 48000,
      OUT_PERIOD_SIZE = 240, OUT_SHORT_PERIOD_COUNT = 2, OUT_LONG_PERIOD_COUNT = 8,
      ALWAYS_ALSA_OPEN = False,
      AUDIO_DEVICE_OUT_SPEAKER = 0x2, AUDIO_DEVICE_OUT_WIRED_HEADSET = 0x4,
      AUDIO_DEVICE_OUT_WIRED_HEADPHONE = 0x8, AUDIO_DEVICE_OUT_ANLG_DOCK_HEADSET = 0x800,
      AUDIO_DEVICE_OUT_ALL_SCO = 0x70, AUDIO_DEVICE_IN_BUILTIN_MIC = 0x80000004,
      AUDIO_DEVICE_BIT_IN = 0x80000000, audio_stream_out_frame_size = 8\<rparr>"

definition mono_platform :: platform where
  "mono_platform = example_platform\<lparr>NUM_OF_CHANNELS := 1\<rparr>"

definition example_config :: pcm_config where
  "example_config =
     \<lparr>channels = 2, rate = 48000, period_size = 240, period_count = 8,
      format = PCM_FORMAT_S32_LE, start_threshold = 480\<rparr>"

definition example_adev :: audio_device where
  "example_adev =
     \<lparr>out_device = 0x2, in_device = 0x4, adev_standby = False, mic_mute = False,
      orientation = ORIENTATION_UNDEFINED, screen_off = False, active_out = None\<rparr>"

text \<open>The stream as \<^verbatim>\<open>adev_open_output_stream\<close> leaves it, and a stream that plays.\<close>

definition fresh_out :: stream_out where
  "fresh_out =
     \<lparr>pcm = None, pcm_config = None, standby = True, written = 0,
      resampler = None, buffer = None, buffer_frames = 0,
      write_threshold = 0, cur_write_threshold = 0, buffer_type = OUT_BUFFER_TYPE_UNKNOWN\<rparr>"

definition active_out_stream :: stream_out where
  "active_out_stream =
     \<lparr>pcm = Some 7, pcm_config = Some Addr_pcm_config_out, standby = False, written = 1000,
      resampler = None, buffer = None, buffer_frames = 0,
      write_threshold = 480, cur_write_threshold = 480, buffer_type = OUT_BUFFER_TYPE_SHORT\<rparr>"

definition fresh_world :: world where
  "fresh_world = \<lparr>pcm_config_out = example_config, adev = example_adev, out = fresh_out\<rparr>"

definition active_world :: world where
  "active_world =
     \<lparr>pcm_config_out = example_config,
      adev = example_adev\<lparr>active_out := Some Addr_out\<rparr>,
      out = active_out_stream\<rparr>"

text \<open>
  Answers of the libraries: the PCM opens as handle 7 and is ready, the telemetry
  reports 1900 free frames of a ring of 1920, the hardware write succeeds.
\<close>

definition example_start_env :: start_env where
  "example_start_env =
     \<lparr>pcm_open_ret = Some 7, pcm_is_ready_ret = True,
      create_resampler_ret = None, malloc_ret = None\<rparr>"

definition example_env :: write_env where
  "example_env =
     \<lparr>start = example_start_env,
      htimestamp = (\<lambda>i. Some (1900, (1, 0))),
      pcm_get_buffer_size_ret = 1920,
      resample_ret = (0, 0, []),
      pcm_write_ret = 0\<rparr>"

subsection \<open>Observations on a trace\<close>

fun is_pcm_write :: "event \<Rightarrow> bool" where
  "is_pcm_write (Pcm_write p d n) = True"
| "is_pcm_write _ = False"

text \<open>The frames a call submits: those of the byte count of a write, none otherwise.\<close>

fun frames_of :: "platform \<Rightarrow> op \<Rightarrow> nat" where
  "frames_of P (Write e buf bytes) = unat (bytes div audio_stream_out_frame_size P)"
| "frames_of P _ = 0"

fun is_resampler_call :: "event \<Rightarrow> bool" where
  "is_resampler_call (Create_resampler a b c) = True"
| "is_resampler_call Malloc = True"
| "is_resampler_call (Resample_from_input r) = True"
| "is_resampler_call _ = False"

text \<open>The active example stream after a request for the wired headset (route 4).\<close>

definition routed_world :: world where
  "routed_world =
     fresh_world\<lparr>adev := example_adev\<lparr>out_device := 0x4\<rparr>,
                  out := active_out_stream\<lparr>pcm := None, standby := True\<rparr>\<rparr>"

subsection \<open>The cases of the threshold controller\<close>

text \<open>
  Names for the three tests of lines 366 to 458 that the statement on the threshold
  refers to. \<open>fast_recovery_condition\<close> is the test of lines 453 to 455 and
  \<open>fast_recovery_threshold\<close> the value that lines 456 and 457 store (the C expression
  \<^verbatim>\<open>(kernel_frames / period_size + 1) * period_size + period_size / 4\<close> with its
  conversions). \<open>stored_buffer_type\<close> is the buffer type that line 366 compares with:
  \<^verbatim>\<open>start_output_stream\<close> has just reset it when the write started the stream on a
  speaker route.
\<close>

definition fast_recovery_condition :: "platform \<Rightarrow> size_t \<Rightarrow> s32 \<Rightarrow> s32 \<Rightarrow> bool" where
  "fast_recovery_condition P period_size' kernel_frames wt =
     (kernel_frames <s wt \<and>
      (case int_sub wt kernel_frames of
         None \<Rightarrow> False
       | Some d \<Rightarrow> (ucast (period_size' * of_nat (OUT_SHORT_PERIOD_COUNT P)) :: s32) <s d))"

definition fast_recovery_threshold :: "size_t \<Rightarrow> s32 \<Rightarrow> s32" where
  "fast_recovery_threshold period_size' kernel_frames =
     ucast (scast (ucast ((scast kernel_frames div period_size' + 1) * period_size') :: s32)
              + period_size' div 4)"

definition stored_buffer_type :: "platform \<Rightarrow> world \<Rightarrow> s32" where
  "stored_buffer_type P w =
     (if standby (out w) \<and> out_device (adev w) AND AUDIO_DEVICE_OUT_SPEAKER P \<noteq> 0
      then OUT_BUFFER_TYPE_UNKNOWN
      else buffer_type (out w))"

section \<open>Properties\<close>

subsection \<open>Auxiliary facts\<close>

lemma rate_deref [simp]: "rate (deref_config w p) = out_get_sample_rate w"
  by (cases p) (simp add: deref_config_def out_get_sample_rate_def)

lemma change_sample_rate_same [simp]:
  "change_sample_rate w (deref_config w p) e b n = Some (b, n, [])"
  by (simp add: change_sample_rate_def)

lemma do_out_standby_fields:
  "written (out (fst (do_out_standby P w))) = written (out w)"
  "pcm_config (out (fst (do_out_standby P w))) = pcm_config (out w)"
  "pcm_config_out (fst (do_out_standby P w)) = pcm_config_out w"
  "out_device (adev (fst (do_out_standby P w))) = out_device (adev w)"
  "standby (out (fst (do_out_standby P w)))"
  "\<not> standby (out w) \<Longrightarrow> resampler (out (fst (do_out_standby P w))) = None"
  "\<not> standby (out w) \<Longrightarrow> buffer (out (fst (do_out_standby P w))) = None"
  "resampler (out w) = None \<Longrightarrow> resampler (out (fst (do_out_standby P w))) = None"
  "buffer (out w) = None \<Longrightarrow> buffer (out (fst (do_out_standby P w))) = None"
  by (simp_all add: do_out_standby_def Let_def split: prod.splits option.splits)

lemma start_output_streamE:
  assumes "start_output_stream P e w = Some (ret, w1, t)"
  shows "written (out w1) = written (out w)"
    and "resampler (out w1) = resampler (out w)"
    and "buffer (out w1) = buffer (out w)"
    and "standby (out w1) = standby (out w)"
    and "write_threshold (out w1) = write_threshold (out w)"
    and "cur_write_threshold (out w1) = cur_write_threshold (out w)"
    and "pcm_config_out w1 = pcm_config_out w"
    and "out_device (adev w1) = out_device (adev w)"
    and "ret = 0 \<or> ret = - ENOMEM"
    and "ret = 0 \<Longrightarrow> pcm_config (out w1) \<noteq> None"
    and "pcm_config (out w) \<noteq> None \<Longrightarrow> pcm_config (out w1) \<noteq> None"
  using assms
  by (auto simp: start_output_stream_def Let_def ENOMEM_def split: if_splits option.splits prod.splits)



lemma throttle_loop_events:
  "throttle_loop P hts bs cfg cur i kf tot t = Some (k, t') \<Longrightarrow>
   \<exists>ext. t' = t @ ext \<and> (\<forall>ev \<in> set ext. ev = Pcm_get_htimestamp \<or> (\<exists>us. ev = Usleep us))"
proof (induction P hts bs cfg cur i kf tot t rule: throttle_loop.induct)
  case (1 P hts buffer_size cfg cur i kernel_frames tot t)
  note eq = throttle_loop.simps [of P hts buffer_size cfg cur i kernel_frames tot t]
  show ?case
  proof (cases "\<exists>avail ts sl tot'. hts i = Some (avail, ts) \<and> cur <s buffer_size - avail
                  \<and> write_sleep_time_us cfg (buffer_size - avail) cur = Some sl
                  \<and> \<not> sl <s MIN_WRITE_SLEEP_US \<and> int_add tot sl = Some tot'
                  \<and> sint tot' \<le> MAX_WRITE_SLEEP_US P")
    case True
    then obtain avail ts sl tot' where h: "hts i = Some (avail, ts)"
      and c: "cur <s buffer_size - avail" "write_sleep_time_us cfg (buffer_size - avail) cur = Some sl"
         "\<not> sl <s MIN_WRITE_SLEEP_US" "int_add tot sl = Some tot'" "sint tot' \<le> MAX_WRITE_SLEEP_US P"
      by blast
    with "1.prems" have rec: "throttle_loop P hts buffer_size cfg cur (Suc i) (buffer_size - avail) tot'
                    ((t @ [Pcm_get_htimestamp]) @ [Usleep sl]) = Some (k, t')"
      by (simp add: eq)
    from "1.IH" [OF h refl refl refl c(1) c(2) c(3) c(4) c(5) rec]
    show ?thesis by auto
  next
    case False
    with "1.prems" show ?thesis
      by (auto simp: eq Let_def split: option.splits if_splits prod.splits)
  qed
qed

lemma throttle_loop_kernel_frames:
  "throttle_loop P hts bs cfg cur i kf tot t = Some (k, t') \<Longrightarrow>
   k = kf \<or> (\<exists>j avail ts. hts j = Some (avail, ts) \<and> k = bs - avail)"
proof (induction P hts bs cfg cur i kf tot t rule: throttle_loop.induct)
  case (1 P hts buffer_size cfg cur i kernel_frames tot t)
  note eq = throttle_loop.simps [of P hts buffer_size cfg cur i kernel_frames tot t]
  show ?case
  proof (cases "\<exists>avail ts sl tot'. hts i = Some (avail, ts) \<and> cur <s buffer_size - avail
                  \<and> write_sleep_time_us cfg (buffer_size - avail) cur = Some sl
                  \<and> \<not> sl <s MIN_WRITE_SLEEP_US \<and> int_add tot sl = Some tot'
                  \<and> sint tot' \<le> MAX_WRITE_SLEEP_US P")
    case True
    then obtain avail ts sl tot' where h: "hts i = Some (avail, ts)"
      and c: "cur <s buffer_size - avail" "write_sleep_time_us cfg (buffer_size - avail) cur = Some sl"
         "\<not> sl <s MIN_WRITE_SLEEP_US" "int_add tot sl = Some tot'" "sint tot' \<le> MAX_WRITE_SLEEP_US P"
      by blast
    with "1.prems" have rec: "throttle_loop P hts buffer_size cfg cur (Suc i) (buffer_size - avail) tot'
                    ((t @ [Pcm_get_htimestamp]) @ [Usleep sl]) = Some (k, t')"
      by (simp add: eq)
    from "1.IH" [OF h refl refl refl c(1) c(2) c(3) c(4) c(5) rec] h
    show ?thesis by blast
  next
    case False
    with "1.prems" show ?thesis
      by (auto simp: eq Let_def split: option.splits if_splits prod.splits)
  qed
qed

lemma adapt_buffer_type_fields:
  "written (adapt_buffer_type P cfg sco s) = written s"
  "pcm (adapt_buffer_type P cfg sco s) = pcm s"
  "pcm_config (adapt_buffer_type P cfg sco s) = pcm_config s"
  "standby (adapt_buffer_type P cfg sco s) = standby s"
  "resampler (adapt_buffer_type P cfg sco s) = resampler s"
  "buffer (adapt_buffer_type P cfg sco s) = buffer s"
  by (simp_all add: adapt_buffer_type_def Let_def)

lemma ramp_threshold_fields:
  assumes "ramp_threshold P ps kf s = Some s'"
  shows "written s' = written s" "pcm s' = pcm s" "pcm_config s' = pcm_config s"
    "standby s' = standby s" "resampler s' = resampler s" "buffer s' = buffer s"
    "write_threshold s' = write_threshold s" "buffer_type s' = buffer_type s"
  using assms
  by (auto simp: ramp_threshold_def Let_def split: if_splits option.splits)

lemma throttle_fields:
  assumes "throttle P e cfg s = Some (s', t)"
  shows "written s' = written s" "pcm s' = pcm s" "pcm_config s' = pcm_config s"
    "standby s' = standby s" "resampler s' = resampler s" "buffer s' = buffer s"
    "write_threshold s' = write_threshold s" "buffer_type s' = buffer_type s"
  using assms ramp_threshold_fields
  by (auto simp: throttle_def Let_def split: option.splits prod.splits)

lemma throttle_events:
  assumes "throttle P e cfg s = Some (s', t)"
  shows "\<forall>ev \<in> set t. ev = Pcm_get_htimestamp \<or> (\<exists>us. ev = Usleep us)"
  using assms throttle_loop_events [of P "htimestamp e" "pcm_get_buffer_size_ret e" cfg "cur_write_threshold s" 0 0 0 "[]"]
  by (auto simp: throttle_def Let_def split: option.splits prod.splits)

lemma out_write_exit_Some:
  assumes "out_write_exit P ret bytes w t buf = Some r"
  shows "wr_ret r = bytes" "wr_world r = w" "wr_buffer r = buf"
    "ret = 0 \<Longrightarrow> wr_trace r = t"
    "ret \<noteq> 0 \<Longrightarrow> wr_trace r = t @ [Usleep (ucast (bytes * 1000000 div audio_stream_out_frame_size P
                                                     div ucast (out_get_sample_rate w)))]"
  using assms by (auto simp: out_write_exit_def split: if_splits)

lemma out_write_bodyE:
  assumes "out_write_body P e buf bytes in_frames fs w t1 = Some r"
  obtains p buf1 fs1 s2 t3 where
    "pcm_config (out w) = Some p"
    "reduce_channels (deref_config w p) buf in_frames fs = Some (buf1, fs1)"
    "(if out_device (adev w) AND AUDIO_DEVICE_OUT_ALL_SCO P = 0
      then throttle P e (deref_config w p) (adapt_buffer_type P (deref_config w p) False (out w))
      else Some (adapt_buffer_type P (deref_config w p) True (out w), [])) = Some (s2, t3)"
    "if pcm_write_ret e = - EPIPE
     then r = \<lparr>wr_ret = scast (pcm_write_ret e), wr_world = w\<lparr>out := s2\<rparr>,
               wr_trace = t1 @ t3 @ [Pcm_write (pcm s2) buf1 (ucast (in_frames * fs1))],
               wr_buffer = buf1\<rparr>
     else out_write_exit P (pcm_write_ret e) bytes
            (w\<lparr>out := (if pcm_write_ret e = 0 then s2\<lparr>written := written s2 + in_frames\<rparr> else s2)\<rparr>)
            (t1 @ t3 @ [Pcm_write (pcm s2) buf1 (ucast (in_frames * fs1))]) buf1 = Some r"
  using assms
  by (auto simp: out_write_body_def Let_def split: option.splits prod.splits if_splits)

lemma out_writeE:
  assumes "out_write P e buf bytes w = Some r"
  obtains (start_failed) ret w1 t1 where
      "standby (out w)" "start_output_stream P (start e) w = Some (ret, w1, t1)" "ret \<noteq> 0"
      "out_write_exit P ret bytes w1 t1 buf = Some r"
  | (started) w1 t1 where
      "standby (out w)" "start_output_stream P (start e) w = Some (0, w1, t1)"
      "out_write_body P e buf bytes (bytes div audio_stream_out_frame_size P)
         (audio_stream_out_frame_size P) (w1\<lparr>out := (out w1)\<lparr>standby := False\<rparr>\<rparr>) t1 = Some r"
  | (active)
      "\<not> standby (out w)"
      "out_write_body P e buf bytes (bytes div audio_stream_out_frame_size P)
         (audio_stream_out_frame_size P) w [] = Some r"
  using assms
  by (auto simp: out_write_def Let_def split: option.splits prod.splits if_splits)

lemma start_trace_no_write:
  "start_output_stream P e w = Some (ret, w1, t) \<Longrightarrow> \<not> list_ex is_pcm_write t"
  by (auto simp: start_output_stream_def Let_def split: if_splits option.splits prod.splits)

lemma throttle_no_write:
  assumes "throttle P e cfg s = Some (s', t)"
  shows "\<not> list_ex is_pcm_write t"
  using throttle_events [OF assms] by (auto simp: list_ex_iff)

lemma out_write_body_facts:
  assumes b: "out_write_body P e buf bytes in_frames fs w t1 = Some r"
    and t1: "\<not> list_ex is_pcm_write t1"
  shows "\<exists>pre p d n. \<not> list_ex is_pcm_write pre \<and>
           wr_trace r = pre @ Pcm_write p d n #
             (if pcm_write_ret e = 0 \<or> pcm_write_ret e = - EPIPE then []
              else [Usleep (ucast (bytes * 1000000 div audio_stream_out_frame_size P
                                     div ucast (out_get_sample_rate w)))])"
    and "wr_ret r = (if pcm_write_ret e = - EPIPE then scast (- EPIPE) else bytes)"
    and "written (out (wr_world r)) =
           (if pcm_write_ret e = 0 then written (out w) + in_frames else written (out w))"
    and "standby (out (wr_world r)) = standby (out w)"
    and "pcm_config_out (wr_world r) = pcm_config_out w"
    and "adev (wr_world r) = adev w"
proof -
  from b obtain p buf1 fs1 s2 t3 where
    p: "pcm_config (out w) = Some p"
    and th: "(if out_device (adev w) AND AUDIO_DEVICE_OUT_ALL_SCO P = 0
      then throttle P e (deref_config w p) (adapt_buffer_type P (deref_config w p) False (out w))
      else Some (adapt_buffer_type P (deref_config w p) True (out w), [])) = Some (s2, t3)"
    and r: "if pcm_write_ret e = - EPIPE
     then r = \<lparr>wr_ret = scast (pcm_write_ret e), wr_world = w\<lparr>out := s2\<rparr>,
               wr_trace = t1 @ t3 @ [Pcm_write (pcm s2) buf1 (ucast (in_frames * fs1))],
               wr_buffer = buf1\<rparr>
     else out_write_exit P (pcm_write_ret e) bytes
            (w\<lparr>out := (if pcm_write_ret e = 0 then s2\<lparr>written := written s2 + in_frames\<rparr> else s2)\<rparr>)
            (t1 @ t3 @ [Pcm_write (pcm s2) buf1 (ucast (in_frames * fs1))]) buf1 = Some r"
    by (rule out_write_bodyE)
  from th have t3: "\<not> list_ex is_pcm_write t3"
    by (auto dest: throttle_no_write split: if_splits)
  from th have s2: "written s2 = written (out w)" "standby s2 = standby (out w)"
    by (auto simp: adapt_buffer_type_fields dest: throttle_fields split: if_splits)
  let ?pre = "t1 @ t3"
  from t1 t3 have pre: "\<not> list_ex is_pcm_write ?pre" by (auto simp: list_ex_iff)
  show "\<exists>pre p d n. \<not> list_ex is_pcm_write pre \<and>
           wr_trace r = pre @ Pcm_write p d n #
             (if pcm_write_ret e = 0 \<or> pcm_write_ret e = - EPIPE then []
              else [Usleep (ucast (bytes * 1000000 div audio_stream_out_frame_size P
                                     div ucast (out_get_sample_rate w)))])"
  proof (cases "pcm_write_ret e = - EPIPE")
    case True
    with r pre show ?thesis by (intro exI [of _ ?pre]) auto
  next
    case False
    with r have ex: "out_write_exit P (pcm_write_ret e) bytes
            (w\<lparr>out := (if pcm_write_ret e = 0 then s2\<lparr>written := written s2 + in_frames\<rparr> else s2)\<rparr>)
            (t1 @ t3 @ [Pcm_write (pcm s2) buf1 (ucast (in_frames * fs1))]) buf1 = Some r"
      by simp
    show ?thesis
    proof (cases "pcm_write_ret e = 0")
      case True
      with out_write_exit_Some(4) [OF ex] pre False show ?thesis
        by (intro exI [of _ ?pre]) auto
    next
      case nz: False
      with out_write_exit_Some(5) [OF ex] pre False show ?thesis
        by (intro exI [of _ ?pre]) (auto simp: out_get_sample_rate_def)
    qed
  qed
  show "wr_ret r = (if pcm_write_ret e = - EPIPE then scast (- EPIPE) else bytes)"
    using r by (auto dest: out_write_exit_Some(1) split: if_splits)
  show "written (out (wr_world r)) =
           (if pcm_write_ret e = 0 then written (out w) + in_frames else written (out w))"
    using r s2 by (auto simp: EPIPE_def dest!: out_write_exit_Some(2) split: if_splits)
  show "standby (out (wr_world r)) = standby (out w)"
    using r s2 by (auto dest!: out_write_exit_Some(2) split: if_splits)
  show "pcm_config_out (wr_world r) = pcm_config_out w"
    using r by (auto dest!: out_write_exit_Some(2) split: if_splits)
  show "adev (wr_world r) = adev w"
    using r by (auto dest!: out_write_exit_Some(2) split: if_splits)
qed

lemma out_get_sample_rate_out_update [simp]:
  "out_get_sample_rate (w\<lparr>out := x\<rparr>) = out_get_sample_rate w"
  by (simp add: out_get_sample_rate_def)

lemma out_write_hw:
  assumes ow: "out_write P e buf bytes w = Some r"
    and hw: "list_ex is_pcm_write (wr_trace r)"
  shows "\<exists>pre p d n. \<not> list_ex is_pcm_write pre \<and>
           wr_trace r = pre @ Pcm_write p d n #
             (if pcm_write_ret e = 0 \<or> pcm_write_ret e = - EPIPE then []
              else [Usleep (ucast (bytes * 1000000 div audio_stream_out_frame_size P
                                     div ucast (out_get_sample_rate w)))])"
    and "wr_ret r = (if pcm_write_ret e = - EPIPE then scast (- EPIPE) else bytes)"
    and "written (out (wr_world r)) =
           (if pcm_write_ret e = 0 then written (out w) + bytes div audio_stream_out_frame_size P
            else written (out w))"
    and "\<not> standby (out (wr_world r))"
    and "pcm_config_out (wr_world r) = pcm_config_out w"
    and "out_device (adev (wr_world r)) = out_device (adev w)"
proof -
  let ?fs = "audio_stream_out_frame_size P"
  from ow have
    "(\<exists>pre p d n. \<not> list_ex is_pcm_write pre \<and>
           wr_trace r = pre @ Pcm_write p d n #
             (if pcm_write_ret e = 0 \<or> pcm_write_ret e = - EPIPE then []
              else [Usleep (ucast (bytes * 1000000 div audio_stream_out_frame_size P
                                     div ucast (out_get_sample_rate w)))]))
     \<and> wr_ret r = (if pcm_write_ret e = - EPIPE then scast (- EPIPE) else bytes)
     \<and> written (out (wr_world r)) =
           (if pcm_write_ret e = 0 then written (out w) + bytes div ?fs else written (out w))
     \<and> \<not> standby (out (wr_world r))
     \<and> pcm_config_out (wr_world r) = pcm_config_out w
     \<and> out_device (adev (wr_world r)) = out_device (adev w)"
  proof (cases rule: out_writeE)
    case (start_failed ret w1 t1)
    from start_failed(2) have "\<not> list_ex is_pcm_write t1"
      by (rule start_trace_no_write)
    with out_write_exit_Some(5) [OF start_failed(4) start_failed(3)] hw
    show ?thesis by (simp add: list_ex_iff)
  next
    case (started w1 t1)
    let ?w = "w1\<lparr>out := (out w1)\<lparr>standby := False\<rparr>\<rparr>"
    from started(2) have nt: "\<not> list_ex is_pcm_write t1"
      by (rule start_trace_no_write)
    note st = start_output_streamE [OF started(2)]
    have sr: "out_get_sample_rate w1 = out_get_sample_rate w"
      using st(7) by (simp add: out_get_sample_rate_def)
    from out_write_body_facts [OF started(3) nt] st sr
    show ?thesis by auto
  next
    case active
    from out_write_body_facts [OF active(2)] active(1)
    show ?thesis by auto
  qed
  then show "\<exists>pre p d n. \<not> list_ex is_pcm_write pre \<and>
           wr_trace r = pre @ Pcm_write p d n #
             (if pcm_write_ret e = 0 \<or> pcm_write_ret e = - EPIPE then []
              else [Usleep (ucast (bytes * 1000000 div audio_stream_out_frame_size P
                                     div ucast (out_get_sample_rate w)))])"
    and "wr_ret r = (if pcm_write_ret e = - EPIPE then scast (- EPIPE) else bytes)"
    and "written (out (wr_world r)) =
           (if pcm_write_ret e = 0 then written (out w) + bytes div audio_stream_out_frame_size P
            else written (out w))"
    and "\<not> standby (out (wr_world r))"
    and "pcm_config_out (wr_world r) = pcm_config_out w"
    and "out_device (adev (wr_world r)) = out_device (adev w)"
    by blast+
qed

lemma out_write_nohw:
  assumes ow: "out_write P e buf bytes w = Some r"
    and hw: "\<not> list_ex is_pcm_write (wr_trace r)"
  shows "standby (out w)"
    and "\<exists>ret w1 t1. start_output_stream P (start e) w = Some (ret, w1, t1) \<and> ret \<noteq> 0 \<and>
           wr_world r = w1 \<and>
           wr_trace r = t1 @ [Usleep (ucast (bytes * 1000000 div audio_stream_out_frame_size P
                                     div ucast (out_get_sample_rate w)))]"
    and "wr_ret r = bytes"
    and "written (out (wr_world r)) = written (out w)"
    and "standby (out (wr_world r))"
    and "wr_buffer r = buf"
proof -
  from ow have
    "standby (out w) \<and>
     (\<exists>ret w1 t1. start_output_stream P (start e) w = Some (ret, w1, t1) \<and> ret \<noteq> 0 \<and>
           wr_world r = w1 \<and>
           wr_trace r = t1 @ [Usleep (ucast (bytes * 1000000 div audio_stream_out_frame_size P
                                     div ucast (out_get_sample_rate w)))]) \<and>
     wr_ret r = bytes \<and> written (out (wr_world r)) = written (out w) \<and>
     standby (out (wr_world r)) \<and> wr_buffer r = buf"
  proof (cases rule: out_writeE)
    case (start_failed ret w1 t1)
    note st = start_output_streamE [OF start_failed(2)]
    have sr: "out_get_sample_rate w1 = out_get_sample_rate w"
      using st(7) by (simp add: out_get_sample_rate_def)
    from out_write_exit_Some [OF start_failed(4)] start_failed st sr
    show ?thesis by simp
  next
    case (started w1 t1)
    from started(2) have nt: "\<not> list_ex is_pcm_write t1"
      by (rule start_trace_no_write)
    from out_write_body_facts(1) [OF started(3) nt] hw
    show ?thesis by (auto simp: list_ex_iff)
  next
    case active
    from out_write_body_facts(1) [OF active(2)] hw
    show ?thesis by (auto simp: list_ex_iff)
  qed
  then show "standby (out w)"
    and "\<exists>ret w1 t1. start_output_stream P (start e) w = Some (ret, w1, t1) \<and> ret \<noteq> 0 \<and>
           wr_world r = w1 \<and>
           wr_trace r = t1 @ [Usleep (ucast (bytes * 1000000 div audio_stream_out_frame_size P
                                     div ucast (out_get_sample_rate w)))]"
    and "wr_ret r = bytes"
    and "written (out (wr_world r)) = written (out w)"
    and "standby (out (wr_world r))"
    and "wr_buffer r = buf"
    by blast+
qed

lemma unat_ucast_32_64: "unat (ucast (x :: 32 word) :: 64 word) = unat x"
proof -
  have "unat x < 2 ^ 32"
    using unsigned_less [of x, where ?'a = nat] by simp
  then have "unat x < 2 ^ 64"
    by simp
  then show ?thesis
    by (simp add: unsigned_ucast_eq take_bit_nat_eq_self)
qed

lemma unat_ucast_64_32: "unat y < 2 ^ 32 \<Longrightarrow> unat (ucast (y :: 64 word) :: 32 word) = unat y"
  by (simp add: unsigned_ucast_eq take_bit_nat_eq_self)

lemma usleep_arg_reading:
  fixes bytes fs :: "64 word" and rt :: "32 word"
  assumes "unat bytes * 1000000 < 2 ^ 64"
    and "unat bytes * 1000000 div (unat fs * unat rt) < 2 ^ 32"
  shows "unat (ucast (bytes * 1000000 div fs div ucast rt) :: 32 word)
           = unat bytes * 1000000 div (unat fs * unat rt)"
proof -
  have m: "unat (bytes * 1000000) = unat bytes * 1000000"
    using assms(1) by (simp add: unat_word_ariths)
  have d: "unat (bytes * 1000000 div fs div ucast rt) = unat bytes * 1000000 div (unat fs * unat rt)"
    by (simp add: unat_div m div_mult2_eq unat_ucast_32_64)
  show ?thesis
    using assms(2) by (simp add: unat_ucast_64_32 d)
qed

lemma out_write_written:
  assumes "out_write P e buf bytes w = Some r"
  shows "written (out (wr_world r)) =
           (if list_ex is_pcm_write (wr_trace r) \<and> pcm_write_ret e = 0
            then written (out w) + bytes div audio_stream_out_frame_size P
            else written (out w))"
  using out_write_hw(3) [OF assms] out_write_nohw(4) [OF assms]
  by (cases "list_ex is_pcm_write (wr_trace r)") auto

lemma out_standby_world: "fst (snd (out_standby P w)) = fst (do_out_standby P w)"
  by (simp add: out_standby_def split: prod.splits)

lemma out_set_parameters_written:
  "written (out (fst (snd (out_set_parameters P ret val w)))) = written (out w)"
  using do_out_standby_fields(1) [of P w]
  by (cases "do_out_standby P w") (auto simp: out_set_parameters_def Let_def)

lemma adev_set_parameters_out:
  "out (fst (snd (adev_set_parameters P ret1 value1 ret2 value2 w))) = out w"
  by (simp add: adev_set_parameters_def Let_def split: prod.splits)

lemma step_written:
  assumes "step P x w = Some w1"
  shows "\<exists>k \<le> frames_of P x. written (out w1) = written (out w) + of_nat k"
proof (cases x)
  case (Write e buf bytes)
  with assms obtain r where r: "out_write P e buf bytes w = Some r" and w1: "w1 = wr_world r"
    by auto
  show ?thesis
  proof (cases "list_ex is_pcm_write (wr_trace r) \<and> pcm_write_ret e = 0")
    case True
    with out_write_written [OF r] w1 Write show ?thesis
      by (intro exI [of _ "unat (bytes div audio_stream_out_frame_size P)"]) simp
  next
    case False
    with out_write_written [OF r] w1 Write show ?thesis
      by (intro exI [of _ 0]) auto
  qed
next
  case Standby
  with assms do_out_standby_fields(1) [of P w] show ?thesis
    by (intro exI [of _ 0]) (auto simp: out_standby_world)
next
  case (Set_parameters ret val)
  with assms out_set_parameters_written [of P ret val w] show ?thesis
    by (intro exI [of _ 0]) auto
next
  case (Adev_set_parameters ret1 value1 ret2 value2)
  with assms adev_set_parameters_out [of P ret1 value1 ret2 value2 w] show ?thesis
    by (intro exI [of _ 0]) auto
qed

lemma run_written:
  "run P ops w = Some w' \<Longrightarrow>
   \<exists>k \<le> sum_list (map (frames_of P) ops). written (out w') = written (out w) + of_nat k"
proof (induction ops arbitrary: w)
  case Nil
  then show ?case by simp
next
  case (Cons x xs)
  from Cons.prems obtain w1 where s: "step P x w = Some w1" and r: "run P xs w1 = Some w'"
    by (auto split: option.splits)
  from step_written [OF s] obtain k1 where
    k1: "k1 \<le> frames_of P x" "written (out w1) = written (out w) + of_nat k1"
    by blast
  from Cons.IH [OF r] obtain k2 where
    k2: "k2 \<le> sum_list (map (frames_of P) xs)" "written (out w') = written (out w1) + of_nat k2"
    by blast
  from k1 k2 show ?case
    by (intro exI [of _ "k1 + k2"]) (simp add: add.assoc)
qed

lemma unat_add_of_nat_64:
  fixes a :: "64 word"
  assumes "unat a + k < 2 ^ 64"
  shows "unat (a + of_nat k) = unat a + k"
proof -
  from assms have "k < 2 ^ 64" by simp
  then have "unat (of_nat k :: 64 word) = k"
    by (simp add: unat_of_nat)
  with assms show ?thesis
    by (simp add: unat_word_ariths)
qed

lemma run_written_mono:
  assumes "run P ops w = Some w'"
    and "unat (written (out w)) + sum_list (map (frames_of P) ops) < 2 ^ 64"
  shows "unat (written (out w)) \<le> unat (written (out w'))"
proof -
  from run_written [OF assms(1)] obtain k where
    k: "k \<le> sum_list (map (frames_of P) ops)" "written (out w') = written (out w) + of_nat k"
    by blast
  with assms(2) have "unat (written (out w)) + k < 2 ^ 64"
    by simp
  from unat_add_of_nat_64 [OF this] k(2) show ?thesis
    by simp
qed

lemma take_bit_take_bit_le:
  "m \<le> n \<Longrightarrow> take_bit m (take_bit n (k :: int)) = take_bit m k"
  by (simp add: take_bit_take_bit min_def)

lemma ucast_word_of_int_64_32:
  "(ucast (word_of_int k :: 64 word) :: 32 word) = word_of_int k"
proof -
  have "uint (word_of_int k :: 64 word) = take_bit 64 k"
    by (simp add: uint_word_of_int_eq)
  moreover have "take_bit LENGTH(32) (take_bit 64 k) = take_bit LENGTH(32) k"
    by (rule take_bit_take_bit_le) simp
  ultimately show ?thesis
    by (simp only: ucast_eq word_of_int_eq_iff)
qed


lemma ucast_scast_arith:
  fixes cur :: "32 word" and x :: "64 word"
  shows "(ucast (scast cur - x) :: 32 word) = word_of_int (sint cur - uint x)"
    and "(ucast (scast cur + x) :: 32 word) = word_of_int (sint cur + uint x)"
proof -
  have "(word_of_int (sint cur - uint x) :: 64 word) = word_of_int (sint cur) - word_of_int (uint x)"
    by (rule of_int_diff)
  also have "\<dots> = scast cur - x"
    by (simp only: scast_eq [symmetric] word_of_int_uint)
  finally show "(ucast (scast cur - x) :: 32 word) = word_of_int (sint cur - uint x)"
    by (simp only: ucast_word_of_int_64_32 [symmetric])
  have "(word_of_int (sint cur + uint x) :: 64 word) = word_of_int (sint cur) + word_of_int (uint x)"
    by (rule of_int_add)
  also have "\<dots> = scast cur + x"
    by (simp only: scast_eq [symmetric] word_of_int_uint)
  finally show "(ucast (scast cur + x) :: 32 word) = word_of_int (sint cur + uint x)"
    by (simp only: ucast_word_of_int_64_32 [symmetric])
qed

lemma sint_word_of_int_32:
  "- (2 ^ 31) \<le> k \<Longrightarrow> k < 2 ^ 31 \<Longrightarrow> sint (word_of_int k :: 32 word) = k"
  by (simp add: sint_sbintrunc' signed_take_bit_int_eq_self)

lemma unat_of_nonneg_sint:
  fixes x :: "64 word"
  assumes "0 \<le> sint x"
  shows "int (unat x) = sint x"
proof -
  have b: "0 \<le> uint x" "uint x < 2 ^ 64"
    using uint_bounded [of x] by simp_all
  then have "take_bit 64 (uint x) = uint x"
    by (simp add: take_bit_int_eq_self)
  then have s: "sint x = uint x - 2 ^ 64 * of_bool (bit (uint x) 63)"
    by (simp add: sint_uint signed_take_bit_eq_take_bit_minus)
  have "\<not> bit (uint x) 63"
  proof
    assume "bit (uint x) 63"
    with s b assms show False by simp
  qed
  with s show ?thesis by simp
qed

lemma deref_config_eq: "deref_config w p = pcm_config_out w"
  by (cases p) (simp add: deref_config_def)

lemma position_word_reading:
  fixes W :: "64 word" and ps pc A :: "32 word"
  assumes k: "unat ps * unat pc < 2 ^ 32"
    and v: "int (unat W) - int (unat ps * unat pc) + int (unat A) < 2 ^ 63"
  shows "sint (W - ucast (ps * pc) + ucast A) = int (unat W) - int (unat ps * unat pc) + int (unat A)"
proof -
  define K where "K = unat ps * unat pc"
  define n where "n = unat W"
  define a where "a = unat A"
  define V where "V = int n - int K + int a"
  have kk: "unat (ps * pc) = K"
    using k by (simp add: unat_word_ariths K_def)
  have "K < 2 ^ 32"
    using k by (simp add: K_def)
  then have lo: "- (2 ^ 63) \<le> V"
    by (simp add: V_def)
  have hi: "V < 2 ^ 63"
    using v by (simp only: V_def K_def n_def a_def)
  have "(ucast (ps * pc) :: 64 word) = of_nat K"
    using unat_ucast_32_64 [of "ps * pc"] kk by (metis of_nat_unat ucast_id)
  moreover have "(ucast A :: 64 word) = of_nat a"
    using unat_ucast_32_64 [of A] unfolding a_def by (metis of_nat_unat ucast_id)
  moreover have "W = of_nat n"
    by (simp add: n_def)
  ultimately have "W - ucast (ps * pc) + ucast A = word_of_int V"
    by (simp add: V_def)
  then have "sint (W - ucast (ps * pc) + ucast A) = signed_take_bit 63 V"
    by (simp only: sint_sbintrunc') simp
  with lo hi have "sint (W - ucast (ps * pc) + ucast A) = V"
    by (simp add: signed_take_bit_int_eq_self)
  then show ?thesis
    by (simp only: V_def K_def n_def a_def)
qed

lemma discard_right_spec:
  "discard_right i n b = Some b' \<Longrightarrow>
   length b' = length b \<and>
   (\<forall>j. j < i \<or> n \<le> j \<longrightarrow> b' ! j = b ! j) \<and>
   (\<forall>j. i \<le> j \<and> j < n \<longrightarrow> b' ! j = b ! (j * 2))"
proof (induction i n b arbitrary: b' rule: discard_right.induct)
  case (1 i n b)
  show ?case
  proof (cases "i < n")
    case False
    with "1.prems" have "b' = b"
      by (simp add: discard_right.simps [of i n b])
    with False show ?thesis by auto
  next
    case True
    with "1.prems" have r: "i * 2 < length b"
      and rec: "discard_right (Suc i) n (b[i := b ! (i * 2)]) = Some b'"
      by (auto simp: discard_right.simps [of i n b] split: if_splits)
    note ih = "1.IH" [OF True r rec]
    from ih have len: "length b' = length b"
      by simp
    have a: "b' ! j = b ! j" if "j < i \<or> n \<le> j" for j
    proof -
      from that True have "j < Suc i \<or> n \<le> j" and ne: "j \<noteq> i"
        by auto
      with ih have "b' ! j = (b[i := b ! (i * 2)]) ! j"
        by blast
      with ne show ?thesis
        by simp
    qed
    have c: "b' ! j = b ! (j * 2)" if "i \<le> j \<and> j < n" for j
    proof (cases "j = i")
      case True
      from ih have "b' ! i = (b[i := b ! (i * 2)]) ! i"
        by blast
      with r True show ?thesis
        by simp
    next
      case False
      with that have "Suc i \<le> j \<and> j < n" and ne: "j * 2 \<noteq> i"
        by auto
      with ih have "b' ! j = (b[i := b ! (i * 2)]) ! (j * 2)"
        by blast
      with ne show ?thesis
        by simp
    qed
    from len a c show ?thesis by blast
  qed
qed

lemma discard_right_defined:
  "n * 2 \<le> length b + 1 \<or> n \<le> i \<Longrightarrow> \<exists>b'. discard_right i n b = Some b'"
proof (induction i n b rule: discard_right.induct)
  case (1 i n b)
  show ?case
  proof (cases "i < n")
    case False
    then show ?thesis by (simp add: discard_right.simps [of i n b])
  next
    case True
    with "1.prems" have r: "i * 2 < length b" by auto
    from "1.prems" True have "n * 2 \<le> length (b[i := b ! (i * 2)]) + 1 \<or> n \<le> Suc i"
      by auto
    from "1.IH" [OF True r this] True r show ?thesis
      by (simp add: discard_right.simps [of i n b])
  qed
qed

lemma reduce_channels_left:
  assumes "reduce_channels cfg buf in_frames fs = Some (b, fs1)"
    and "channels cfg < audio_channel_count_from_out_mask out_get_channels"
  shows "fs1 = fs div 2" and "length b = length buf"
    and "\<forall>j < unat in_frames. b ! j = buf ! (j * 2)"
    and "\<forall>j \<ge> unat in_frames. b ! j = buf ! j"
proof -
  from assms have d: "discard_right 1 (unat in_frames) buf = Some b" and f: "fs1 = fs div 2"
    by (auto simp: reduce_channels_def split: if_splits option.splits)
  note s = discard_right_spec [OF d]
  show "fs1 = fs div 2" by (rule f)
  show "length b = length buf" using s by simp
  show "\<forall>j \<ge> unat in_frames. b ! j = buf ! j" using s by blast
  show "\<forall>j < unat in_frames. b ! j = buf ! (j * 2)"
  proof (intro allI impI)
    fix j assume j: "j < unat in_frames"
    show "b ! j = buf ! (j * 2)"
    proof (cases "j = 0")
      case True
      from s have "b ! 0 = buf ! 0" by simp
      with True show ?thesis by simp
    next
      case False
      with j have "1 \<le> j \<and> j < unat in_frames" by simp
      with s show ?thesis by blast
    qed
  qed
qed

lemma reduce_channels_defined:
  assumes "channels cfg < audio_channel_count_from_out_mask out_get_channels"
    and "unat in_frames < 2 ^ 31" and "unat in_frames * 2 \<le> length buf + 1"
  shows "\<exists>b. reduce_channels cfg buf in_frames fs = Some (b, fs div 2)"
  using assms discard_right_defined [of "unat in_frames" buf 1]
  by (auto simp: reduce_channels_def)

lemma out_write_body_buffer:
  assumes b: "out_write_body P e buf bytes in_frames fs w t1 = Some r"
    and t1: "\<not> list_ex is_pcm_write t1"
  shows "\<exists>fs1 pre post.
           reduce_channels (pcm_config_out w) buf in_frames fs = Some (wr_buffer r, fs1) \<and>
           wr_trace r = pre @ Pcm_write (pcm (out (wr_world r))) (wr_buffer r)
                                (ucast (in_frames * fs1)) # post \<and>
           \<not> list_ex is_pcm_write pre"
proof -
  from b obtain p buf1 fs1 s2 t3 where
    rc: "reduce_channels (deref_config w p) buf in_frames fs = Some (buf1, fs1)"
    and th: "(if out_device (adev w) AND AUDIO_DEVICE_OUT_ALL_SCO P = 0
      then throttle P e (deref_config w p) (adapt_buffer_type P (deref_config w p) False (out w))
      else Some (adapt_buffer_type P (deref_config w p) True (out w), [])) = Some (s2, t3)"
    and r: "if pcm_write_ret e = - EPIPE
     then r = \<lparr>wr_ret = scast (pcm_write_ret e), wr_world = w\<lparr>out := s2\<rparr>,
               wr_trace = t1 @ t3 @ [Pcm_write (pcm s2) buf1 (ucast (in_frames * fs1))],
               wr_buffer = buf1\<rparr>
     else out_write_exit P (pcm_write_ret e) bytes
            (w\<lparr>out := (if pcm_write_ret e = 0 then s2\<lparr>written := written s2 + in_frames\<rparr> else s2)\<rparr>)
            (t1 @ t3 @ [Pcm_write (pcm s2) buf1 (ucast (in_frames * fs1))]) buf1 = Some r"
    by (rule out_write_bodyE)
  from th have t3: "\<not> list_ex is_pcm_write t3"
    by (auto dest: throttle_no_write split: if_splits)
  with t1 have pre: "\<not> list_ex is_pcm_write (t1 @ t3)"
    by (auto simp: list_ex_iff)
  have "wr_buffer r = buf1 \<and> pcm (out (wr_world r)) = pcm s2 \<and>
        (\<exists>post. wr_trace r = (t1 @ t3) @ Pcm_write (pcm s2) buf1 (ucast (in_frames * fs1)) # post)"
  proof (cases "pcm_write_ret e = - EPIPE")
    case True
    with r show ?thesis by simp
  next
    case False
    with r have ex: "out_write_exit P (pcm_write_ret e) bytes
            (w\<lparr>out := (if pcm_write_ret e = 0 then s2\<lparr>written := written s2 + in_frames\<rparr> else s2)\<rparr>)
            (t1 @ t3 @ [Pcm_write (pcm s2) buf1 (ucast (in_frames * fs1))]) buf1 = Some r"
      by simp
    from out_write_exit_Some [OF ex] show ?thesis
      by (cases "pcm_write_ret e = 0") auto
  qed
  with rc pre show ?thesis
    by (simp only: deref_config_eq) blast
qed

lemma out_write_buffer:
  assumes ow: "out_write P e buf bytes w = Some r"
    and hw: "list_ex is_pcm_write (wr_trace r)"
  shows "\<exists>fs1 pre post.
           reduce_channels (pcm_config_out w) buf (bytes div audio_stream_out_frame_size P)
             (audio_stream_out_frame_size P) = Some (wr_buffer r, fs1) \<and>
           wr_trace r = pre @ Pcm_write (pcm (out (wr_world r))) (wr_buffer r)
                                (ucast (bytes div audio_stream_out_frame_size P * fs1)) # post \<and>
           \<not> list_ex is_pcm_write pre"
  using ow
proof (cases rule: out_writeE)
  case (start_failed ret w1 t1)
  from out_write_nohw(1) [OF ow] out_write_exit_Some(5) [OF start_failed(4) start_failed(3)]
    start_trace_no_write [OF start_failed(2)] hw
  show ?thesis by (simp add: list_ex_iff)
next
  case (started w1 t1)
  from started(2) have nt: "\<not> list_ex is_pcm_write t1"
    by (rule start_trace_no_write)
  from out_write_body_buffer [OF started(3) nt] start_output_streamE(7) [OF started(2)]
  show ?thesis by simp
next
  case active
  from out_write_body_buffer [OF active(2)] show ?thesis by simp
qed

lemma start_no_resampler:
  assumes "start_output_stream P e w = Some (ret, w1, t)"
  shows "\<not> list_ex is_resampler_call t"
  using assms
  by (auto simp: start_output_stream_def Let_def deref_config_eq out_get_sample_rate_def
      split: if_splits option.splits prod.splits)

lemma throttle_no_resampler:
  assumes "throttle P e cfg s = Some (s', t)"
  shows "\<not> list_ex is_resampler_call t"
  using throttle_events [OF assms] by (auto simp: list_ex_iff)

lemma out_write_body_resampler:
  assumes b: "out_write_body P e buf bytes in_frames fs w t1 = Some r"
    and t1: "\<not> list_ex is_resampler_call t1"
  shows "\<not> list_ex is_resampler_call (wr_trace r)"
    and "resampler (out (wr_world r)) = resampler (out w)"
    and "buffer (out (wr_world r)) = buffer (out w)"
proof -
  from b obtain p buf1 fs1 s2 t3 where
    th: "(if out_device (adev w) AND AUDIO_DEVICE_OUT_ALL_SCO P = 0
      then throttle P e (deref_config w p) (adapt_buffer_type P (deref_config w p) False (out w))
      else Some (adapt_buffer_type P (deref_config w p) True (out w), [])) = Some (s2, t3)"
    and r: "if pcm_write_ret e = - EPIPE
     then r = \<lparr>wr_ret = scast (pcm_write_ret e), wr_world = w\<lparr>out := s2\<rparr>,
               wr_trace = t1 @ t3 @ [Pcm_write (pcm s2) buf1 (ucast (in_frames * fs1))],
               wr_buffer = buf1\<rparr>
     else out_write_exit P (pcm_write_ret e) bytes
            (w\<lparr>out := (if pcm_write_ret e = 0 then s2\<lparr>written := written s2 + in_frames\<rparr> else s2)\<rparr>)
            (t1 @ t3 @ [Pcm_write (pcm s2) buf1 (ucast (in_frames * fs1))]) buf1 = Some r"
    by (rule out_write_bodyE)
  from th have t3: "\<not> list_ex is_resampler_call t3"
    by (auto dest: throttle_no_resampler split: if_splits)
  from th have s2: "resampler s2 = resampler (out w)" "buffer s2 = buffer (out w)"
    by (auto simp: adapt_buffer_type_fields dest: throttle_fields split: if_splits)
  have "\<not> list_ex is_resampler_call (wr_trace r) \<and>
        resampler (out (wr_world r)) = resampler s2 \<and> buffer (out (wr_world r)) = buffer s2"
  proof (cases "pcm_write_ret e = - EPIPE")
    case True
    with r t1 t3 show ?thesis by (auto simp: list_ex_iff)
  next
    case False
    with r have ex: "out_write_exit P (pcm_write_ret e) bytes
            (w\<lparr>out := (if pcm_write_ret e = 0 then s2\<lparr>written := written s2 + in_frames\<rparr> else s2)\<rparr>)
            (t1 @ t3 @ [Pcm_write (pcm s2) buf1 (ucast (in_frames * fs1))]) buf1 = Some r"
      by simp
    from out_write_exit_Some [OF ex] t1 t3 show ?thesis
      by (cases "pcm_write_ret e = 0") (auto simp: list_ex_iff)
  qed
  with s2 show "\<not> list_ex is_resampler_call (wr_trace r)"
    and "resampler (out (wr_world r)) = resampler (out w)"
    and "buffer (out (wr_world r)) = buffer (out w)"
    by simp_all
qed

lemma out_write_resampler:
  assumes ow: "out_write P e buf bytes w = Some r"
  shows "\<not> list_ex is_resampler_call (wr_trace r) \<and>
         resampler (out (wr_world r)) = resampler (out w) \<and>
         buffer (out (wr_world r)) = buffer (out w)"
  using ow
proof (cases rule: out_writeE)
  case (start_failed ret w1 t1)
  from out_write_exit_Some [OF start_failed(4)] start_failed(3)
    start_no_resampler [OF start_failed(2)] start_output_streamE(2,3) [OF start_failed(2)]
  show ?thesis by (auto simp: list_ex_iff)
next
  case (started w1 t1)
  from out_write_body_resampler [OF started(3) start_no_resampler [OF started(2)]]
    start_output_streamE(2,3) [OF started(2)]
  show ?thesis by simp
next
  case active
  from out_write_body_resampler [OF active(2)] show ?thesis by simp
qed

lemma step_resampler:
  assumes "step P x w = Some w1"
  shows "resampler (out w) = None \<Longrightarrow> resampler (out w1) = None"
    and "buffer (out w) = None \<Longrightarrow> buffer (out w1) = None"
proof -
  have "(resampler (out w) = None \<longrightarrow> resampler (out w1) = None) \<and>
        (buffer (out w) = None \<longrightarrow> buffer (out w1) = None)"
  proof (cases x)
    case (Write e buf bytes)
    with assms obtain r where r: "out_write P e buf bytes w = Some r" and w1: "w1 = wr_world r"
      by auto
    from out_write_resampler [OF r] w1 show ?thesis by simp
  next
    case Standby
    with assms do_out_standby_fields(8,9) [of w P] show ?thesis
      by (auto simp: out_standby_world)
  next
    case (Set_parameters ret val)
    with assms do_out_standby_fields(8,9) [of w P] show ?thesis
      by (cases "do_out_standby P w") (auto simp: out_set_parameters_def Let_def)
  next
    case (Adev_set_parameters ret1 value1 ret2 value2)
    with assms adev_set_parameters_out [of P ret1 value1 ret2 value2 w] show ?thesis
      by auto
  qed
  then show "resampler (out w) = None \<Longrightarrow> resampler (out w1) = None"
    and "buffer (out w) = None \<Longrightarrow> buffer (out w1) = None"
    by simp_all
qed

lemma run_resampler:
  "run P ops w = Some w' \<Longrightarrow> resampler (out w) = None \<and> buffer (out w) = None \<Longrightarrow>
   resampler (out w') = None \<and> buffer (out w') = None"
proof (induction ops arbitrary: w)
  case Nil
  then show ?case by simp
next
  case (Cons x xs)
  from Cons.prems(1) obtain w1 where s: "step P x w = Some w1" and r: "run P xs w1 = Some w'"
    by (auto split: option.splits)
  from step_resampler [OF s] Cons.prems(2) have "resampler (out w1) = None \<and> buffer (out w1) = None"
    by simp
  from Cons.IH [OF r this] show ?case .
qed

lemma opened_resampler:
  "opened P h = Some w0 \<Longrightarrow> resampler (out w0) = None \<and> buffer (out w0) = None"
  by (auto simp: opened_def adev_open_def adev_open_output_stream_def Let_def split: if_splits)

lemma opened_example: "opened example_platform None = Some fresh_world"
  by (simp add: opened_def adev_open_def adev_open_output_stream_def example_platform_def
      fresh_world_def example_config_def example_adev_def fresh_out_def)

lemma start_ready_succeeds:
  assumes "start_output_stream P e w = Some (ret, w1, t)" and "pcm_is_ready_ret e"
  shows "ret = 0"
  using assms
  by (auto simp: start_output_stream_def Let_def split: if_splits option.splits prod.splits)

lemma out_write_after_start:
  assumes ow: "out_write P e buf bytes w = Some r"
    and sb: "standby (out w)"
    and st: "start_output_stream P (start e) w = Some (ret, w1, t1)"
  shows "standby (out (wr_world r)) \<longleftrightarrow> ret \<noteq> 0"
    and "out_device (adev (wr_world r)) = out_device (adev w)"
proof -
  have "(standby (out (wr_world r)) \<longleftrightarrow> ret \<noteq> 0) \<and>
        out_device (adev (wr_world r)) = out_device (adev w)"
  proof (cases "list_ex is_pcm_write (wr_trace r)")
    case True
    have "ret = 0"
    proof (rule ccontr)
      assume nz: "ret \<noteq> 0"
      with ow sb st have "out_write_exit P ret bytes w1 t1 buf = Some r"
        by (simp add: out_write_def Let_def split: if_splits)
      from out_write_exit_Some(5) [OF this nz] start_trace_no_write [OF st] True
      show False by (simp add: list_ex_iff)
    qed
    with out_write_hw(4,6) [OF ow True] show ?thesis by simp
  next
    case False
    from out_write_nohw(2,5) [OF ow False] st start_output_streamE(8) [OF st]
    show ?thesis by auto
  qed
  then show "standby (out (wr_world r)) \<longleftrightarrow> ret \<noteq> 0"
    and "out_device (adev (wr_world r)) = out_device (adev w)"
    by simp_all
qed

lemma out_set_parameters_changed:
  assumes "0 \<le>s ret" "val \<noteq> out_device (adev w)" "val \<noteq> 0"
  shows "standby (out (fst (snd (out_set_parameters P ret val w))))"
    and "out_device (adev (fst (snd (out_set_parameters P ret val w)))) = val"
    and "fst (out_set_parameters P ret val w) = ret"
  using assms do_out_standby_fields(5) [of P w]
  by (cases "do_out_standby P w"; auto simp: out_set_parameters_def Let_def)+

lemma out_set_parameters_same:
  assumes "val = out_device (adev w) \<or> val = 0"
  shows "out_set_parameters P ret val w = (ret, w, [])"
  using assms by (auto simp: out_set_parameters_def)

lemma set_route_example:
  "out_set_parameters example_platform 1 0x4 active_world =
     (1, routed_world\<lparr>out := active_out_stream\<lparr>pcm := None, standby := True\<rparr>\<rparr>,
      [Pcm_close (Some 7), Audio_route_reset, Audio_route_apply_path ''headphone'',
       Audio_route_apply_path ''main-mic-top'', Audio_route_update_mixer])"
  by (simp add: out_set_parameters_def do_out_standby_def select_devices_def routed_world_def
      active_world_def fresh_world_def active_out_stream_def example_adev_def example_platform_def
      ORIENTATION_UNDEFINED_def ORIENTATION_LANDSCAPE_def word_sle_eq)

lemma sint_step_down:
  fixes cur wt :: "32 word" and x :: "64 word"
  assumes gt: "wt <s cur" and lo: "- (2 ^ 31) \<le> sint wt - uint x" and nn: "0 \<le> uint x"
  shows "sint (ucast (scast cur - x) :: 32 word) = sint cur - uint x"
proof -
  from gt have "sint wt < sint cur" by (simp add: word_sless_alt)
  with lo have 1: "- (2 ^ 31) \<le> sint cur - uint x" by linarith
  have "sint cur < 2 ^ 31" using sint_lt [of cur] by simp
  with nn have 2: "sint cur - uint x < 2 ^ 31" by linarith
  from sint_word_of_int_32 [OF 1 2] show ?thesis
    by (simp only: ucast_scast_arith)
qed

lemma sint_step_up:
  fixes cur wt :: "32 word" and x :: "64 word"
  assumes lt: "cur <s wt" and hi: "sint wt + uint x < 2 ^ 31" and nn: "0 \<le> uint x"
  shows "sint (ucast (scast cur + x) :: 32 word) = sint cur + uint x"
proof -
  from lt have "sint cur < sint wt" by (simp add: word_sless_alt)
  with hi have 2: "sint cur + uint x < 2 ^ 31" by linarith
  have "- (2 ^ 31) \<le> sint cur" using sint_ge [of cur] by simp
  with nn have 1: "- (2 ^ 31) \<le> sint cur + uint x" by linarith
  from sint_word_of_int_32 [OF 1 2] show ?thesis
    by (simp only: ucast_scast_arith)
qed

lemma ramp_threshold_cases:
  assumes r: "ramp_threshold P ps kf s = Some s'"
    and lo: "- (2 ^ 31) \<le> sint (write_threshold s) - uint (ps div 4)"
    and hi: "sint (write_threshold s) + uint (ps div 4) < 2 ^ 31"
  shows "(\<bar>sint (cur_write_threshold s') - sint (cur_write_threshold s)\<bar> \<le> uint (ps div 4) \<and>
          min (sint (cur_write_threshold s)) (sint (write_threshold s)) \<le> sint (cur_write_threshold s') \<and>
          sint (cur_write_threshold s') \<le> max (sint (cur_write_threshold s)) (sint (write_threshold s)))
         \<or> (cur_write_threshold s = write_threshold s \<and>
             fast_recovery_condition P ps kf (write_threshold s) \<and>
             cur_write_threshold s' = fast_recovery_threshold ps kf)"
proof -
  let ?cur = "cur_write_threshold s" and ?wt = "write_threshold s" and ?q = "ps div 4"
  have nn: "0 \<le> uint ?q" by simp
  consider (down) "?wt <s ?cur" | (up) "\<not> ?wt <s ?cur" "?cur <s ?wt"
    | (eq) "\<not> ?wt <s ?cur" "\<not> ?cur <s ?wt"
    by blast
  then show ?thesis
  proof cases
    case down
    note st = sint_step_down [OF down lo nn]
    from down have g: "sint ?wt < sint ?cur" by (simp add: word_sless_alt)
    from r down have "cur_write_threshold s' =
        (if ucast (scast ?cur - ?q) <s ?wt then ?wt else ucast (scast ?cur - ?q))"
      by (auto simp: ramp_threshold_def Let_def)
    with st g nn show ?thesis
      by (auto simp: word_sless_alt)
  next
    case up
    note st = sint_step_up [OF up(2) hi nn]
    from up have g: "sint ?cur < sint ?wt" by (simp add: word_sless_alt)
    from r up have "cur_write_threshold s' =
        (if ?wt <s ucast (scast ?cur + ?q) then ?wt else ucast (scast ?cur + ?q))"
      by (auto simp: ramp_threshold_def Let_def)
    with st g nn show ?thesis
      by (auto simp: word_sless_alt)
  next
    case eq
    then have e: "?cur = ?wt"
      by (simp add: word_sless_alt) (metis linorder_neqE_linordered_idom signed_word_eqI)
    show ?thesis
    proof (cases "fast_recovery_condition P ps kf ?wt")
      case True
      with r eq have "cur_write_threshold s' = fast_recovery_threshold ps kf"
        by (auto simp: ramp_threshold_def fast_recovery_condition_def fast_recovery_threshold_def
            Let_def split: option.splits if_splits)
      with e True show ?thesis by simp
    next
      case False
      with r eq have "s' = s"
        by (auto simp: ramp_threshold_def fast_recovery_condition_def Let_def
            split: option.splits if_splits)
      with nn show ?thesis by simp
    qed
  qed
qed

lemma adapt_buffer_type_cur:
  "cur_write_threshold (adapt_buffer_type P cfg False s) =
     (if buffer_type s = OUT_BUFFER_TYPE_UNKNOWN
      then write_threshold (adapt_buffer_type P cfg False s)
      else cur_write_threshold s)"
  by (simp add: adapt_buffer_type_def Let_def OUT_BUFFER_TYPE_SHORT_def OUT_BUFFER_TYPE_UNKNOWN_def)

lemma throttle_ramp:
  assumes "throttle P e cfg s = Some (s', t)"
  shows "\<exists>kf. (kf = 0 \<or> (\<exists>i avail ts. htimestamp e i = Some (avail, ts) \<and>
                              kf = pcm_get_buffer_size_ret e - avail)) \<and>
              ramp_threshold P (ucast (period_size cfg)) kf s = Some s'"
proof -
  from assms obtain kf t0 where
    l: "throttle_loop P (htimestamp e) (pcm_get_buffer_size_ret e) cfg (cur_write_threshold s) 0 0 0 []
          = Some (kf, t0)"
    and r: "ramp_threshold P (ucast (period_size cfg)) kf s = Some s'"
    by (auto simp: throttle_def Let_def split: option.splits prod.splits)
  from throttle_loop_kernel_frames [OF l] r show ?thesis
    by blast
qed

lemma start_buffer_type:
  assumes "start_output_stream P e w = Some (ret, w1, t)"
  shows "buffer_type (out w1) =
           (if out_device (adev w) AND AUDIO_DEVICE_OUT_SPEAKER P \<noteq> 0
            then OUT_BUFFER_TYPE_UNKNOWN else buffer_type (out w))"
  using assms
  by (auto simp: start_output_stream_def Let_def split: if_splits option.splits prod.splits)

lemma uint_quarter:
  "uint ((ucast (x :: 32 word) :: 64 word) div 4) = int (unat x div 4)"
proof -
  have "unat ((ucast x :: 64 word) div 4) = unat x div 4"
    by (simp add: unat_div unat_ucast_32_64)
  then show ?thesis
    by (metis uint_nat)
qed

lemma out_write_body_threshold:
  assumes b: "out_write_body P e buf bytes in_frames fs w t1 = Some r"
    and nsco: "out_device (adev w) AND AUDIO_DEVICE_OUT_ALL_SCO P = 0"
    and lo: "- (2 ^ 31) \<le> sint (write_threshold (out (wr_world r)))
                             - int (unat (period_size (pcm_config_out w)) div 4)"
    and hi: "sint (write_threshold (out (wr_world r)))
               + int (unat (period_size (pcm_config_out w)) div 4) < 2 ^ 31"
  shows "(\<bar>sint (cur_write_threshold (out (wr_world r))) - sint (cur_write_threshold (out w))\<bar>
            \<le> int (unat (period_size (pcm_config_out w)) div 4) \<and>
          min (sint (cur_write_threshold (out w))) (sint (write_threshold (out (wr_world r))))
            \<le> sint (cur_write_threshold (out (wr_world r))) \<and>
          sint (cur_write_threshold (out (wr_world r)))
            \<le> max (sint (cur_write_threshold (out w))) (sint (write_threshold (out (wr_world r)))))
         \<or> (buffer_type (out w) = OUT_BUFFER_TYPE_UNKNOWN \<and>
             cur_write_threshold (out (wr_world r)) = write_threshold (out (wr_world r)))
         \<or> (\<exists>kf. (kf = 0 \<or> (\<exists>i avail ts. htimestamp e i = Some (avail, ts) \<and>
                                   kf = pcm_get_buffer_size_ret e - avail)) \<and>
                  fast_recovery_condition P (ucast (period_size (pcm_config_out w))) kf
                    (write_threshold (out (wr_world r))) \<and>
                  cur_write_threshold (out (wr_world r))
                    = fast_recovery_threshold (ucast (period_size (pcm_config_out w))) kf)"
proof -
  let ?cfg = "pcm_config_out w"
  let ?s1 = "adapt_buffer_type P ?cfg False (out w)"
  from b obtain p buf1 fs1 s2 t3 where
    th0: "(if out_device (adev w) AND AUDIO_DEVICE_OUT_ALL_SCO P = 0
      then throttle P e (deref_config w p) (adapt_buffer_type P (deref_config w p) False (out w))
      else Some (adapt_buffer_type P (deref_config w p) True (out w), [])) = Some (s2, t3)"
    and r0: "if pcm_write_ret e = - EPIPE
     then r = \<lparr>wr_ret = scast (pcm_write_ret e), wr_world = w\<lparr>out := s2\<rparr>,
               wr_trace = t1 @ t3 @ [Pcm_write (pcm s2) buf1 (ucast (in_frames * fs1))],
               wr_buffer = buf1\<rparr>
     else out_write_exit P (pcm_write_ret e) bytes
            (w\<lparr>out := (if pcm_write_ret e = 0 then s2\<lparr>written := written s2 + in_frames\<rparr> else s2)\<rparr>)
            (t1 @ t3 @ [Pcm_write (pcm s2) buf1 (ucast (in_frames * fs1))]) buf1 = Some r"
    by (rule out_write_bodyE)
  from th0 nsco have th: "throttle P e ?cfg ?s1 = Some (s2, t3)"
    by (simp add: deref_config_eq)
  from r0 have r: "if pcm_write_ret e = - EPIPE
     then wr_world r = w\<lparr>out := s2\<rparr>
     else wr_world r =
            w\<lparr>out := (if pcm_write_ret e = 0 then s2\<lparr>written := written s2 + in_frames\<rparr> else s2)\<rparr>"
    by (auto dest: out_write_exit_Some(2) split: if_splits)
  from r have fin: "cur_write_threshold (out (wr_world r)) = cur_write_threshold s2"
    "write_threshold (out (wr_world r)) = write_threshold s2"
    by (auto split: if_splits)
  from throttle_ramp [OF th] obtain kf where
    kf: "kf = 0 \<or> (\<exists>i avail ts. htimestamp e i = Some (avail, ts) \<and>
                              kf = pcm_get_buffer_size_ret e - avail)"
    and rt: "ramp_threshold P (ucast (period_size ?cfg)) kf ?s1 = Some s2"
    by blast
  note wt = ramp_threshold_fields(7) [OF rt]
  from lo hi have lo': "- (2 ^ 31) \<le> sint (write_threshold ?s1) - uint ((ucast (period_size ?cfg) :: 64 word) div 4)"
    and hi': "sint (write_threshold ?s1) + uint ((ucast (period_size ?cfg) :: 64 word) div 4) < 2 ^ 31"
    by (simp_all only: fin wt uint_quarter)
  note c = ramp_threshold_cases [OF rt lo' hi', unfolded uint_quarter wt [symmetric]]
  show ?thesis
  proof (cases "buffer_type (out w) = OUT_BUFFER_TYPE_UNKNOWN")
    case False
    then have "cur_write_threshold ?s1 = cur_write_threshold (out w)"
      by (simp add: adapt_buffer_type_cur)
    with c kf show ?thesis
      by (simp only: fin) blast
  next
    case True
    then have cw: "cur_write_threshold ?s1 = write_threshold s2"
      by (simp add: adapt_buffer_type_cur wt)
    from c show ?thesis
    proof
      assume "\<bar>sint (cur_write_threshold s2) - sint (cur_write_threshold ?s1)\<bar>
                \<le> int (unat (period_size ?cfg) div 4) \<and>
              min (sint (cur_write_threshold ?s1)) (sint (write_threshold s2))
                \<le> sint (cur_write_threshold s2) \<and>
              sint (cur_write_threshold s2)
                \<le> max (sint (cur_write_threshold ?s1)) (sint (write_threshold s2))"
      with cw have "sint (cur_write_threshold s2) = sint (write_threshold s2)"
        by simp
      then have "cur_write_threshold s2 = write_threshold s2"
        by (rule signed_word_eqI)
      with True show ?thesis
        by (simp only: fin) blast
    next
      assume "cur_write_threshold ?s1 = write_threshold s2 \<and>
        fast_recovery_condition P (ucast (period_size ?cfg)) kf (write_threshold s2) \<and>
        cur_write_threshold s2 = fast_recovery_threshold (ucast (period_size ?cfg)) kf"
      with kf show ?thesis
        by (simp only: fin) blast
    qed
  qed
qed

lemma start_output_stream_defined:
  assumes "pcm_config (out w) \<noteq> None"
  shows "\<exists>ret w1 t1. start_output_stream P e w = Some (ret, w1, t1)"
  using assms
  by (auto simp: start_output_stream_def Let_def deref_config_eq out_get_sample_rate_def
      split: if_splits option.splits prod.splits)

lemma out_write_config:
  assumes ow: "out_write P e buf bytes w = Some r"
    and ns: "\<not> standby (out (wr_world r))"
  shows "pcm_config (out (wr_world r)) \<noteq> None"
proof -
  have body: "pcm_config (out (wr_world r')) \<noteq> None"
    if b: "out_write_body P e buf bytes n fs w' t1 = Some r'" for n fs w' t1 r'
  proof -
    from b obtain p buf1 fs1 s2 t3 where
      p: "pcm_config (out w') = Some p"
      and th: "(if out_device (adev w') AND AUDIO_DEVICE_OUT_ALL_SCO P = 0
        then throttle P e (deref_config w' p) (adapt_buffer_type P (deref_config w' p) False (out w'))
        else Some (adapt_buffer_type P (deref_config w' p) True (out w'), [])) = Some (s2, t3)"
      and r: "if pcm_write_ret e = - EPIPE
       then r' = \<lparr>wr_ret = scast (pcm_write_ret e), wr_world = w'\<lparr>out := s2\<rparr>,
                 wr_trace = t1 @ t3 @ [Pcm_write (pcm s2) buf1 (ucast (n * fs1))],
                 wr_buffer = buf1\<rparr>
       else out_write_exit P (pcm_write_ret e) bytes
              (w'\<lparr>out := (if pcm_write_ret e = 0 then s2\<lparr>written := written s2 + n\<rparr> else s2)\<rparr>)
              (t1 @ t3 @ [Pcm_write (pcm s2) buf1 (ucast (n * fs1))]) buf1 = Some r'"
      by (rule out_write_bodyE)
    from th p have "pcm_config s2 = Some p"
      by (auto simp: adapt_buffer_type_fields dest: throttle_fields(3) split: if_splits)
    with r show ?thesis
      by (auto dest!: out_write_exit_Some(2) split: if_splits)
  qed
  from ow show ?thesis
  proof (cases rule: out_writeE)
    case (start_failed ret w1 t1)
    from out_write_exit_Some(2) [OF start_failed(4)] start_output_streamE(4) [OF start_failed(2)]
      start_failed(1) ns
    show ?thesis by simp
  next
    case (started w1 t1)
    from body [OF started(3)] show ?thesis .
  next
    case active
    from body [OF active(2)] show ?thesis .
  qed
qed

lemma step_active_config:
  assumes s: "step P x w = Some w1"
    and inv: "\<not> standby (out w) \<longrightarrow> pcm_config (out w) \<noteq> None"
  shows "\<not> standby (out w1) \<longrightarrow> pcm_config (out w1) \<noteq> None"
proof (cases x)
  case (Write e buf bytes)
  with s obtain r where r: "out_write P e buf bytes w = Some r" and w1: "w1 = wr_world r"
    by auto
  from out_write_config [OF r] w1 show ?thesis by simp
next
  case Standby
  with s do_out_standby_fields(5) [of P w] show ?thesis
    by (auto simp: out_standby_world)
next
  case (Set_parameters ret val)
  with s inv do_out_standby_fields(5) [of P w] show ?thesis
    by (cases "do_out_standby P w") (auto simp: out_set_parameters_def Let_def split: if_splits)
next
  case (Adev_set_parameters ret1 value1 ret2 value2)
  with s inv adev_set_parameters_out [of P ret1 value1 ret2 value2 w] show ?thesis
    by auto
qed

lemma run_active_config:
  "run P ops w = Some w' \<Longrightarrow> (\<not> standby (out w) \<longrightarrow> pcm_config (out w) \<noteq> None) \<Longrightarrow>
   \<not> standby (out w') \<longrightarrow> pcm_config (out w') \<noteq> None"
proof (induction ops arbitrary: w)
  case Nil
  then show ?case by simp
next
  case (Cons x xs)
  from Cons.prems(1) obtain w1 where s: "step P x w = Some w1" and r: "run P xs w1 = Some w'"
    by (auto split: option.splits)
  from Cons.IH [OF r step_active_config [OF s Cons.prems(2)]] show ?case .
qed

lemma opened_standby: "opened P h = Some w0 \<Longrightarrow> standby (out w0)"
  by (auto simp: opened_def adev_open_def adev_open_output_stream_def Let_def split: if_splits)

lemma reachable_active_config:
  assumes "opened P h = Some w0" "run P ops w0 = Some w" "\<not> standby (out w)"
  shows "pcm_config (out w) \<noteq> None"
  using run_active_config [OF assms(2)] opened_standby [OF assms(1)] assms(3) by simp

lemma out_set_parameters_config:
  "pcm_config (out (fst (snd (out_set_parameters P ret val w)))) = pcm_config (out w)"
  using do_out_standby_fields(2) [of P w]
  by (cases "do_out_standby P w") (auto simp: out_set_parameters_def Let_def)

lemma failed_start_write_defined:
  assumes "standby (out w)" and "start_output_stream P (start e) w = Some (ret, w1, t1)"
    and "ret \<noteq> 0" and "audio_stream_out_frame_size P \<noteq> 0" and "out_get_sample_rate w \<noteq> 0"
  shows "\<exists>r. out_write P e buf bytes w = Some r"
  using assms start_output_streamE(7) [OF assms(2)]
  by (simp add: out_write_def out_write_exit_def out_get_sample_rate_def Let_def)

lemma failed_write_facts:
  assumes "out_write P e buf bytes w = Some r"
    and "\<not> list_ex is_pcm_write (wr_trace r) \<or>
         (pcm_write_ret e \<noteq> 0 \<and> pcm_write_ret e \<noteq> - EPIPE)"
  shows "wr_ret r = bytes \<and>
         (\<exists>pre. wr_trace r =
            pre @ [Usleep (ucast (bytes * 1000000 div audio_stream_out_frame_size P
                                    div ucast (out_get_sample_rate w)))]) \<and>
         (unat bytes * 1000000 < 2 ^ 64 \<and>
          unat bytes * 1000000
            div (unat (audio_stream_out_frame_size P) * unat (out_get_sample_rate w)) < 2 ^ 32 \<longrightarrow>
          unat (ucast (bytes * 1000000 div audio_stream_out_frame_size P
                         div ucast (out_get_sample_rate w)) :: u32)
            = unat bytes * 1000000
                div (unat (audio_stream_out_frame_size P) * unat (out_get_sample_rate w))) \<and>
         (\<not> list_ex is_pcm_write (wr_trace r) \<longrightarrow>
            standby (out w) \<and> standby (out (wr_world r)) \<and>
            (\<exists>ret w1 t1. start_output_stream P (start e) w = Some (ret, w1, t1) \<and> ret \<noteq> 0) \<and>
            (\<forall>e' buf' bytes' r'. out_write P e' buf' bytes' (wr_world r) = Some r' \<longrightarrow>
               (\<exists>ret w1 t1. start_output_stream P (start e') (wr_world r) = Some (ret, w1, t1) \<and>
                  (ret = 0 \<longleftrightarrow> \<not> standby (out (wr_world r'))))))"
proof (cases "list_ex is_pcm_write (wr_trace r)")
  case True
  with assms(2) have ret: "pcm_write_ret e \<noteq> 0" "pcm_write_ret e \<noteq> - EPIPE"
    by auto
  from out_write_hw(1) [OF assms(1) True] ret
  obtain pre p d n where "wr_trace r = pre @ [Pcm_write p d n,
     Usleep (ucast (bytes * 1000000 div audio_stream_out_frame_size P div ucast (out_get_sample_rate w)))]"
    by auto
  then have "wr_trace r = (pre @ [Pcm_write p d n]) @
     [Usleep (ucast (bytes * 1000000 div audio_stream_out_frame_size P div ucast (out_get_sample_rate w)))]"
    by simp
  then have tr: "\<exists>pre. wr_trace r = pre @
     [Usleep (ucast (bytes * 1000000 div audio_stream_out_frame_size P div ucast (out_get_sample_rate w)))]"
    by blast
  from out_write_hw(2) [OF assms(1) True] ret have "wr_ret r = bytes"
    by simp
  with tr True usleep_arg_reading show ?thesis
    by simp
next
  case False
  note f = out_write_nohw [OF assms(1) False]
  have next_write: "\<exists>ret w1 t1. start_output_stream P (start e') (wr_world r) = Some (ret, w1, t1) \<and>
                  (ret = 0 \<longleftrightarrow> \<not> standby (out (wr_world r')))"
    if n: "out_write P e' buf' bytes' (wr_world r) = Some r'" for e' buf' bytes' r'
  proof (cases "list_ex is_pcm_write (wr_trace r')")
    case True
    from n f(5) obtain ret w1 t1 where
      st: "start_output_stream P (start e') (wr_world r) = Some (ret, w1, t1)"
      by (auto simp: out_write_def Let_def split: if_splits option.splits)
    have "ret = 0"
    proof (rule ccontr)
      assume "ret \<noteq> 0"
      with n f(5) st have "out_write_exit P ret bytes' w1 t1 buf' = Some r'"
        by (simp add: out_write_def Let_def split: if_splits)
      from out_write_exit_Some(5) [OF this \<open>ret \<noteq> 0\<close>] start_trace_no_write [OF st] True
      show False by (simp add: list_ex_iff)
    qed
    with st out_write_hw(4) [OF n True] show ?thesis by simp
  next
    case False
    from out_write_nohw(2,5) [OF n False] show ?thesis by auto
  qed
  from f(2) have tr: "\<exists>pre. wr_trace r = pre @
     [Usleep (ucast (bytes * 1000000 div audio_stream_out_frame_size P div ucast (out_get_sample_rate w)))]"
    by blast
  from f(2) have st: "\<exists>ret w1 t1. start_output_stream P (start e) w = Some (ret, w1, t1) \<and> ret \<noteq> 0"
    by blast
  from f(1,3,5) tr st next_write usleep_arg_reading show ?thesis
    by blast
qed

lemma route_change_facts:
  assumes "\<not> standby (out w)" and "0 \<le>s ret"
  shows "(val \<noteq> out_device (adev w) \<and> val \<noteq> 0 \<longrightarrow>
            fst (out_set_parameters P ret val w) = ret \<and>
            standby (out (fst (snd (out_set_parameters P ret val w)))) \<and>
            out_device (adev (fst (snd (out_set_parameters P ret val w)))) = val) \<and>
         (val = out_device (adev w) \<or> val = 0 \<longrightarrow> out_set_parameters P ret val w = (ret, w, [])) \<and>
         (\<forall>e buf bytes r ret' w1 t1.
            val \<noteq> out_device (adev w) \<and> val \<noteq> 0 \<and>
            out_write P e buf bytes (fst (snd (out_set_parameters P ret val w))) = Some r \<and>
            start_output_stream P (start e) (fst (snd (out_set_parameters P ret val w)))
              = Some (ret', w1, t1) \<longrightarrow>
            (standby (out (wr_world r)) \<longleftrightarrow> ret' \<noteq> 0) \<and>
            (pcm_is_ready_ret (start e) \<longrightarrow> \<not> standby (out (wr_world r))) \<and>
            out_device (adev (wr_world r)) = val)"
proof -
  let ?w' = "fst (snd (out_set_parameters P ret val w))"
  have c: "fst (out_set_parameters P ret val w) = ret \<and> standby (out ?w') \<and> out_device (adev ?w') = val"
    if "val \<noteq> out_device (adev w) \<and> val \<noteq> 0"
    using out_set_parameters_changed [OF assms(2), of val w P] that by simp
  have n: "(standby (out (wr_world r)) \<longleftrightarrow> ret' \<noteq> 0) \<and>
           (pcm_is_ready_ret (start e) \<longrightarrow> \<not> standby (out (wr_world r))) \<and>
           out_device (adev (wr_world r)) = val"
    if h: "val \<noteq> out_device (adev w) \<and> val \<noteq> 0 \<and> out_write P e buf bytes ?w' = Some r \<and>
        start_output_stream P (start e) ?w' = Some (ret', w1, t1)"
    for e buf bytes r ret' w1 t1
  proof -
    from h c have sb: "standby (out ?w')" and dv: "out_device (adev ?w') = val"
      by simp_all
    from h have ow: "out_write P e buf bytes ?w' = Some r"
      and st: "start_output_stream P (start e) ?w' = Some (ret', w1, t1)"
      by simp_all
    from out_write_after_start [OF ow sb st] dv start_ready_succeeds [OF st]
    show ?thesis by auto
  qed
  from c n out_set_parameters_same [of val w P ret] show ?thesis
    by blast
qed

lemma out_write_body_failed:
  assumes cf: "pcm_config (out w) = Some p"
    and rc: "reduce_channels (deref_config w p) buf in_frames frame_size = Some (b, fs1)"
    and th: "(if out_device (adev w) AND AUDIO_DEVICE_OUT_ALL_SCO P \<noteq> 0
              then Some (adapt_buffer_type P (deref_config w p) True (out w), [])
              else throttle P e (deref_config w p)
                     (adapt_buffer_type P (deref_config w p) False (out w))) = Some (s2, t3)"
    and ret: "pcm_write_ret e \<noteq> 0" "pcm_write_ret e \<noteq> - EPIPE"
    and nz: "audio_stream_out_frame_size P \<noteq> 0" "out_get_sample_rate w \<noteq> 0"
  shows "out_write_body P e buf bytes in_frames frame_size w t1 =
           Some \<lparr>wr_ret = bytes, wr_world = w\<lparr>out := s2\<rparr>,
                 wr_trace = t1 @ t3 @
                   [Pcm_write (pcm s2) b (ucast (in_frames * fs1)),
                    Usleep (ucast (bytes * 1000000 div audio_stream_out_frame_size P
                                     div ucast (out_get_sample_rate w)))],
                 wr_buffer = b\<rparr>"
proof (cases "out_device (adev w) AND AUDIO_DEVICE_OUT_ALL_SCO P \<noteq> 0")
  case True
  with assms show ?thesis
    by (simp add: out_write_body_def out_write_exit_def Let_def)
next
  case False
  with assms show ?thesis
    by (simp add: out_write_body_def out_write_exit_def Let_def)
qed

lemma ramp_threshold_defined:
  assumes kf: "0 \<le>s kf" and ps: "ps \<noteq> 0"
  shows "\<exists>s'. ramp_threshold P ps kf s = Some s'"
proof (cases "kf <s write_threshold s")
  case True
  with kf have "- (2 ^ 31) \<le> sint (write_threshold s) - sint kf \<and>
                sint (write_threshold s) - sint kf < 2 ^ 31"
    using sint_lt [of "write_threshold s"] sint_ge [of kf]
    by (simp add: word_sless_alt word_sle_eq)
  then have "int_sub (write_threshold s) kf = Some (write_threshold s - kf)"
    by (simp add: int_sub_def)
  with ps show ?thesis
    by (simp add: ramp_threshold_def Let_def)
next
  case False
  then show ?thesis
    by (simp add: ramp_threshold_def Let_def)
qed

lemma throttle_idle_defined:
  assumes h: "htimestamp e 0 = None \<or>
              (\<exists>avail ts. htimestamp e 0 = Some (avail, ts) \<and>
                 \<not> cur_write_threshold s <s pcm_get_buffer_size_ret e - avail \<and>
                 0 \<le>s pcm_get_buffer_size_ret e - avail)"
    and ps: "period_size cfg \<noteq> 0"
  shows "\<exists>s' t. throttle P e cfg s = Some (s', t)"
proof -
  have psz: "(ucast (period_size cfg) :: size_t) \<noteq> 0"
  proof
    assume "(ucast (period_size cfg) :: size_t) = 0"
    then have "unat (ucast (period_size cfg) :: size_t) = 0" by simp
    then have "unat (period_size cfg) = 0" by (simp add: unat_ucast_32_64)
    with ps show False by (simp add: unat_eq_0)
  qed
  from h obtain kf t0 where
    l: "throttle_loop P (htimestamp e) (pcm_get_buffer_size_ret e) cfg (cur_write_threshold s) 0 0 0 []
          = Some (kf, t0)" and kf: "0 \<le>s kf"
    by (auto simp: throttle_loop.simps [of P "htimestamp e" "pcm_get_buffer_size_ret e" cfg
                      "cur_write_threshold s" 0 0 0 "[]"])
  from ramp_threshold_defined [OF kf psz] obtain s' where
    "ramp_threshold P (ucast (period_size cfg)) kf s = Some s'"
    by blast
  with l show ?thesis
    by (simp add: throttle_def Let_def)
qed

lemmas write_eval =
  out_write_def out_write_body_def out_write_exit_def start_output_stream_def
  example_platform_def example_env_def active_world_def fresh_world_def fresh_out_def
  active_out_stream_def example_config_def example_adev_def example_start_env_def
  deref_config_def adapt_buffer_type_def reduce_channels_def change_sample_rate_def
  out_get_sample_rate_def audio_channel_count_from_out_mask_def out_get_channels_def
  AUDIO_CHANNEL_OUT_STEREO_def throttle_def write_sleep_time_us_def
  throttle_loop.simps ramp_threshold_def int_sub_def int_add_def EPIPE_def ENOMEM_def
  OUT_BUFFER_TYPE_SHORT_def OUT_BUFFER_TYPE_UNKNOWN_def OUT_BUFFER_TYPE_LONG_def
  MIN_WRITE_SLEEP_US_def MAX_WRITE_SLEEP_US_def OUT_MAX_PREOD_SAMPLE_def
  ORIENTATION_UNDEFINED_def word_sless_alt word_sle_eq Let_def

subsection \<open>Standby\<close>

text \<open>
  Claim C7. Standby is idempotent: in every world the first call of \<^verbatim>\<open>out_standby\<close>
  returns 0, and a second call made right after it returns 0 as well, leaves the stream
  and the device exactly as the first call left them, and makes no call into a library
  at all: the PCM is not closed again, no resampler is released, no buffer is freed.
\<close>

theorem out_standby_idempotent:
  "fst (out_standby P w) = 0 \<and>
   out_standby P (fst (snd (out_standby P w))) = (0, fst (snd (out_standby P w)), [])"
  by (simp add: out_standby_def do_out_standby_def Let_def split: prod.splits option.splits)

theorem out_standby_idempotent_witness:
  "out_standby example_platform
     (active_world\<lparr>out := active_out_stream\<lparr>resampler := Some 1, buffer := Some 2\<rparr>\<rparr>) =
     (0, active_world\<lparr>adev := example_adev, out := active_out_stream\<lparr>pcm := None, standby := True\<rparr>\<rparr>,
      [Pcm_close (Some 7), Release_resampler 1, Free 2]) \<and>
   out_standby example_platform
     (active_world\<lparr>adev := example_adev, out := active_out_stream\<lparr>pcm := None, standby := True\<rparr>\<rparr>) =
     (0, active_world\<lparr>adev := example_adev, out := active_out_stream\<lparr>pcm := None, standby := True\<rparr>\<rparr>,
      [])"
proof -
  have first: "out_standby example_platform
       (active_world\<lparr>out := active_out_stream\<lparr>resampler := Some 1, buffer := Some 2\<rparr>\<rparr>) =
     (0, active_world\<lparr>adev := example_adev, out := active_out_stream\<lparr>pcm := None, standby := True\<rparr>\<rparr>,
      [Pcm_close (Some 7), Release_resampler 1, Free 2])"
    by (simp add: out_standby_def do_out_standby_def active_world_def active_out_stream_def
        example_platform_def example_adev_def)
  show ?thesis
    using out_standby_idempotent
      [of example_platform "active_world\<lparr>out := active_out_stream\<lparr>resampler := Some 1, buffer := Some 2\<rparr>\<rparr>"]
      first
    by simp
qed

subsection \<open>The write path\<close>

text \<open>
  Claim C3. When \<^verbatim>\<open>pcm_write\<close> reports an underrun (\<^verbatim>\<open>-EPIPE\<close>), \<^verbatim>\<open>out_write\<close> returns at
  once: its return value is \<^verbatim>\<open>-EPIPE\<close> (\<open>-32\<close>), the hardware write is the last call it
  makes (no sleep follows it) and the only hardware write of the call (no retry), and
  the counter \<^verbatim>\<open>written\<close> is as before. The byte count is arbitrary.
\<close>

theorem underrun_returns_at_once:
  assumes "out_write P e buf bytes w = Some r"
    and "pcm_write_ret e = - EPIPE"
    and "list_ex is_pcm_write (wr_trace r)"
  shows "sint (wr_ret r) = - 32 \<and>
         (\<exists>pre p d n. wr_trace r = pre @ [Pcm_write p d n] \<and> \<not> list_ex is_pcm_write pre) \<and>
         written (out (wr_world r)) = written (out w)"
proof -
  have ne: "- EPIPE \<noteq> (0 :: s32)" by (simp add: EPIPE_def)
  have s: "sint (scast (- EPIPE :: s32) :: 64 word) = - 32" by (simp add: EPIPE_def)
  from out_write_hw(1-3) [OF assms(1,3)] assms(2) ne s show ?thesis
    by auto
qed

theorem underrun_returns_at_once_witness:
  "out_write example_platform (example_env\<lparr>pcm_write_ret := - EPIPE\<rparr>)
     [1, 2, 3, 4, 5, 6, 7, 8] 32 active_world =
     Some \<lparr>wr_ret = - 32, wr_world = active_world,
           wr_trace = [Pcm_get_htimestamp, Pcm_write (Some 7) [1, 2, 3, 4, 5, 6, 7, 8] 32],
           wr_buffer = [1, 2, 3, 4, 5, 6, 7, 8]\<rparr> \<and>
   sint (- 32 :: 64 word) = - 32 \<and>
   (\<exists>pre p d n. [Pcm_get_htimestamp, Pcm_write (Some 7) [1, 2, 3, 4, 5, 6, 7, 8] 32]
                   = pre @ [Pcm_write p d n] \<and> \<not> list_ex is_pcm_write pre) \<and>
   written (out active_world) = 1000"
proof -
  have run: "out_write example_platform (example_env\<lparr>pcm_write_ret := - EPIPE\<rparr>)
     [1, 2, 3, 4, 5, 6, 7, 8] 32 active_world =
     Some \<lparr>wr_ret = - 32, wr_world = active_world,
           wr_trace = [Pcm_get_htimestamp, Pcm_write (Some 7) [1, 2, 3, 4, 5, 6, 7, 8] 32],
           wr_buffer = [1, 2, 3, 4, 5, 6, 7, 8]\<rparr>"
    by (simp add: write_eval)
  have w: "written (out active_world) = 1000"
    by (simp add: active_world_def active_out_stream_def)
  from underrun_returns_at_once [OF run] run w show ?thesis
    by simp
qed

text \<open>
  Claim C4. A call of \<^verbatim>\<open>out_write\<close> that fails for another reason than an underrun,
  because the stream could not be started (no hardware write is made) or because
  \<^verbatim>\<open>pcm_write\<close> returned an error other than \<^verbatim>\<open>-EPIPE\<close>, returns the whole byte count,
  and the last thing it does is to sleep for \<^verbatim>\<open>bytes * 1000000 / frame_size / rate\<close>
  microseconds, the time the bytes take to play at the rate of the stream (as a
  number, whenever the product fits in 64 bits and the quotient in 32). When the
  start failed the stream was in standby and still is, so that the next write runs
  \<^verbatim>\<open>start_output_stream\<close> again and leaves standby exactly if that returns 0.

  Such a call does return, on both paths.
  \<^item> On a stream in standby whose start returns a value other than 0, \<^verbatim>\<open>out_write\<close> has
    a result, without a hardware write, as soon as the frame size and the rate are
    not 0.
  \<^item> On a stream that plays, or that this call has just started, whenever the
    down-mix and the throttle before the hardware write have a result and
    \<^verbatim>\<open>pcm_write\<close> returns an error other than \<^verbatim>\<open>-EPIPE\<close>, \<^verbatim>\<open>out_write\<close> returns the byte
    count, the stream stays as the throttle left it, and the trace is the one of the
    start and the throttle followed by exactly the hardware write and the sleep.
  \<^item> The down-mix and the throttle do have a result when the hardware has at least
    two channels and either the route is an SCO route, or the period size is not 0
    and the first telemetry call fails or reports a fill level that is not negative
    and not above the current threshold (nothing to wait for): then the call
    returns the byte count after the hardware write of the caller's buffer and the
    sleep.
\<close>

theorem failed_write_sleeps_and_consumes:
  "(\<forall>r. out_write P e buf bytes w = Some r \<and>
         (\<not> list_ex is_pcm_write (wr_trace r) \<or>
          (pcm_write_ret e \<noteq> 0 \<and> pcm_write_ret e \<noteq> - EPIPE)) \<longrightarrow>
      wr_ret r = bytes \<and>
      (\<exists>pre. wr_trace r =
         pre @ [Usleep (ucast (bytes * 1000000 div audio_stream_out_frame_size P
                                 div ucast (out_get_sample_rate w)))]) \<and>
      (unat bytes * 1000000 < 2 ^ 64 \<and>
       unat bytes * 1000000
         div (unat (audio_stream_out_frame_size P) * unat (out_get_sample_rate w)) < 2 ^ 32 \<longrightarrow>
       unat (ucast (bytes * 1000000 div audio_stream_out_frame_size P
                      div ucast (out_get_sample_rate w)) :: u32)
         = unat bytes * 1000000
             div (unat (audio_stream_out_frame_size P) * unat (out_get_sample_rate w))) \<and>
      (\<not> list_ex is_pcm_write (wr_trace r) \<longrightarrow>
         standby (out w) \<and> standby (out (wr_world r)) \<and>
         (\<exists>ret w1 t1. start_output_stream P (start e) w = Some (ret, w1, t1) \<and> ret \<noteq> 0) \<and>
         (\<forall>e' buf' bytes' r'. out_write P e' buf' bytes' (wr_world r) = Some r' \<longrightarrow>
            (\<exists>ret w1 t1. start_output_stream P (start e') (wr_world r) = Some (ret, w1, t1) \<and>
               (ret = 0 \<longleftrightarrow> \<not> standby (out (wr_world r'))))))) \<and>
   (\<forall>ret w1 t1. standby (out w) \<and> start_output_stream P (start e) w = Some (ret, w1, t1) \<and>
      ret \<noteq> 0 \<and> audio_stream_out_frame_size P \<noteq> 0 \<and> out_get_sample_rate w \<noteq> 0 \<longrightarrow>
      (\<exists>r. out_write P e buf bytes w = Some r \<and> \<not> list_ex is_pcm_write (wr_trace r))) \<and>
   (\<forall>wb ta p b fs s tc.
      ((\<not> standby (out w) \<and> wb = w \<and> ta = []) \<or>
       (standby (out w) \<and>
        (\<exists>w1. start_output_stream P (start e) w = Some (0, w1, ta) \<and>
              wb = w1\<lparr>out := (out w1)\<lparr>standby := False\<rparr>\<rparr>))) \<and>
      pcm_config (out wb) = Some p \<and>
      reduce_channels (deref_config wb p) buf (bytes div audio_stream_out_frame_size P)
        (audio_stream_out_frame_size P) = Some (b, fs) \<and>
      (if out_device (adev wb) AND AUDIO_DEVICE_OUT_ALL_SCO P \<noteq> 0
       then Some (adapt_buffer_type P (deref_config wb p) True (out wb), [])
       else throttle P e (deref_config wb p)
              (adapt_buffer_type P (deref_config wb p) False (out wb))) = Some (s, tc) \<and>
      pcm_write_ret e \<noteq> 0 \<and> pcm_write_ret e \<noteq> - EPIPE \<and>
      audio_stream_out_frame_size P \<noteq> 0 \<and> out_get_sample_rate w \<noteq> 0 \<longrightarrow>
      out_write P e buf bytes w =
        Some \<lparr>wr_ret = bytes, wr_world = wb\<lparr>out := s\<rparr>,
              wr_trace = ta @ tc @
                [Pcm_write (pcm s) b (ucast (bytes div audio_stream_out_frame_size P * fs)),
                 Usleep (ucast (bytes * 1000000 div audio_stream_out_frame_size P
                                  div ucast (out_get_sample_rate w)))],
              wr_buffer = b\<rparr>) \<and>
   (\<forall>wb ta p.
      ((\<not> standby (out w) \<and> wb = w \<and> ta = []) \<or>
       (standby (out w) \<and>
        (\<exists>w1. start_output_stream P (start e) w = Some (0, w1, ta) \<and>
              wb = w1\<lparr>out := (out w1)\<lparr>standby := False\<rparr>\<rparr>))) \<and>
      pcm_config (out wb) = Some p \<and>
      \<not> channels (deref_config wb p) < audio_channel_count_from_out_mask out_get_channels \<and>
      (out_device (adev wb) AND AUDIO_DEVICE_OUT_ALL_SCO P \<noteq> 0 \<or>
       (period_size (deref_config wb p) \<noteq> 0 \<and>
        (htimestamp e 0 = None \<or>
         (\<exists>avail ts. htimestamp e 0 = Some (avail, ts) \<and>
            \<not> cur_write_threshold (adapt_buffer_type P (deref_config wb p) False (out wb))
                <s pcm_get_buffer_size_ret e - avail \<and>
            0 \<le>s pcm_get_buffer_size_ret e - avail)))) \<and>
      pcm_write_ret e \<noteq> 0 \<and> pcm_write_ret e \<noteq> - EPIPE \<and>
      audio_stream_out_frame_size P \<noteq> 0 \<and> out_get_sample_rate w \<noteq> 0 \<longrightarrow>
      (\<exists>r pre h. out_write P e buf bytes w = Some r \<and> wr_ret r = bytes \<and>
         wr_trace r = pre @
           [Pcm_write h buf (ucast (bytes div audio_stream_out_frame_size P
                                      * audio_stream_out_frame_size P)),
            Usleep (ucast (bytes * 1000000 div audio_stream_out_frame_size P
                             div ucast (out_get_sample_rate w)))]))"
proof -
  let ?fsz = "audio_stream_out_frame_size P"
  let ?entry = "\<lambda>wb ta. (\<not> standby (out w) \<and> wb = w \<and> ta = []) \<or>
       (standby (out w) \<and>
        (\<exists>w1. start_output_stream P (start e) w = Some (0, w1, ta) \<and>
              wb = w1\<lparr>out := (out w1)\<lparr>standby := False\<rparr>\<rparr>))"
  have 1: "wr_ret r = bytes \<and>
      (\<exists>pre. wr_trace r =
         pre @ [Usleep (ucast (bytes * 1000000 div audio_stream_out_frame_size P
                                 div ucast (out_get_sample_rate w)))]) \<and>
      (unat bytes * 1000000 < 2 ^ 64 \<and>
       unat bytes * 1000000
         div (unat (audio_stream_out_frame_size P) * unat (out_get_sample_rate w)) < 2 ^ 32 \<longrightarrow>
       unat (ucast (bytes * 1000000 div audio_stream_out_frame_size P
                      div ucast (out_get_sample_rate w)) :: u32)
         = unat bytes * 1000000
             div (unat (audio_stream_out_frame_size P) * unat (out_get_sample_rate w))) \<and>
      (\<not> list_ex is_pcm_write (wr_trace r) \<longrightarrow>
         standby (out w) \<and> standby (out (wr_world r)) \<and>
         (\<exists>ret w1 t1. start_output_stream P (start e) w = Some (ret, w1, t1) \<and> ret \<noteq> 0) \<and>
         (\<forall>e' buf' bytes' r'. out_write P e' buf' bytes' (wr_world r) = Some r' \<longrightarrow>
            (\<exists>ret w1 t1. start_output_stream P (start e') (wr_world r) = Some (ret, w1, t1) \<and>
               (ret = 0 \<longleftrightarrow> \<not> standby (out (wr_world r'))))))"
    if a: "out_write P e buf bytes w = Some r \<and>
         (\<not> list_ex is_pcm_write (wr_trace r) \<or>
          (pcm_write_ret e \<noteq> 0 \<and> pcm_write_ret e \<noteq> - EPIPE))" for r
  proof -
    from a have ow: "out_write P e buf bytes w = Some r"
      and f: "\<not> list_ex is_pcm_write (wr_trace r) \<or>
          (pcm_write_ret e \<noteq> 0 \<and> pcm_write_ret e \<noteq> - EPIPE)"
      by simp_all
    from failed_write_facts [OF ow f] show ?thesis .
  qed
  have 2: "\<exists>r. out_write P e buf bytes w = Some r \<and> \<not> list_ex is_pcm_write (wr_trace r)"
    if a: "standby (out w) \<and> start_output_stream P (start e) w = Some (ret, w1, t1) \<and>
      ret \<noteq> 0 \<and> audio_stream_out_frame_size P \<noteq> 0 \<and> out_get_sample_rate w \<noteq> 0"
    for ret w1 t1
  proof -
    from a have sb: "standby (out w)" and st: "start_output_stream P (start e) w = Some (ret, w1, t1)"
      and nz: "ret \<noteq> 0" "audio_stream_out_frame_size P \<noteq> 0" "out_get_sample_rate w \<noteq> 0"
      by simp_all
    from failed_start_write_defined [OF sb st nz] obtain r where
      r: "out_write P e buf bytes w = Some r"
      by blast
    have "\<not> list_ex is_pcm_write (wr_trace r)"
    proof
      assume "list_ex is_pcm_write (wr_trace r)"
      from out_write_hw(4) [OF r this] out_write_after_start(1) [OF r sb st] nz(1)
      show False by simp
    qed
    with r show ?thesis
      by blast
  qed
  have body: "out_write P e buf bytes w = out_write_body P e buf bytes (bytes div ?fsz) ?fsz wb ta"
    and rate: "out_get_sample_rate wb = out_get_sample_rate w"
    if en: "?entry wb ta" and nz: "?fsz \<noteq> 0" for wb ta
  proof -
    from en nz show "out_write P e buf bytes w = out_write_body P e buf bytes (bytes div ?fsz) ?fsz wb ta"
      by (auto simp: out_write_def Let_def)
    from en show "out_get_sample_rate wb = out_get_sample_rate w"
      by (auto simp: out_get_sample_rate_def dest: start_output_streamE(7))
  qed
  have 3: "out_write P e buf bytes w =
        Some \<lparr>wr_ret = bytes, wr_world = wb\<lparr>out := s\<rparr>,
              wr_trace = ta @ tc @
                [Pcm_write (pcm s) b (ucast (bytes div ?fsz * fs)),
                 Usleep (ucast (bytes * 1000000 div ?fsz div ucast (out_get_sample_rate w)))],
              wr_buffer = b\<rparr>"
    if a: "?entry wb ta \<and>
      pcm_config (out wb) = Some p \<and>
      reduce_channels (deref_config wb p) buf (bytes div ?fsz) ?fsz = Some (b, fs) \<and>
      (if out_device (adev wb) AND AUDIO_DEVICE_OUT_ALL_SCO P \<noteq> 0
       then Some (adapt_buffer_type P (deref_config wb p) True (out wb), [])
       else throttle P e (deref_config wb p)
              (adapt_buffer_type P (deref_config wb p) False (out wb))) = Some (s, tc) \<and>
      pcm_write_ret e \<noteq> 0 \<and> pcm_write_ret e \<noteq> - EPIPE \<and>
      ?fsz \<noteq> 0 \<and> out_get_sample_rate w \<noteq> 0"
    for wb ta p b fs s tc
  proof -
    from a have en: "?entry wb ta" by (rule conjunct1)
    from a have cf: "pcm_config (out wb) = Some p"
      and rc: "reduce_channels (deref_config wb p) buf (bytes div ?fsz) ?fsz = Some (b, fs)"
      and th: "(if out_device (adev wb) AND AUDIO_DEVICE_OUT_ALL_SCO P \<noteq> 0
       then Some (adapt_buffer_type P (deref_config wb p) True (out wb), [])
       else throttle P e (deref_config wb p)
              (adapt_buffer_type P (deref_config wb p) False (out wb))) = Some (s, tc)"
      and ret: "pcm_write_ret e \<noteq> 0" "pcm_write_ret e \<noteq> - EPIPE"
      and nz: "?fsz \<noteq> 0" "out_get_sample_rate w \<noteq> 0"
      by blast+
    from nz(2) rate [OF en nz(1)] have nzb: "out_get_sample_rate wb \<noteq> 0"
      by simp
    from out_write_body_failed [OF cf rc th ret nz(1) nzb, of bytes ta]
         body [OF en nz(1)] rate [OF en nz(1)]
    show ?thesis by simp
  qed
  have 4: "\<exists>r pre h. out_write P e buf bytes w = Some r \<and> wr_ret r = bytes \<and>
         wr_trace r = pre @
           [Pcm_write h buf (ucast (bytes div ?fsz * ?fsz)),
            Usleep (ucast (bytes * 1000000 div ?fsz div ucast (out_get_sample_rate w)))]"
    if a: "?entry wb ta \<and>
      pcm_config (out wb) = Some p \<and>
      \<not> channels (deref_config wb p) < audio_channel_count_from_out_mask out_get_channels \<and>
      (out_device (adev wb) AND AUDIO_DEVICE_OUT_ALL_SCO P \<noteq> 0 \<or>
       (period_size (deref_config wb p) \<noteq> 0 \<and>
        (htimestamp e 0 = None \<or>
         (\<exists>avail ts. htimestamp e 0 = Some (avail, ts) \<and>
            \<not> cur_write_threshold (adapt_buffer_type P (deref_config wb p) False (out wb))
                <s pcm_get_buffer_size_ret e - avail \<and>
            0 \<le>s pcm_get_buffer_size_ret e - avail)))) \<and>
      pcm_write_ret e \<noteq> 0 \<and> pcm_write_ret e \<noteq> - EPIPE \<and>
      ?fsz \<noteq> 0 \<and> out_get_sample_rate w \<noteq> 0"
    for wb ta p
  proof -
    let ?cfg = "deref_config wb p"
    from a have en: "?entry wb ta" by (rule conjunct1)
    from a have cf: "pcm_config (out wb) = Some p"
      and ch: "\<not> channels ?cfg < audio_channel_count_from_out_mask out_get_channels"
      and ret: "pcm_write_ret e \<noteq> 0" "pcm_write_ret e \<noteq> - EPIPE"
      and nz: "?fsz \<noteq> 0" "out_get_sample_rate w \<noteq> 0"
      by blast+
    from a have idle: "out_device (adev wb) AND AUDIO_DEVICE_OUT_ALL_SCO P \<noteq> 0 \<or>
       (period_size ?cfg \<noteq> 0 \<and>
        (htimestamp e 0 = None \<or>
         (\<exists>avail ts. htimestamp e 0 = Some (avail, ts) \<and>
            \<not> cur_write_threshold (adapt_buffer_type P ?cfg False (out wb))
                <s pcm_get_buffer_size_ret e - avail \<and>
            0 \<le>s pcm_get_buffer_size_ret e - avail)))"
      by blast
    from ch have rc: "reduce_channels ?cfg buf (bytes div ?fsz) ?fsz = Some (buf, ?fsz)"
      by (simp add: reduce_channels_def)
    have "\<exists>s tc. (if out_device (adev wb) AND AUDIO_DEVICE_OUT_ALL_SCO P \<noteq> 0
       then Some (adapt_buffer_type P ?cfg True (out wb), [])
       else throttle P e ?cfg (adapt_buffer_type P ?cfg False (out wb))) = Some (s, tc)"
    proof (cases "out_device (adev wb) AND AUDIO_DEVICE_OUT_ALL_SCO P \<noteq> 0")
      case True
      then show ?thesis by simp
    next
      case False
      with idle have ps: "period_size ?cfg \<noteq> 0"
        and h: "htimestamp e 0 = None \<or>
         (\<exists>avail ts. htimestamp e 0 = Some (avail, ts) \<and>
            \<not> cur_write_threshold (adapt_buffer_type P ?cfg False (out wb))
                <s pcm_get_buffer_size_ret e - avail \<and>
            0 \<le>s pcm_get_buffer_size_ret e - avail)"
        by blast+
      from throttle_idle_defined [OF h ps, of P] False show ?thesis
        by simp
    qed
    then obtain s tc where th: "(if out_device (adev wb) AND AUDIO_DEVICE_OUT_ALL_SCO P \<noteq> 0
       then Some (adapt_buffer_type P ?cfg True (out wb), [])
       else throttle P e ?cfg (adapt_buffer_type P ?cfg False (out wb))) = Some (s, tc)"
      by blast
    from en cf rc th ret nz have "?entry wb ta \<and>
      pcm_config (out wb) = Some p \<and>
      reduce_channels (deref_config wb p) buf (bytes div ?fsz) ?fsz = Some (buf, ?fsz) \<and>
      (if out_device (adev wb) AND AUDIO_DEVICE_OUT_ALL_SCO P \<noteq> 0
       then Some (adapt_buffer_type P (deref_config wb p) True (out wb), [])
       else throttle P e (deref_config wb p)
              (adapt_buffer_type P (deref_config wb p) False (out wb))) = Some (s, tc) \<and>
      pcm_write_ret e \<noteq> 0 \<and> pcm_write_ret e \<noteq> - EPIPE \<and>
      ?fsz \<noteq> 0 \<and> out_get_sample_rate w \<noteq> 0"
      by blast
    from 3 [OF this] have r: "out_write P e buf bytes w =
        Some \<lparr>wr_ret = bytes, wr_world = wb\<lparr>out := s\<rparr>,
              wr_trace = (ta @ tc) @
                [Pcm_write (pcm s) buf (ucast (bytes div ?fsz * ?fsz)),
                 Usleep (ucast (bytes * 1000000 div ?fsz div ucast (out_get_sample_rate w)))],
              wr_buffer = buf\<rparr>"
      by simp
    show ?thesis
      by (rule exI [of _ "\<lparr>wr_ret = bytes, wr_world = wb\<lparr>out := s\<rparr>,
              wr_trace = (ta @ tc) @
                [Pcm_write (pcm s) buf (ucast (bytes div ?fsz * ?fsz)),
                 Usleep (ucast (bytes * 1000000 div ?fsz div ucast (out_get_sample_rate w)))],
              wr_buffer = buf\<rparr>"], rule exI [of _ "ta @ tc"], rule exI [of _ "pcm s"])
         (simp add: r)
  qed
  from 1 2 3 4 show ?thesis
    by blast
qed

theorem failed_write_sleeps_and_consumes_witness:
  "out_write example_platform (example_env\<lparr>pcm_write_ret := - 5\<rparr>)
     [1, 2, 3, 4, 5, 6, 7, 8] 32 active_world =
     Some \<lparr>wr_ret = 32, wr_world = active_world,
           wr_trace = [Pcm_get_htimestamp, Pcm_write (Some 7) [1, 2, 3, 4, 5, 6, 7, 8] 32, Usleep 83],
           wr_buffer = [1, 2, 3, 4, 5, 6, 7, 8]\<rparr> \<and>
   out_write example_platform (example_env\<lparr>start := example_start_env\<lparr>pcm_is_ready_ret := False\<rparr>\<rparr>)
     [1, 2, 3, 4, 5, 6, 7, 8] 32 fresh_world =
     Some \<lparr>wr_ret = 32,
           wr_world = fresh_world\<lparr>out := fresh_out\<lparr>pcm := Some 7,
                                                     pcm_config := Some Addr_pcm_config_out\<rparr>\<rparr>,
           wr_trace = [Pcm_open 0 0, Pcm_close (Some 7), Usleep 83],
           wr_buffer = [1, 2, 3, 4, 5, 6, 7, 8]\<rparr> \<and>
   standby (out fresh_world) \<and>
   standby (out (fresh_world\<lparr>out := fresh_out\<lparr>pcm := Some 7,
                                               pcm_config := Some Addr_pcm_config_out\<rparr>\<rparr>)) \<and>
   unat (83 :: u32) = 32 * 1000000 div (8 * 48000)"
proof -
  let ?e = "example_env\<lparr>start := example_start_env\<lparr>pcm_is_ready_ret := False\<rparr>\<rparr>"
  let ?d = "example_env\<lparr>pcm_write_ret := - 5\<rparr>"
  let ?buf = "[1, 2, 3, 4, 5, 6, 7, 8] :: sample list"
  let ?r = "\<lparr>wr_ret = 32,
           wr_world = fresh_world\<lparr>out := fresh_out\<lparr>pcm := Some 7,
                                                     pcm_config := Some Addr_pcm_config_out\<rparr>\<rparr>,
           wr_trace = [Pcm_open 0 0, Pcm_close (Some 7), Usleep 83],
           wr_buffer = [1, 2, 3, 4, 5, 6, 7, 8]\<rparr>"
  have run: "out_write example_platform ?e ?buf 32 fresh_world = Some ?r"
    by (simp add: write_eval)
  have hyp: "\<not> list_ex is_pcm_write (wr_trace ?r) \<or>
         (pcm_write_ret ?e \<noteq> 0 \<and> pcm_write_ret ?e \<noteq> - EPIPE)"
    by simp
  have nw: "\<not> list_ex is_pcm_write (wr_trace ?r)"
    by simp
  note fs = failed_write_sleeps_and_consumes
         [of example_platform ?e ?buf 32 fresh_world, THEN conjunct1, rule_format,
          OF conjI [OF run hyp], THEN conjunct2, THEN conjunct2, THEN conjunct2,
          rule_format, OF nw]
  from fs have sb: "standby (out fresh_world)"
    "standby (out (fresh_world\<lparr>out := fresh_out\<lparr>pcm := Some 7,
                                               pcm_config := Some Addr_pcm_config_out\<rparr>\<rparr>))"
    by simp_all
  note hw = failed_write_sleeps_and_consumes
         [of example_platform ?d ?buf 32 active_world,
          THEN conjunct2, THEN conjunct2, THEN conjunct1, rule_format,
          where wb = active_world and ta = "[]" and p = Addr_pcm_config_out and b = ?buf
            and fs = 8 and s = active_out_stream and tc = "[Pcm_get_htimestamp]"]
  have en: "(\<not> standby (out active_world) \<and> active_world = active_world \<and> [] = ([] :: event list)) \<or>
       (standby (out active_world) \<and>
        (\<exists>w1. start_output_stream example_platform (start ?d) active_world = Some (0, w1, []) \<and>
              active_world = w1\<lparr>out := (out w1)\<lparr>standby := False\<rparr>\<rparr>))"
    by (simp add: active_world_def active_out_stream_def)
  have cf: "pcm_config (out active_world) = Some Addr_pcm_config_out"
    by (simp add: active_world_def active_out_stream_def)
  have rc: "reduce_channels (deref_config active_world Addr_pcm_config_out) ?buf
        (32 div audio_stream_out_frame_size example_platform)
        (audio_stream_out_frame_size example_platform) = Some (?buf, 8)"
    by (simp add: write_eval)
  have th: "(if out_device (adev active_world) AND AUDIO_DEVICE_OUT_ALL_SCO example_platform \<noteq> 0
       then Some (adapt_buffer_type example_platform (deref_config active_world Addr_pcm_config_out)
                    True (out active_world), [])
       else throttle example_platform ?d (deref_config active_world Addr_pcm_config_out)
              (adapt_buffer_type example_platform (deref_config active_world Addr_pcm_config_out)
                 False (out active_world))) = Some (active_out_stream, [Pcm_get_htimestamp])"
    by (simp add: write_eval)
  have ret: "pcm_write_ret ?d \<noteq> 0" "pcm_write_ret ?d \<noteq> - EPIPE"
    by (simp_all add: EPIPE_def)
  have nz: "audio_stream_out_frame_size example_platform \<noteq> 0 \<and> out_get_sample_rate active_world \<noteq> 0"
    by (simp add: example_platform_def out_get_sample_rate_def active_world_def example_config_def)
  have raw: "out_write example_platform ?d ?buf 32 active_world =
        Some \<lparr>wr_ret = 32, wr_world = active_world\<lparr>out := active_out_stream\<rparr>,
              wr_trace = [] @ [Pcm_get_htimestamp] @
                [Pcm_write (pcm active_out_stream) ?buf
                   (ucast (32 div audio_stream_out_frame_size example_platform * 8)),
                 Usleep (ucast (32 * 1000000 div audio_stream_out_frame_size example_platform
                                  div ucast (out_get_sample_rate active_world)))],
              wr_buffer = ?buf\<rparr>"
    by (rule hw [OF conjI [OF en conjI [OF cf conjI [OF rc conjI [OF th
                   conjI [OF ret(1) conjI [OF ret(2) nz]]]]]]])
  have a: "active_world\<lparr>out := active_out_stream\<rparr> = active_world"
    by (simp add: active_world_def)
  have b: "pcm active_out_stream = Some 7"
    by (simp add: active_out_stream_def)
  have c: "(ucast (32 div audio_stream_out_frame_size example_platform * 8) :: u32) = 32"
    by (simp add: example_platform_def)
  have d: "(ucast (32 * 1000000 div audio_stream_out_frame_size example_platform
                                  div ucast (out_get_sample_rate active_world)) :: u32) = 83"
    by (simp add: example_platform_def out_get_sample_rate_def active_world_def example_config_def)
  from raw have run2: "out_write example_platform ?d ?buf 32 active_world =
     Some \<lparr>wr_ret = 32, wr_world = active_world,
           wr_trace = [Pcm_get_htimestamp, Pcm_write (Some 7) ?buf 32, Usleep 83],
           wr_buffer = ?buf\<rparr>"
    by (simp only: a b c d append_Nil append_Cons)
  have un: "unat (83 :: u32) = 32 * 1000000 div (8 * 48000)"
    by simp
  from run2 run sb un show ?thesis
    by blast
qed

text \<open>
  Claim C6. The counter \<^verbatim>\<open>written\<close>: a write adds the frames of the call,
  \<^verbatim>\<open>bytes / frame_size\<close>, when the hardware write is made and returns 0, and leaves the
  counter alone in every other case; \<^verbatim>\<open>out_standby\<close> and \<^verbatim>\<open>start_output_stream\<close>, the
  two transitions, do not touch it; and over any sequence of calls that submits
  fewer frames than the 64-bit counter can hold, the counter never decreases.
\<close>

theorem written_counter:
  "(\<forall>e buf bytes r. out_write P e buf bytes w = Some r \<longrightarrow>
      written (out (wr_world r)) =
        (if list_ex is_pcm_write (wr_trace r) \<and> pcm_write_ret e = 0
         then written (out w) + bytes div audio_stream_out_frame_size P
         else written (out w))) \<and>
   written (out (fst (snd (out_standby P w)))) = written (out w) \<and>
   (\<forall>e ret w1 t. start_output_stream P e w = Some (ret, w1, t) \<longrightarrow>
      written (out w1) = written (out w)) \<and>
   (\<forall>ops w'. run P ops w = Some w' \<and>
      unat (written (out w)) + sum_list (map (frames_of P) ops) < 2 ^ 64 \<longrightarrow>
      unat (written (out w)) \<le> unat (written (out w')))"
  using out_write_written [of P _ _ _ w] do_out_standby_fields(1) [of P w]
    start_output_streamE(1) [of P _ w] run_written_mono [of P _ w]
  by (simp add: out_standby_world) blast

theorem written_counter_witness:
  "out_write example_platform example_env [1, 2, 3, 4, 5, 6, 7, 8] 32 active_world =
     Some \<lparr>wr_ret = 32,
           wr_world = active_world\<lparr>out := active_out_stream\<lparr>written := 1004\<rparr>\<rparr>,
           wr_trace = [Pcm_get_htimestamp, Pcm_write (Some 7) [1, 2, 3, 4, 5, 6, 7, 8] 32],
           wr_buffer = [1, 2, 3, 4, 5, 6, 7, 8]\<rparr> \<and>
   written (out (fst (snd (out_standby example_platform active_world)))) = 1000 \<and>
   run example_platform
     [Write example_env [1, 2, 3, 4, 5, 6, 7, 8] 32, Standby,
      Write example_env [1, 2, 3, 4, 5, 6, 7, 8] 32] active_world =
     Some (active_world\<lparr>out := active_out_stream\<lparr>written := 1008\<rparr>\<rparr>) \<and>
   unat (1000 :: u64) \<le> unat (1008 :: u64)"
proof -
  have w: "written (out active_world) = 1000"
    by (simp add: active_world_def active_out_stream_def)
  have one: "out_write example_platform example_env [1, 2, 3, 4, 5, 6, 7, 8] 32 active_world =
     Some \<lparr>wr_ret = 32,
           wr_world = active_world\<lparr>out := active_out_stream\<lparr>written := 1004\<rparr>\<rparr>,
           wr_trace = [Pcm_get_htimestamp, Pcm_write (Some 7) [1, 2, 3, 4, 5, 6, 7, 8] 32],
           wr_buffer = [1, 2, 3, 4, 5, 6, 7, 8]\<rparr>"
    by (simp add: write_eval)
  have three: "run example_platform
     [Write example_env [1, 2, 3, 4, 5, 6, 7, 8] 32, Standby,
      Write example_env [1, 2, 3, 4, 5, 6, 7, 8] 32] active_world =
     Some (active_world\<lparr>out := active_out_stream\<lparr>written := 1008\<rparr>\<rparr>)"
    by (simp add: write_eval out_standby_def do_out_standby_def)
  have small: "unat (written (out active_world)) +
      sum_list (map (frames_of example_platform)
        [Write example_env [1, 2, 3, 4, 5, 6, 7, 8] 32, Standby,
         Write example_env [1, 2, 3, 4, 5, 6, 7, 8] 32]) < 2 ^ 64"
    by (simp add: w example_platform_def)
  from written_counter [of example_platform active_world] three small
  have "unat (written (out active_world)) \<le>
          unat (written (out (active_world\<lparr>out := active_out_stream\<lparr>written := 1008\<rparr>\<rparr>)))"
    by blast
  moreover from written_counter [of example_platform active_world]
  have "written (out (fst (snd (out_standby example_platform active_world)))) = written (out active_world)"
    by blast
  ultimately show ?thesis
    using one three w by simp
qed

subsection \<open>Presentation position\<close>

text \<open>
  Claim C2. \<^verbatim>\<open>out_get_presentation_position\<close>. When the telemetry read fails the call
  returns \<open>-1\<close> and leaves the caller's frames and timestamp alone. When it succeeds
  with \<open>avail\<close> frames, the call computes \<^verbatim>\<open>written - period_size * period_count + avail\<close>:
  if this number is not negative the call returns 0, that number of frames and the
  timestamp of the telemetry; if it is negative the call returns \<open>-1\<close> and leaves the
  frames alone, so that no negative and no clamped value is ever returned. The numbers
  are read as integers, for a ring capacity that fits in 32 bits and a position below
  \<open>2 ^ 63\<close>. Example: 1000 written, capacity 480, 100 queued give 620.
\<close>

theorem presentation_position_value:
  "out_get_presentation_position None w frames timestamp = Some (- 1, frames, timestamp) \<and>
   (pcm_config (out w) \<noteq> None \<and>
    unat (period_size (pcm_config_out w)) * unat (period_count (pcm_config_out w)) < 2 ^ 32 \<and>
    int (unat (written (out w)))
      - int (unat (period_size (pcm_config_out w)) * unat (period_count (pcm_config_out w)))
      + int (unat avail) < 2 ^ 63 \<longrightarrow>
    (if 0 \<le> int (unat (written (out w)))
              - int (unat (period_size (pcm_config_out w)) * unat (period_count (pcm_config_out w)))
              + int (unat avail)
     then \<exists>f. out_get_presentation_position (Some (avail, ts)) w frames timestamp = Some (0, f, ts) \<and>
              int (unat f) = int (unat (written (out w)))
                - int (unat (period_size (pcm_config_out w)) * unat (period_count (pcm_config_out w)))
                + int (unat avail)
     else out_get_presentation_position (Some (avail, ts)) w frames timestamp
            = Some (- 1, frames, ts)))"
proof -
  let ?sf = "written (out w) - ucast (period_size (pcm_config_out w) * period_count (pcm_config_out w))
               + ucast avail"
  let ?V = "int (unat (written (out w)))
      - int (unat (period_size (pcm_config_out w)) * unat (period_count (pcm_config_out w)))
      + int (unat avail)"
  have none: "out_get_presentation_position None w frames timestamp = Some (- 1, frames, timestamp)"
    by (simp add: out_get_presentation_position_def)
  have some: "(if 0 \<le> ?V
     then \<exists>f. out_get_presentation_position (Some (avail, ts)) w frames timestamp = Some (0, f, ts) \<and>
              int (unat f) = ?V
     else out_get_presentation_position (Some (avail, ts)) w frames timestamp
            = Some (- 1, frames, ts))"
    if p: "pcm_config (out w) \<noteq> None"
      and k: "unat (period_size (pcm_config_out w)) * unat (period_count (pcm_config_out w)) < 2 ^ 32"
      and v: "?V < 2 ^ 63"
  proof -
    from position_word_reading [OF k v] have s: "sint ?sf = ?V" .
    from p obtain c where c: "pcm_config (out w) = Some c" by auto
    show ?thesis
    proof (cases "0 \<le> ?V")
      case True
      with s have nn: "0 \<le> sint ?sf" by simp
      then have "0 \<le>s ?sf" by (simp add: word_sle_eq)
      then have "out_get_presentation_position (Some (avail, ts)) w frames timestamp = Some (0, ?sf, ts)"
        by (simp add: out_get_presentation_position_def c Let_def deref_config_eq)
      moreover from unat_of_nonneg_sint [OF nn] s have "int (unat ?sf) = ?V" by simp
      ultimately show ?thesis using True by (simp only: if_True) blast
    next
      case False
      with s have "\<not> 0 \<le>s ?sf" by (simp add: word_sle_eq)
      then have "out_get_presentation_position (Some (avail, ts)) w frames timestamp = Some (- 1, frames, ts)"
        by (simp add: out_get_presentation_position_def c Let_def deref_config_eq)
      with False show ?thesis by (simp only: if_False)
    qed
  qed
  from none some show ?thesis by blast
qed


theorem presentation_position_value_witness:
  "out_get_presentation_position (Some (100, (5, 6)))
     (active_world\<lparr>pcm_config_out := example_config\<lparr>period_count := 2\<rparr>\<rparr>) 77 (0, 0)
     = Some (0, 620, (5, 6)) \<and>
   int (unat (620 :: u64)) = 1000 - 240 * 2 + 100 \<and>
   out_get_presentation_position None
     (active_world\<lparr>pcm_config_out := example_config\<lparr>period_count := 2\<rparr>\<rparr>) 77 (0, 0)
     = Some (- 1, 77, (0, 0)) \<and>
   out_get_presentation_position (Some (100, (5, 6)))
     (active_world\<lparr>out := active_out_stream\<lparr>written := 0\<rparr>\<rparr>) 77 (0, 0)
     = Some (- 1, 77, (5, 6))"
proof -
  let ?w = "active_world\<lparr>pcm_config_out := example_config\<lparr>period_count := 2\<rparr>\<rparr>"
  let ?v = "active_world\<lparr>out := active_out_stream\<lparr>written := 0\<rparr>\<rparr>"
  have pos: "out_get_presentation_position (Some (100, (5, 6))) ?w 77 (0, 0) = Some (0, 620, (5, 6))"
    by (simp add: out_get_presentation_position_def active_world_def active_out_stream_def
        example_config_def word_sle_eq deref_config_eq)
  have pre: "pcm_config (out ?v) \<noteq> None \<and>
    unat (period_size (pcm_config_out ?v)) * unat (period_count (pcm_config_out ?v)) < 2 ^ 32 \<and>
    int (unat (written (out ?v)))
      - int (unat (period_size (pcm_config_out ?v)) * unat (period_count (pcm_config_out ?v)))
      + int (unat (100 :: u32)) < 2 ^ 63"
    by (simp add: active_world_def active_out_stream_def example_config_def)
  have neg: "\<not> 0 \<le> int (unat (written (out ?v)))
      - int (unat (period_size (pcm_config_out ?v)) * unat (period_count (pcm_config_out ?v)))
      + int (unat (100 :: u32))"
    by (simp add: active_world_def active_out_stream_def example_config_def)
  from presentation_position_value [of ?v 77 "(0, 0)" 100 "(5, 6)"] pre neg
  have "out_get_presentation_position (Some (100, (5, 6))) ?v 77 (0, 0) = Some (- 1, 77, (5, 6))"
    by (simp only: if_False simp_thms)
  moreover from presentation_position_value [of ?w 77 "(0, 0)" 100 "(5, 6)"]
  have "out_get_presentation_position None ?w 77 (0, 0) = Some (- 1, 77, (0, 0))"
    by blast
  ultimately show ?thesis
    using pos by simp
qed

subsection \<open>Channel down-mix\<close>

text \<open>
  Claim C8. When the hardware has fewer channels than the two of the stream, a write
  that reaches the hardware has replaced, in the caller's buffer, slot \<open>j\<close> by the
  sample at slot \<open>2 * j\<close> for every frame \<open>j\<close> of the call: the first \<open>n\<close> slots hold
  the left samples \<open>L0, \<dots>, L(n-1)\<close> of the \<open>n\<close> interleaved frames, nothing is
  averaged, and the length of the buffer is unchanged. The hardware write receives this
  buffer with a byte count of \<open>n\<close> frames of half the frame size. The down-mix itself
  is defined whenever the buffer holds the \<open>n\<close> frames and \<open>n < 2 ^ 31\<close>.
\<close>

theorem downmix_keeps_left_channel:
  assumes "out_write P e buf bytes w = Some r"
    and "list_ex is_pcm_write (wr_trace r)"
    and "channels (pcm_config_out w) < audio_channel_count_from_out_mask out_get_channels"
  shows "audio_channel_count_from_out_mask out_get_channels = 2 \<and>
         length (wr_buffer r) = length buf \<and>
         (\<forall>j < unat (bytes div audio_stream_out_frame_size P). wr_buffer r ! j = buf ! (j * 2)) \<and>
         (unat (bytes div audio_stream_out_frame_size P) \<le> length buf \<longrightarrow>
            take (unat (bytes div audio_stream_out_frame_size P)) (wr_buffer r) =
              map (\<lambda>j. buf ! (j * 2)) [0 ..< unat (bytes div audio_stream_out_frame_size P)]) \<and>
         (\<exists>pre post. \<not> list_ex is_pcm_write pre \<and>
            wr_trace r = pre @ Pcm_write (pcm (out (wr_world r))) (wr_buffer r)
              (ucast (bytes div audio_stream_out_frame_size P
                        * (audio_stream_out_frame_size P div 2))) # post) \<and>
         (unat (bytes div audio_stream_out_frame_size P) < 2 ^ 31 \<and>
          unat (bytes div audio_stream_out_frame_size P) * 2 \<le> length buf + 1 \<longrightarrow>
            (\<exists>b. reduce_channels (pcm_config_out w) buf (bytes div audio_stream_out_frame_size P)
                   (audio_stream_out_frame_size P) = Some (b, audio_stream_out_frame_size P div 2)))"
proof -
  let ?n = "unat (bytes div audio_stream_out_frame_size P)"
  from out_write_buffer [OF assms(1,2)] obtain fs1 pre post where
    rc: "reduce_channels (pcm_config_out w) buf (bytes div audio_stream_out_frame_size P)
             (audio_stream_out_frame_size P) = Some (wr_buffer r, fs1)"
    and tr: "wr_trace r = pre @ Pcm_write (pcm (out (wr_world r))) (wr_buffer r)
                                (ucast (bytes div audio_stream_out_frame_size P * fs1)) # post"
    and pre: "\<not> list_ex is_pcm_write pre"
    by blast
  note l = reduce_channels_left [OF rc assms(3)]
  have tk: "take ?n (wr_buffer r) = map (\<lambda>j. buf ! (j * 2)) [0 ..< ?n]" if "?n \<le> length buf"
  proof (rule nth_equalityI)
    show "length (take ?n (wr_buffer r)) = length (map (\<lambda>j. buf ! (j * 2)) [0 ..< ?n])"
      using that l(2) by simp
  next
    fix i assume "i < length (take ?n (wr_buffer r))"
    then have "i < ?n" by simp
    with l(3) show "take ?n (wr_buffer r) ! i = map (\<lambda>j. buf ! (j * 2)) [0 ..< ?n] ! i"
      by simp
  qed
  from l tr pre tk reduce_channels_defined [OF assms(3)] show ?thesis
    by (auto simp: audio_channel_count_from_out_mask_def)
qed

theorem downmix_keeps_left_channel_witness:
  "channels (pcm_config_out (active_world\<lparr>pcm_config_out := example_config\<lparr>channels := 1\<rparr>\<rparr>))
     < audio_channel_count_from_out_mask out_get_channels \<and>
   out_write mono_platform example_env [10, 11, 20, 21, 30, 31] 24
     (active_world\<lparr>pcm_config_out := example_config\<lparr>channels := 1\<rparr>\<rparr>) =
     Some \<lparr>wr_ret = 24,
           wr_world = active_world\<lparr>pcm_config_out := example_config\<lparr>channels := 1\<rparr>,
                                    out := active_out_stream\<lparr>written := 1003\<rparr>\<rparr>,
           wr_trace = [Pcm_get_htimestamp, Pcm_write (Some 7) [10, 20, 30, 21, 30, 31] 12],
           wr_buffer = [10, 20, 30, 21, 30, 31]\<rparr> \<and>
   take 3 [10, 20, 30, 21, 30, 31 :: sample] = map (\<lambda>j. [10, 11, 20, 21, 30, 31] ! (j * 2)) [0 ..< 3] \<and>
   map (\<lambda>j. [10, 11, 20, 21, 30, 31 :: sample] ! (j * 2)) [0 ..< 3] = [10, 20, 30]"
proof -
  let ?w = "active_world\<lparr>pcm_config_out := example_config\<lparr>channels := 1\<rparr>\<rparr>"
  let ?r = "\<lparr>wr_ret = 24,
           wr_world = active_world\<lparr>pcm_config_out := example_config\<lparr>channels := 1\<rparr>,
                                    out := active_out_stream\<lparr>written := 1003\<rparr>\<rparr>,
           wr_trace = [Pcm_get_htimestamp, Pcm_write (Some 7) [10, 20, 30, 21, 30, 31] 12],
           wr_buffer = [10, 20, 30, 21, 30, 31]\<rparr>"
  have ch: "channels (pcm_config_out ?w) < audio_channel_count_from_out_mask out_get_channels"
    by (simp add: example_config_def audio_channel_count_from_out_mask_def)
  have run: "out_write mono_platform example_env [10, 11, 20, 21, 30, 31] 24 ?w = Some ?r"
    by (simp add: write_eval mono_platform_def discard_right.simps)
  have hw: "list_ex is_pcm_write (wr_trace ?r)"
    by simp
  have n: "unat ((24 :: size_t) div audio_stream_out_frame_size mono_platform) = 3"
    by (simp add: mono_platform_def example_platform_def)
  from downmix_keeps_left_channel [OF run hw ch] n
  have "take 3 [10, 20, 30, 21, 30, 31 :: sample] = map (\<lambda>j. [10, 11, 20, 21, 30, 31] ! (j * 2)) [0 ..< 3]"
    by simp
  moreover have "map (\<lambda>j. [10, 11, 20, 21, 30, 31 :: sample] ! (j * 2)) [0 ..< 3] = [10, 20, 30]"
    by (simp add: upt_rec)
  ultimately show ?thesis
    using ch run by simp
qed

subsection \<open>Rate adaptation\<close>

text \<open>
  Claim C10. The rate that \<^verbatim>\<open>out_get_sample_rate\<close> reports is the rate of the
  configuration the stream points to, whatever the pointer, so the test "stream rate
  differs from device rate" fails everywhere: \<^verbatim>\<open>start_output_stream\<close> leaves the
  resampler and the scratch buffer as they are and calls neither \<^verbatim>\<open>create_resampler\<close>
  nor \<^verbatim>\<open>malloc\<close>; \<^verbatim>\<open>out_write\<close> never calls the resampler and hands the caller's own
  buffer (after the channel reduction) with the frames of the call to \<^verbatim>\<open>pcm_write\<close>;
  and in every world reached from a freshly opened stream by any sequence of calls
  the resampler and the scratch buffer are absent.
\<close>

theorem resampler_never_used:
  "(\<forall>p. out_get_sample_rate w = rate (deref_config w p)) \<and>
   (\<forall>e ret w1 t. start_output_stream P e w = Some (ret, w1, t) \<longrightarrow>
      resampler (out w1) = resampler (out w) \<and> buffer (out w1) = buffer (out w) \<and>
      \<not> list_ex is_resampler_call t) \<and>
   (\<forall>e buf bytes r. out_write P e buf bytes w = Some r \<longrightarrow>
      \<not> list_ex is_resampler_call (wr_trace r) \<and>
      resampler (out (wr_world r)) = resampler (out w) \<and>
      buffer (out (wr_world r)) = buffer (out w) \<and>
      (list_ex is_pcm_write (wr_trace r) \<longrightarrow>
         (\<exists>fs1 pre post.
            reduce_channels (pcm_config_out w) buf (bytes div audio_stream_out_frame_size P)
              (audio_stream_out_frame_size P) = Some (wr_buffer r, fs1) \<and>
            wr_trace r = pre @ Pcm_write (pcm (out (wr_world r))) (wr_buffer r)
              (ucast (bytes div audio_stream_out_frame_size P * fs1)) # post))) \<and>
   (\<forall>h w0 ops. opened P h = Some w0 \<and> run P ops w0 = Some w \<longrightarrow>
      resampler (out w) = None \<and> buffer (out w) = None)"
proof -
  have 1: "\<forall>p. out_get_sample_rate w = rate (deref_config w p)"
    by (simp add: deref_config_eq out_get_sample_rate_def)
  have 2: "resampler (out w1) = resampler (out w) \<and> buffer (out w1) = buffer (out w) \<and>
      \<not> list_ex is_resampler_call t"
    if "start_output_stream P e w = Some (ret, w1, t)" for e ret w1 t
    using start_output_streamE(2,3) [OF that] start_no_resampler [OF that] by simp
  have 3: "\<not> list_ex is_resampler_call (wr_trace r) \<and>
      resampler (out (wr_world r)) = resampler (out w) \<and>
      buffer (out (wr_world r)) = buffer (out w) \<and>
      (list_ex is_pcm_write (wr_trace r) \<longrightarrow>
         (\<exists>fs1 pre post.
            reduce_channels (pcm_config_out w) buf (bytes div audio_stream_out_frame_size P)
              (audio_stream_out_frame_size P) = Some (wr_buffer r, fs1) \<and>
            wr_trace r = pre @ Pcm_write (pcm (out (wr_world r))) (wr_buffer r)
              (ucast (bytes div audio_stream_out_frame_size P * fs1)) # post))"
    if "out_write P e buf bytes w = Some r" for e buf bytes r
    using out_write_resampler [OF that] out_write_buffer [OF that] by blast
  have 4: "resampler (out w) = None \<and> buffer (out w) = None"
    if "opened P h = Some w0 \<and> run P ops w0 = Some w" for h w0 ops
    using that opened_resampler [of P h w0] run_resampler [of P ops w0 w] by blast
  from 1 2 3 4 show ?thesis by blast
qed

theorem resampler_never_used_witness:
  "opened example_platform None = Some fresh_world \<and>
   run example_platform [Write example_env [1, 2, 3, 4, 5, 6, 7, 8] 32] fresh_world =
     Some (fresh_world\<lparr>adev := example_adev\<lparr>active_out := Some Addr_out\<rparr>,
                       out := active_out_stream\<lparr>written := 4\<rparr>\<rparr>) \<and>
   resampler (out (fresh_world\<lparr>adev := example_adev\<lparr>active_out := Some Addr_out\<rparr>,
                               out := active_out_stream\<lparr>written := 4\<rparr>\<rparr>)) = None \<and>
   buffer (out (fresh_world\<lparr>adev := example_adev\<lparr>active_out := Some Addr_out\<rparr>,
                            out := active_out_stream\<lparr>written := 4\<rparr>\<rparr>)) = None"
proof -
  let ?w = "fresh_world\<lparr>adev := example_adev\<lparr>active_out := Some Addr_out\<rparr>,
                       out := active_out_stream\<lparr>written := 4\<rparr>\<rparr>"
  have r: "run example_platform [Write example_env [1, 2, 3, 4, 5, 6, 7, 8] 32] fresh_world = Some ?w"
    by (simp add: write_eval)
  from resampler_never_used [of ?w example_platform] opened_example r
  have "resampler (out ?w) = None \<and> buffer (out ?w) = None"
    by blast
  with opened_example r show ?thesis
    by simp
qed

subsection \<open>Resources and standby\<close>

text \<open>
  Claim C9 states that in standby the PCM handle is absent, also after a failed start.
  The code does not keep that: on a freshly opened stream, a write whose PCM opens as
  handle 7 but is not ready closes the handle and fails, and leaves the stream in
  standby with \<^verbatim>\<open>out->pcm\<close> still equal to the closed handle 7, whereas
  \<^verbatim>\<open>do_out_standby\<close> clears the field after closing. The next write does not open the
  PCM again: it asks the closed handle whether it is ready and writes to it.
\<close>

theorem failed_start_keeps_closed_pcm:
  "opened example_platform None = Some fresh_world \<and>
   out_write example_platform (example_env\<lparr>start := example_start_env\<lparr>pcm_is_ready_ret := False\<rparr>\<rparr>)
     [1, 2, 3, 4, 5, 6, 7, 8] 32 fresh_world =
     Some \<lparr>wr_ret = 32,
           wr_world = fresh_world\<lparr>out := fresh_out\<lparr>pcm := Some 7,
                                                     pcm_config := Some Addr_pcm_config_out\<rparr>\<rparr>,
           wr_trace = [Pcm_open 0 0, Pcm_close (Some 7), Usleep 83],
           wr_buffer = [1, 2, 3, 4, 5, 6, 7, 8]\<rparr> \<and>
   standby (out (fresh_world\<lparr>out := fresh_out\<lparr>pcm := Some 7,
                                               pcm_config := Some Addr_pcm_config_out\<rparr>\<rparr>)) \<and>
   pcm (out (fresh_world\<lparr>out := fresh_out\<lparr>pcm := Some 7,
                                           pcm_config := Some Addr_pcm_config_out\<rparr>\<rparr>)) = Some 7 \<and>
   pcm (out (fst (do_out_standby example_platform active_world))) = None \<and>
   out_write example_platform example_env [1, 2, 3, 4, 5, 6, 7, 8] 32
     (fresh_world\<lparr>out := fresh_out\<lparr>pcm := Some 7, pcm_config := Some Addr_pcm_config_out\<rparr>\<rparr>) =
     Some \<lparr>wr_ret = 32,
           wr_world = fresh_world\<lparr>adev := example_adev\<lparr>active_out := Some Addr_out\<rparr>,
                                  out := active_out_stream\<lparr>written := 4\<rparr>\<rparr>,
           wr_trace = [Pcm_get_htimestamp, Pcm_write (Some 7) [1, 2, 3, 4, 5, 6, 7, 8] 32],
           wr_buffer = [1, 2, 3, 4, 5, 6, 7, 8]\<rparr>"
  by (simp add: opened_example) (simp add: write_eval do_out_standby_def)

subsection \<open>Route change\<close>

text \<open>
  Claim C5, as amended. For an active stream and a request that carries the routing
  key (\<open>0 \<le> ret\<close>): a value \<open>val\<close> different from the current route and from 0 puts
  the stream in standby and stores \<open>val\<close> as the route; a value equal to the current
  route or to 0 changes nothing and makes no call. On the next write after a change,
  the stream is active again exactly if \<^verbatim>\<open>start_output_stream\<close> returns 0, which it
  does whenever the PCM is ready, and the route is still \<open>val\<close>; if the start fails
  the stream stays in standby. When the active stream was reached from a freshly
  opened one, that start is defined: the stream has a configuration to open the PCM
  with.
\<close>

theorem route_change_forces_standby:
  assumes "\<not> standby (out w)" and "0 \<le>s ret"
  shows "(val \<noteq> out_device (adev w) \<and> val \<noteq> 0 \<longrightarrow>
            fst (out_set_parameters P ret val w) = ret \<and>
            standby (out (fst (snd (out_set_parameters P ret val w)))) \<and>
            out_device (adev (fst (snd (out_set_parameters P ret val w)))) = val) \<and>
         (val = out_device (adev w) \<or> val = 0 \<longrightarrow> out_set_parameters P ret val w = (ret, w, [])) \<and>
         (\<forall>e buf bytes r ret' w1 t1.
            val \<noteq> out_device (adev w) \<and> val \<noteq> 0 \<and>
            out_write P e buf bytes (fst (snd (out_set_parameters P ret val w))) = Some r \<and>
            start_output_stream P (start e) (fst (snd (out_set_parameters P ret val w)))
              = Some (ret', w1, t1) \<longrightarrow>
            (standby (out (wr_world r)) \<longleftrightarrow> ret' \<noteq> 0) \<and>
            (pcm_is_ready_ret (start e) \<longrightarrow> \<not> standby (out (wr_world r))) \<and>
            out_device (adev (wr_world r)) = val) \<and>
         (\<forall>h ops w0 e. opened P h = Some w0 \<and> run P ops w0 = Some w \<longrightarrow>
            (\<exists>ret' w1 t1. start_output_stream P e (fst (snd (out_set_parameters P ret val w)))
                              = Some (ret', w1, t1)))"
proof -
  have d: "\<exists>ret' w1 t1. start_output_stream P e (fst (snd (out_set_parameters P ret val w)))
                              = Some (ret', w1, t1)"
    if "opened P h = Some w0 \<and> run P ops w0 = Some w" for h ops w0 e
  proof -
    from that assms(1) have "pcm_config (out w) \<noteq> None"
      using reachable_active_config [of P h w0 ops w] by blast
    then have "pcm_config (out (fst (snd (out_set_parameters P ret val w)))) \<noteq> None"
      by (simp add: out_set_parameters_config)
    then show ?thesis
      by (rule start_output_stream_defined)
  qed
  from route_change_facts [OF assms, of val P] d show ?thesis
    by blast
qed

theorem route_change_forces_standby_witness:
  "\<not> standby (out active_world) \<and> (0 :: s32) \<le>s 1 \<and>
   (0x4 :: u32) \<noteq> out_device (adev active_world) \<and> (0x4 :: u32) \<noteq> 0 \<and>
   out_set_parameters example_platform 1 0x4 active_world =
     (1, routed_world,
      [Pcm_close (Some 7), Audio_route_reset, Audio_route_apply_path ''headphone'',
       Audio_route_apply_path ''main-mic-top'', Audio_route_update_mixer]) \<and>
   standby (out routed_world) \<and> out_device (adev routed_world) = 0x4 \<and>
   out_set_parameters example_platform 1 0x2 active_world = (1, active_world, []) \<and>
   out_set_parameters example_platform 1 0 active_world = (1, active_world, []) \<and>
   out_write example_platform example_env [1, 2, 3, 4, 5, 6, 7, 8] 32 routed_world =
     Some \<lparr>wr_ret = 32,
           wr_world = routed_world\<lparr>adev := example_adev\<lparr>out_device := 0x4, active_out := Some Addr_out\<rparr>,
                                   out := active_out_stream\<lparr>written := 1004\<rparr>\<rparr>,
           wr_trace = [Pcm_open 0 0, Pcm_get_htimestamp, Pcm_write (Some 7) [1, 2, 3, 4, 5, 6, 7, 8] 32],
           wr_buffer = [1, 2, 3, 4, 5, 6, 7, 8]\<rparr> \<and>
   \<not> standby (out (routed_world\<lparr>adev := example_adev\<lparr>out_device := 0x4, active_out := Some Addr_out\<rparr>,
                                  out := active_out_stream\<lparr>written := 1004\<rparr>\<rparr>))"
proof -
  have a: "\<not> standby (out active_world)" "out_device (adev active_world) = 0x2"
    by (simp_all add: active_world_def active_out_stream_def example_adev_def)
  have r: "(0 :: s32) \<le>s 1"
    by (simp add: word_sle_eq)
  have s: "out_set_parameters example_platform 1 0x4 active_world =
     (1, routed_world,
      [Pcm_close (Some 7), Audio_route_reset, Audio_route_apply_path ''headphone'',
       Audio_route_apply_path ''main-mic-top'', Audio_route_update_mixer])"
    using set_route_example by (simp add: routed_world_def)
  have w: "out_write example_platform example_env [1, 2, 3, 4, 5, 6, 7, 8] 32 routed_world =
     Some \<lparr>wr_ret = 32,
           wr_world = routed_world\<lparr>adev := example_adev\<lparr>out_device := 0x4, active_out := Some Addr_out\<rparr>,
                                   out := active_out_stream\<lparr>written := 1004\<rparr>\<rparr>,
           wr_trace = [Pcm_open 0 0, Pcm_get_htimestamp, Pcm_write (Some 7) [1, 2, 3, 4, 5, 6, 7, 8] 32],
           wr_buffer = [1, 2, 3, 4, 5, 6, 7, 8]\<rparr>"
    by (simp add: write_eval routed_world_def)
  note t = route_change_forces_standby [OF a(1) r, of _ example_platform]
  from t [of "0x4"] a(2) s have 1: "standby (out routed_world) \<and> out_device (adev routed_world) = 0x4"
    by simp
  from t [of "0x2"] a(2) have 2: "out_set_parameters example_platform 1 0x2 active_world = (1, active_world, [])"
    by simp
  from t [of 0] have 3: "out_set_parameters example_platform 1 0 active_world = (1, active_world, [])"
    by simp
  have 4: "\<not> standby (out (routed_world\<lparr>adev := example_adev\<lparr>out_device := 0x4, active_out := Some Addr_out\<rparr>,
                                  out := active_out_stream\<lparr>written := 1004\<rparr>\<rparr>))"
    by (simp add: active_out_stream_def)
  from a r s w 1 2 3 4 show ?thesis
    by simp
qed

text \<open>
  The claim as first stated, without the condition on the start, fails: after the
  route of the active example stream is changed from 2 to 4, a write whose PCM is not
  ready leaves the stream in standby.
\<close>

theorem route_change_next_write_counterexample:
  "\<not> standby (out active_world) \<and> out_device (adev active_world) = 0x2 \<and>
   out_set_parameters example_platform 1 0x4 active_world =
     (1, routed_world,
      [Pcm_close (Some 7), Audio_route_reset, Audio_route_apply_path ''headphone'',
       Audio_route_apply_path ''main-mic-top'', Audio_route_update_mixer]) \<and>
   out_write example_platform (example_env\<lparr>start := example_start_env\<lparr>pcm_is_ready_ret := False\<rparr>\<rparr>)
     [1, 2, 3, 4, 5, 6, 7, 8] 32 routed_world =
     Some \<lparr>wr_ret = 32,
           wr_world = routed_world\<lparr>out := active_out_stream\<lparr>standby := True\<rparr>\<rparr>,
           wr_trace = [Pcm_open 0 0, Pcm_close (Some 7), Usleep 83],
           wr_buffer = [1, 2, 3, 4, 5, 6, 7, 8]\<rparr> \<and>
   standby (out (routed_world\<lparr>out := active_out_stream\<lparr>standby := True\<rparr>\<rparr>))"
proof -
  have "out_set_parameters example_platform 1 0x4 active_world =
     (1, routed_world,
      [Pcm_close (Some 7), Audio_route_reset, Audio_route_apply_path ''headphone'',
       Audio_route_apply_path ''main-mic-top'', Audio_route_update_mixer])"
    using set_route_example by (simp add: routed_world_def)
  moreover have "out_write example_platform
       (example_env\<lparr>start := example_start_env\<lparr>pcm_is_ready_ret := False\<rparr>\<rparr>)
       [1, 2, 3, 4, 5, 6, 7, 8] 32 routed_world =
     Some \<lparr>wr_ret = 32,
           wr_world = routed_world\<lparr>out := active_out_stream\<lparr>standby := True\<rparr>\<rparr>,
           wr_trace = [Pcm_open 0 0, Pcm_close (Some 7), Usleep 83],
           wr_buffer = [1, 2, 3, 4, 5, 6, 7, 8]\<rparr>"
    by (simp add: write_eval routed_world_def)
  ultimately show ?thesis
    by (simp add: active_world_def active_out_stream_def example_adev_def)
qed

subsection \<open>The threshold ramp\<close>

text \<open>
  Claim C1. For a write on a route that is not an SCO route, with a target threshold
  that stays a quarter of a period away from both ends of the range of \<^verbatim>\<open>int\<close>, one
  of three things holds for \<^verbatim>\<open>cur_write_threshold\<close>. Either the call moved it by at
  most \<^verbatim>\<open>period_size / 4\<close>, and the new value lies between the old value and the
  target \<^verbatim>\<open>write_threshold\<close> (the ramp never overshoots the target). Or the stored
  buffer type was \<^verbatim>\<open>OUT_BUFFER_TYPE_UNKNOWN\<close> (the stream just left standby) and the new
  value is the target itself. Or the fast recovery was taken: for a fill level
  \<open>kf\<close> that the telemetry reported (or 0 when it reported none), \<open>kf\<close> is below the
  target by more than \<^verbatim>\<open>period_size * OUT_SHORT_PERIOD_COUNT\<close>, and the new value is
  \<^verbatim>\<open>(kf / period_size + 1) * period_size + period_size / 4\<close>.
\<close>

theorem threshold_ramp_bound:
  assumes ow: "out_write P e buf bytes w = Some r"
    and nsco: "out_device (adev w) AND AUDIO_DEVICE_OUT_ALL_SCO P = 0"
    and lo: "- (2 ^ 31) \<le> sint (write_threshold (out (wr_world r)))
                             - int (unat (period_size (pcm_config_out w)) div 4)"
    and hi: "sint (write_threshold (out (wr_world r)))
               + int (unat (period_size (pcm_config_out w)) div 4) < 2 ^ 31"
  shows "(\<bar>sint (cur_write_threshold (out (wr_world r))) - sint (cur_write_threshold (out w))\<bar>
            \<le> int (unat (period_size (pcm_config_out w)) div 4) \<and>
          min (sint (cur_write_threshold (out w))) (sint (write_threshold (out (wr_world r))))
            \<le> sint (cur_write_threshold (out (wr_world r))) \<and>
          sint (cur_write_threshold (out (wr_world r)))
            \<le> max (sint (cur_write_threshold (out w))) (sint (write_threshold (out (wr_world r)))))
         \<or> (stored_buffer_type P w = OUT_BUFFER_TYPE_UNKNOWN \<and>
             cur_write_threshold (out (wr_world r)) = write_threshold (out (wr_world r)))
         \<or> (\<exists>kf. (kf = 0 \<or> (\<exists>i avail ts. htimestamp e i = Some (avail, ts) \<and>
                                   kf = pcm_get_buffer_size_ret e - avail)) \<and>
                  fast_recovery_condition P (ucast (period_size (pcm_config_out w))) kf
                    (write_threshold (out (wr_world r))) \<and>
                  cur_write_threshold (out (wr_world r))
                    = fast_recovery_threshold (ucast (period_size (pcm_config_out w))) kf)"
  using ow
proof (cases rule: out_writeE)
  case (start_failed ret w1 t1)
  from out_write_exit_Some(2) [OF start_failed(4)] start_output_streamE(6) [OF start_failed(2)]
  have "cur_write_threshold (out (wr_world r)) = cur_write_threshold (out w)"
    by simp
  then show ?thesis
    by simp
next
  case (started w1 t1)
  let ?w = "w1\<lparr>out := (out w1)\<lparr>standby := False\<rparr>\<rparr>"
  note st = start_output_streamE [OF started(2)]
  from nsco st(8) have n: "out_device (adev ?w) AND AUDIO_DEVICE_OUT_ALL_SCO P = 0"
    by simp
  from st(7) have g: "pcm_config_out ?w = pcm_config_out w"
    by simp
  from st(6) have c: "cur_write_threshold (out ?w) = cur_write_threshold (out w)"
    by simp
  from start_buffer_type [OF started(2)] started(1)
  have bt: "buffer_type (out ?w) = stored_buffer_type P w"
    by (simp add: stored_buffer_type_def)
  from lo hi have lo': "- (2 ^ 31) \<le> sint (write_threshold (out (wr_world r)))
                             - int (unat (period_size (pcm_config_out ?w)) div 4)"
    and hi': "sint (write_threshold (out (wr_world r)))
               + int (unat (period_size (pcm_config_out ?w)) div 4) < 2 ^ 31"
    by (simp_all only: g)
  from out_write_body_threshold [OF started(3) n lo' hi']
  show ?thesis
    by (simp only: g c bt)
next
  case active
  from active(1) have bt: "buffer_type (out w) = stored_buffer_type P w"
    by (simp add: stored_buffer_type_def)
  from out_write_body_threshold [OF active(2) nsco lo hi]
  show ?thesis
    by (simp only: bt)
qed

theorem threshold_ramp_bound_witness:
  "out_write example_platform example_env [1, 2, 3, 4, 5, 6, 7, 8] 32
     (active_world\<lparr>out := active_out_stream\<lparr>cur_write_threshold := 600\<rparr>\<rparr>) =
     Some \<lparr>wr_ret = 32,
           wr_world = active_world\<lparr>out := active_out_stream\<lparr>written := 1004,
                                                            cur_write_threshold := 540\<rparr>\<rparr>,
           wr_trace = [Pcm_get_htimestamp, Pcm_write (Some 7) [1, 2, 3, 4, 5, 6, 7, 8] 32],
           wr_buffer = [1, 2, 3, 4, 5, 6, 7, 8]\<rparr> \<and>
   out_device (adev active_world) AND AUDIO_DEVICE_OUT_ALL_SCO example_platform = 0 \<and>
   - (2 ^ 31) \<le> sint (480 :: s32) - int (unat (240 :: u32) div 4) \<and>
   sint (480 :: s32) + int (unat (240 :: u32) div 4) < 2 ^ 31 \<and>
   \<bar>sint (540 :: s32) - sint (600 :: s32)\<bar> \<le> int (unat (240 :: u32) div 4) \<and>
   min (sint (600 :: s32)) (sint (480 :: s32)) \<le> sint (540 :: s32) \<and>
   sint (540 :: s32) \<le> max (sint (600 :: s32)) (sint (480 :: s32)) \<and>
   stored_buffer_type example_platform
     (active_world\<lparr>out := active_out_stream\<lparr>cur_write_threshold := 600\<rparr>\<rparr>) = OUT_BUFFER_TYPE_SHORT \<and>
   out_write example_platform (example_env\<lparr>htimestamp := (\<lambda>i. Some (1921, (1, 0)))\<rparr>)
     [1, 2, 3, 4, 5, 6, 7, 8] 32 active_world =
     Some \<lparr>wr_ret = 32,
           wr_world = active_world\<lparr>out := active_out_stream\<lparr>written := 1004,
                                                            cur_write_threshold := 284\<rparr>\<rparr>,
           wr_trace = [Pcm_get_htimestamp, Pcm_write (Some 7) [1, 2, 3, 4, 5, 6, 7, 8] 32],
           wr_buffer = [1, 2, 3, 4, 5, 6, 7, 8]\<rparr> \<and>
   fast_recovery_condition example_platform 240 (1920 - 1921) 480 \<and>
   fast_recovery_threshold 240 (1920 - 1921) = 284"
proof -
  let ?w = "active_world\<lparr>out := active_out_stream\<lparr>cur_write_threshold := 600\<rparr>\<rparr>"
  let ?r = "\<lparr>wr_ret = 32,
           wr_world = active_world\<lparr>out := active_out_stream\<lparr>written := 1004,
                                                            cur_write_threshold := 540\<rparr>\<rparr>,
           wr_trace = [Pcm_get_htimestamp, Pcm_write (Some 7) [1, 2, 3, 4, 5, 6, 7, 8] 32],
           wr_buffer = [1, 2, 3, 4, 5, 6, 7, 8]\<rparr>"
  have run: "out_write example_platform example_env [1, 2, 3, 4, 5, 6, 7, 8] 32 ?w = Some ?r"
    by (simp add: write_eval)
  have nsco: "out_device (adev ?w) AND AUDIO_DEVICE_OUT_ALL_SCO example_platform = 0"
    by (simp add: active_world_def example_adev_def example_platform_def)
  have lo: "- (2 ^ 31) \<le> sint (write_threshold (out (wr_world ?r)))
                             - int (unat (period_size (pcm_config_out ?w)) div 4)"
    by (simp add: active_world_def active_out_stream_def example_config_def)
  have hi: "sint (write_threshold (out (wr_world ?r)))
               + int (unat (period_size (pcm_config_out ?w)) div 4) < 2 ^ 31"
    by (simp add: active_world_def active_out_stream_def example_config_def)
  have sb: "stored_buffer_type example_platform ?w = OUT_BUFFER_TYPE_SHORT"
    by (simp add: stored_buffer_type_def active_world_def active_out_stream_def)
  have ne: "OUT_BUFFER_TYPE_SHORT \<noteq> OUT_BUFFER_TYPE_UNKNOWN"
    by (simp add: OUT_BUFFER_TYPE_SHORT_def OUT_BUFFER_TYPE_UNKNOWN_def)
  have fc: "\<not> fast_recovery_condition example_platform (ucast (period_size (pcm_config_out ?w))) kf
             (write_threshold (out (wr_world ?r))) \<or>
            cur_write_threshold (out (wr_world ?r))
              \<noteq> fast_recovery_threshold (ucast (period_size (pcm_config_out ?w))) kf"
    if "kf = 0 \<or> (\<exists>i avail ts. htimestamp example_env i = Some (avail, ts) \<and>
                              kf = pcm_get_buffer_size_ret example_env - avail)" for kf
    using that
    by (auto simp: fast_recovery_condition_def example_env_def active_world_def active_out_stream_def
        example_config_def example_platform_def int_sub_def word_sless_alt)
  from threshold_ramp_bound [OF run nsco lo hi] sb ne fc
  have bound: "\<bar>sint (cur_write_threshold (out (wr_world ?r))) - sint (cur_write_threshold (out ?w))\<bar>
            \<le> int (unat (period_size (pcm_config_out ?w)) div 4) \<and>
          min (sint (cur_write_threshold (out ?w))) (sint (write_threshold (out (wr_world ?r))))
            \<le> sint (cur_write_threshold (out (wr_world ?r))) \<and>
          sint (cur_write_threshold (out (wr_world ?r)))
            \<le> max (sint (cur_write_threshold (out ?w))) (sint (write_threshold (out (wr_world ?r))))"
    by (simp only: simp_thms) blast
  have snap: "out_write example_platform (example_env\<lparr>htimestamp := (\<lambda>i. Some (1921, (1, 0)))\<rparr>)
     [1, 2, 3, 4, 5, 6, 7, 8] 32 active_world =
     Some \<lparr>wr_ret = 32,
           wr_world = active_world\<lparr>out := active_out_stream\<lparr>written := 1004,
                                                            cur_write_threshold := 284\<rparr>\<rparr>,
           wr_trace = [Pcm_get_htimestamp, Pcm_write (Some 7) [1, 2, 3, 4, 5, 6, 7, 8] 32],
           wr_buffer = [1, 2, 3, 4, 5, 6, 7, 8]\<rparr>"
    by (simp add: write_eval)
  have cond: "fast_recovery_condition example_platform 240 (1920 - 1921) 480"
    by (simp add: fast_recovery_condition_def example_platform_def int_sub_def word_sless_alt)
  have thr: "fast_recovery_threshold 240 (1920 - 1921) = 284"
    by (simp add: fast_recovery_threshold_def)
  from bound have b': "\<bar>sint (540 :: s32) - sint (600 :: s32)\<bar> \<le> int (unat (240 :: u32) div 4) \<and>
   min (sint (600 :: s32)) (sint (480 :: s32)) \<le> sint (540 :: s32) \<and>
   sint (540 :: s32) \<le> max (sint (600 :: s32)) (sint (480 :: s32))"
    by (simp add: active_world_def active_out_stream_def example_config_def)
  have nsco': "out_device (adev active_world) AND AUDIO_DEVICE_OUT_ALL_SCO example_platform = 0"
    by (simp add: active_world_def example_adev_def example_platform_def)
  from run nsco' b' sb snap cond thr show ?thesis
    by simp
qed

end
